theory Spec2Isabelle
  imports Main "HOL-Library.AList" "HOL-Library.Sublist"
begin

section \<open>Python values as they occur in gallery\_dl/extractor/pixiv.py\<close>

text \<open>
  The extractor works on parsed JSON. A JSON object is a Python \<^verbatim>\<open>dict\<close>; it is kept as
  an association list in insertion order. Numbers are the integers the API uses
  (identifiers, page counts, frame delays); fractional numbers are outside the model.
  A \<^typ>\<open>char\<close> is a code point below 256, so a string with code points beyond that is
  outside the model as well.
\<close>

datatype json =
    JNull
  | JBool bool
  | JInt int
  | JStr string
  | JList "json list"
  | JObj "(string \<times> json) list"

type_synonym dict = "(string \<times> json) list"

text \<open>
  Every \<^verbatim>\<open>raise\<close> the modelled code can reach. \<open>Unmodelled\<close> marks the one place where
  the model stops short of Python: formatting a list or an object with \<^verbatim>\<open>str()\<close>.
\<close>

datatype error =
    KeyError string
  | TypeError
  | AttributeError
  | ValueError
  | NotFoundError
  | StopExtraction
  | AuthenticationError
  | Unmodelled

subsection \<open>Dictionaries\<close>

definition dict_get :: "dict \<Rightarrow> string \<Rightarrow> json option" where
  "dict_get d k = map_of d k"

text \<open>\<^verbatim>\<open>d[k] = v\<close>: an existing key keeps its position, a new one is appended.\<close>

definition dict_set :: "dict \<Rightarrow> string \<Rightarrow> json \<Rightarrow> dict" where
  "dict_set d k v = AList.update k v d"

text \<open>\<^verbatim>\<open>del d[k]\<close> raises \<^verbatim>\<open>KeyError\<close> when the key is missing.\<close>

definition dict_del :: "dict \<Rightarrow> string \<Rightarrow> error + dict" where
  "dict_del d k = (if dict_get d k = None then Inl (KeyError k) else Inr (AList.delete k d))"

text \<open>\<^verbatim>\<open>d.update(m)\<close>: the entries of \<open>m\<close> are stored into \<open>d\<close> one after the other.\<close>

fun dict_update :: "dict \<Rightarrow> dict \<Rightarrow> dict" where
  "dict_update d [] = d"
| "dict_update d ((k, v) # m) = dict_update (dict_set d k v) m"

subsection \<open>Truth value, subscription, iteration, equality\<close>

text \<open>\<^verbatim>\<open>bool(v)\<close>, as \<^verbatim>\<open>if v\<close> and \<^verbatim>\<open>not v\<close> use it.\<close>

fun truthy :: "json \<Rightarrow> bool" where
  "truthy JNull = False"
| "truthy (JBool b) = b"
| "truthy (JInt n) = (n \<noteq> 0)"
| "truthy (JStr s) = (s \<noteq> [])"
| "truthy (JList xs) = (xs \<noteq> [])"
| "truthy (JObj d) = (d \<noteq> [])"

text \<open>
  \<^verbatim>\<open>v[k]\<close> with a string key \<open>k\<close>: only a dict accepts it; lists and strings want an
  integer index, the other values are not subscriptable.
\<close>

fun subscript :: "json \<Rightarrow> string \<Rightarrow> error + json" where
  "subscript (JObj d) k = (case dict_get d k of None \<Rightarrow> Inl (KeyError k) | Some v \<Rightarrow> Inr v)"
| "subscript v k = Inl TypeError"

text \<open>
  \<^verbatim>\<open>for x in v\<close>: a list gives its elements, a string its characters, a dict its keys;
  nothing else is iterable.
\<close>

fun iterate :: "json \<Rightarrow> error + json list" where
  "iterate (JList xs) = Inr xs"
| "iterate (JStr s) = Inr (map (\<lambda>c. JStr [c]) s)"
| "iterate (JObj d) = Inr (map (\<lambda>(k, v). JStr k) d)"
| "iterate v = Inl TypeError"

text \<open>\<^verbatim>\<open>v == n\<close> for an integer literal \<open>n\<close>; \<^verbatim>\<open>True == 1\<close> and \<^verbatim>\<open>False == 0\<close> hold in Python.\<close>

fun eq_int :: "json \<Rightarrow> int \<Rightarrow> bool" where
  "eq_int (JInt m) n = (m = n)"
| "eq_int (JBool b) n = ((if b then 1 else 0) = n)"
| "eq_int v n = False"

text \<open>\<^verbatim>\<open>v == s\<close> for a string literal \<open>s\<close>.\<close>

fun eq_str :: "json \<Rightarrow> string \<Rightarrow> bool" where
  "eq_str (JStr t) s = (t = s)"
| "eq_str v s = False"

subsection \<open>String methods\<close>

text \<open>
  \<^verbatim>\<open>s.rpartition(sep)[2]\<close> for a one-character separator: what follows the last
  occurrence of \<open>sep\<close>, the whole string when there is none.
\<close>

definition rpartition2 :: "string \<Rightarrow> char \<Rightarrow> string" where
  "rpartition2 s sep = rev (takeWhile (\<lambda>c. c \<noteq> sep) (rev s))"

text \<open>
  The receiver of a string method (\<^verbatim>\<open>v.rpartition\<close>, \<^verbatim>\<open>v.replace\<close>): any value but a
  string raises \<^verbatim>\<open>AttributeError\<close>.
\<close>

fun str_of :: "json \<Rightarrow> error + string" where
  "str_of (JStr s) = Inr s"
| "str_of v = Inl AttributeError"

text \<open>
  \<^verbatim>\<open>s.replace(old, new)\<close>: every occurrence of \<open>old\<close>, found from the left and not
  overlapping an earlier one, becomes \<open>new\<close>. With an empty \<open>old\<close> Python puts \<open>new\<close>
  before every character and at the end.
\<close>

function replace :: "string \<Rightarrow> string \<Rightarrow> string \<Rightarrow> string" where
  "replace s old new =
     (if old = [] then concat (map (\<lambda>c. new @ [c]) s) @ new
      else if s = [] then []
      else if prefix old s then new @ replace (drop (length old) s) old new
      else hd s # replace (tl s) old new)"
  by pat_completeness auto
termination
  by (relation "measure (\<lambda>(s, old, new). length s)") auto

text \<open>Decimal digits of a natural number, and \<^verbatim>\<open>str(n)\<close> for an integer.\<close>

definition digit :: "nat \<Rightarrow> char" where
  "digit n = ''0123456789'' ! n"

fun digits :: "nat \<Rightarrow> string" where
  "digits n = (if n < 10 then [digit n] else digits (n div 10) @ [digit (n mod 10)])"

definition str_int :: "int \<Rightarrow> string" where
  "str_int i = (if i < 0 then CHR ''-'' # digits (nat (- i)) else digits (nat i))"

text \<open>
  \<^verbatim>\<open>"{:02}".format(n)\<close> for \<open>n \<ge> 0\<close>: zeros on the left up to width 2, never a digit cut.
\<close>

definition format_02 :: "nat \<Rightarrow> string" where
  "format_02 n = replicate (2 - length (digits n)) CHR ''0'' @ digits n"

text \<open>
  \<^verbatim>\<open>"{name}"\<close> in a format string renders the value as \<^verbatim>\<open>str()\<close> does. Lists and objects
  (Python's \<^verbatim>\<open>repr\<close> of containers) are not modelled.
\<close>

fun format_value :: "json \<Rightarrow> error + string" where
  "format_value JNull = Inr ''None''"
| "format_value (JBool b) = Inr (if b then ''True'' else ''False'')"
| "format_value (JInt i) = Inr (str_int i)"
| "format_value (JStr s) = Inr s"
| "format_value v = Inl Unmodelled"

declare digits.simps [simp del]
declare replace.simps [simp del]

section \<open>PixivAppAPI\<close>

text \<open>
  What the client does besides computing is written into a log of events, in the order
  it happens: the calls of \<^verbatim>\<open>login()\<close>, the requests given to the HTTP session and the
  lines given to the logger.
\<close>

datatype event =
    Login
  | Post string dict
  | Get string dict
  | LogInfo string
  | LogWarning string
  | LogError string

text \<open>
  A response of the HTTP session: \<^verbatim>\<open>response.status_code\<close>, \<^verbatim>\<open>response.text\<close> and the
  result of \<^verbatim>\<open>response.json()\<close>, which is \<open>None\<close> when the body is not JSON (Python
  raises \<^verbatim>\<open>ValueError\<close> then).
\<close>

record response =
  status_code :: int
  body_text :: string
  body_json :: "json option"

text \<open>
  The API object together with the surroundings it talks to. The transport is a script:
  \<open>get_responses n\<close> answers the \<open>n\<close>-th GET of the run and \<open>post_responses n\<close> the
  \<open>n\<close>-th POST, whatever is asked; every run against a real server is one such script.
  A transport that fails to deliver a response is outside the model.
\<close>

record api =
  username :: string
  password :: string
  client_id :: string
  client_secret :: string
  user_info :: json
  authorization :: "string option"
  cache :: "(json \<times> string) option"
  get_responses :: "nat \<Rightarrow> response"
  post_responses :: "nat \<Rightarrow> response"
  gets :: nat
  posts :: nat
  log :: "event list"

definition emit :: "event \<Rightarrow> api \<Rightarrow> api" where
  "emit e a = a\<lparr>log := log a @ [e]\<rparr>"

text \<open>\<^verbatim>\<open>self.session.get(url, params=params)\<close> and \<^verbatim>\<open>self.session.post(url, data=data)\<close>.\<close>

definition session_get :: "string \<Rightarrow> dict \<Rightarrow> api \<Rightarrow> response \<times> api" where
  "session_get url params a =
     (get_responses a (gets a), emit (Get url params) (a\<lparr>gets := Suc (gets a)\<rparr>))"

definition session_post :: "string \<Rightarrow> dict \<Rightarrow> api \<Rightarrow> response \<times> api" where
  "session_post url data a =
     (post_responses a (posts a), emit (Post url data) (a\<lparr>posts := Suc (posts a)\<rparr>))"

definition response_json :: "response \<Rightarrow> error + json" where
  "response_json r = (case body_json r of None \<Rightarrow> Inl ValueError | Some j \<Rightarrow> Inr j)"

text \<open>\<^verbatim>\<open>"Bearer " + v\<close>: only a string can be appended to a string.\<close>

fun bearer :: "json \<Rightarrow> error + string" where
  "bearer (JStr t) = Inr (''Bearer '' @ t)"
| "bearer v = Inl TypeError"

text \<open>The body of \<^verbatim>\<open>_login_impl\<close>, lines 346 to 363.\<close>

definition login_impl_body :: "api \<Rightarrow> (error + json \<times> string) \<times> api" where
  "login_impl_body a =
     (let a1 = emit (LogInfo (''Logging in as '' @ username a)) a;
          url = ''https://oauth.secure.pixiv.net/auth/token'';
          data = [(''client_id'', JStr (client_id a)),
                  (''client_secret'', JStr (client_secret a)),
                  (''grant_type'', JStr ''password''),
                  (''username'', JStr (username a)),
                  (''password'', JStr (password a)),
                  (''get_secure_url'', JInt 1)];
          (response, a2) = session_post url data a1
      in if status_code response \<ge> 400 then (Inl AuthenticationError, a2)
         else case response_json response of
             Inl e \<Rightarrow> (Inl e, a2)
           | Inr j \<Rightarrow>
              (case subscript j ''response'' of
                 Inl e \<Rightarrow> (Inl e, a2)
               | Inr data \<Rightarrow>
                  (case subscript data ''user'' of
                     Inl e \<Rightarrow> (Inl e, a2)
                   | Inr user \<Rightarrow>
                      (case subscript data ''access_token'' of
                         Inl e \<Rightarrow> (Inl e, a2)
                       | Inr token \<Rightarrow>
                          (case bearer token of
                             Inl e \<Rightarrow> (Inl e, a2)
                           | Inr auth \<Rightarrow> (Inr (user, auth), a2))))))"

text \<open>
  Modelled from the spec: the decorator \<^verbatim>\<open>cache(maxage=3590, keyarg=1)\<close> of
  \<^verbatim>\<open>_login_impl\<close> comes from \<^verbatim>\<open>gallery_dl/cache.py\<close>, which is not among the sources. The
  spec (4.1) has the credential stored under the identity and returned without network
  traffic as long as it is valid; a login that raises stores nothing. An API object has
  one identity, so the cache is one optional entry; its expiry after 3590 seconds is a
  matter of real time and is left to whoever sets up the state.
\<close>

definition login_impl :: "api \<Rightarrow> (error + json \<times> string) \<times> api" where
  "login_impl a =
     (case cache a of
        Some credential \<Rightarrow> (Inr credential, a)
      | None \<Rightarrow>
         (case login_impl_body a of
            (Inl e, a1) \<Rightarrow> (Inl e, a1)
          | (Inr credential, a1) \<Rightarrow> (Inr credential, a1\<lparr>cache := Some credential\<rparr>)))"

text \<open>\<^verbatim>\<open>login\<close>, lines 338 to 342.\<close>

definition login :: "api \<Rightarrow> (error + unit) \<times> api" where
  "login a =
     (case login_impl (emit Login a) of
        (Inl e, a1) \<Rightarrow> (Inl e, a1)
      | (Inr (user, auth), a1) \<Rightarrow> (Inr (), a1\<lparr>user_info := user, authorization := Some auth\<rparr>))"

text \<open>\<^verbatim>\<open>_call\<close>, lines 389 to 400.\<close>

definition call :: "string \<Rightarrow> dict \<Rightarrow> api \<Rightarrow> (error + json) \<times> api" where
  "call endpoint params a =
     (let url = ''https://app-api.pixiv.net/'' @ endpoint
      in case login a of
           (Inl e, a1) \<Rightarrow> (Inl e, a1)
         | (Inr u, a1) \<Rightarrow>
            (let (response, a2) = session_get url params a1
             in if 200 \<le> status_code response \<and> status_code response < 400
                then (response_json response, a2)
                else if status_code response = 404 then (Inl NotFoundError, a2)
                else (Inl StopExtraction,
                      emit (LogError (''API request failed: '' @ body_text response)) a2)))"

text \<open>\<^verbatim>\<open>ugoira_metadata\<close>, lines 385 to 387.\<close>

definition ugoira_metadata :: "json \<Rightarrow> api \<Rightarrow> (error + json) \<times> api" where
  "ugoira_metadata illust_id a =
     (let params = [(''illust_id'', illust_id)]
      in case call ''v1/ugoira/metadata'' params a of
           (Inl e, a1) \<Rightarrow> (Inl e, a1)
         | (Inr j, a1) \<Rightarrow> (subscript j ''ugoira_metadata'', a1))"

text \<open>
  \<^verbatim>\<open>_pagination\<close>, lines 402 to 409, drained by a consumer that pulls until the generator
  ends. The result holds the items yielded, in order, and how the generator ended:
  \<open>None\<close> for the \<^verbatim>\<open>return\<close>, \<open>Some e\<close> for an exception. \<open>pagination_loop\<close> is the
  \<^verbatim>\<open>while True\<close> loop, \<open>acc\<close> the items yielded by the pages already behind. A run that
  asks for pages forever has no result.
\<close>

partial_function (option) pagination_loop ::
    "string \<Rightarrow> dict \<Rightarrow> json list \<Rightarrow> api \<Rightarrow> ((json list \<times> error option) \<times> api) option" where
  "pagination_loop endpoint params acc a =
     (case call endpoint params a of
        (Inl e, a1) \<Rightarrow> Some ((acc, Some e), a1)
      | (Inr data, a1) \<Rightarrow>
         (case subscript data ''illusts'' of
            Inl e \<Rightarrow> Some ((acc, Some e), a1)
          | Inr illusts \<Rightarrow>
             (case iterate illusts of
                Inl e \<Rightarrow> Some ((acc, Some e), a1)
              | Inr works \<Rightarrow>
                 (case subscript data ''next_url'' of
                    Inl e \<Rightarrow> Some ((acc @ works, Some e), a1)
                  | Inr next_url \<Rightarrow>
                     if \<not> truthy next_url then Some ((acc @ works, None), a1)
                     else (case str_of next_url of
                             Inl e \<Rightarrow> Some ((acc @ works, Some e), a1)
                           | Inr next \<Rightarrow>
                               pagination_loop endpoint
                                 (dict_set params ''offset'' (JStr (rpartition2 next CHR ''='')))
                                 (acc @ works) a1)))))"

definition pagination ::
    "string \<Rightarrow> dict \<Rightarrow> api \<Rightarrow> ((json list \<times> error option) \<times> api) option" where
  "pagination endpoint params a = pagination_loop endpoint params [] a"

text \<open>\<^verbatim>\<open>illust_ranking\<close>, lines 369 to 371.\<close>

definition illust_ranking ::
    "string \<Rightarrow> string \<Rightarrow> api \<Rightarrow> ((json list \<times> error option) \<times> api) option" where
  "illust_ranking mode date a =
     (let params = [(''mode'', JStr mode), (''date'', JStr date)]
      in pagination ''v1/illust/ranking'' params a)"

section \<open>PixivExtractor.items\<close>

text \<open>
  The messages of the generator. A \<open>Url\<close> message carries the work dict as it is at the
  moment of the \<^verbatim>\<open>yield\<close>, which is what the consumer of the generator gets to see
  before the generator runs on.
\<close>

datatype message =
    Version int
  | Directory dict
  | Url string dict

text \<open>
  What one pass through the loop body leaves behind: the messages yielded, the exception
  that ended it (if any), the work object as the pass leaves it, and the API object.
\<close>

record resolved =
  yielded :: "message list"
  raised :: "error option"
  work_end :: json
  api_end :: api

text \<open>\<^verbatim>\<open>[tag["name"] for tag in ...]\<close>, line 46.\<close>

fun tag_names :: "json list \<Rightarrow> error + json list" where
  "tag_names [] = Inr []"
| "tag_names (tag # tags) =
     (case subscript tag ''name'' of
        Inl e \<Rightarrow> Inl e
      | Inr name \<Rightarrow> (case tag_names tags of Inl e \<Rightarrow> Inl e | Inr names \<Rightarrow> Inr (name # names)))"

text \<open>
  Lines 40 to 47: the work dict is changed in place. The result is either the exception
  with the dict as it is when the exception is raised, or \<^verbatim>\<open>meta_single_page\<close>,
  \<^verbatim>\<open>meta_pages\<close> and the dict after \<^verbatim>\<open>work.update(metadata)\<close>.
\<close>

definition prepare :: "dict \<Rightarrow> dict \<Rightarrow> error \<times> dict + json \<times> json \<times> dict" where
  "prepare metadata work =
     (case subscript (JObj work) ''meta_single_page'' of
        Inl e \<Rightarrow> Inl (e, work)
      | Inr meta_single_page \<Rightarrow>
     (case subscript (JObj work) ''meta_pages'' of
        Inl e \<Rightarrow> Inl (e, work)
      | Inr meta_pages \<Rightarrow>
     (case dict_del work ''meta_single_page'' of
        Inl e \<Rightarrow> Inl (e, work)
      | Inr work1 \<Rightarrow>
     (case dict_del work1 ''image_urls'' of
        Inl e \<Rightarrow> Inl (e, work1)
      | Inr work2 \<Rightarrow>
     (case dict_del work2 ''meta_pages'' of
        Inl e \<Rightarrow> Inl (e, work2)
      | Inr work3 \<Rightarrow>
     (let work4 = dict_set work3 ''num'' (JStr [])
      in case subscript (JObj work4) ''tags'' of
           Inl e \<Rightarrow> Inl (e, work4)
         | Inr tags \<Rightarrow>
        (case iterate tags of
           Inl e \<Rightarrow> Inl (e, work4)
         | Inr ts \<Rightarrow>
        (case tag_names ts of
           Inl e \<Rightarrow> Inl (e, work4)
         | Inr names \<Rightarrow>
             Inr (meta_single_page, meta_pages,
                  dict_update (dict_set work4 ''tags'' (JList names)) metadata)))))))))"

text \<open>Lines 54 and 55: the URL of the archive.\<close>

definition ugoira_url :: "json \<Rightarrow> error + string" where
  "ugoira_url ugoira =
     (case subscript ugoira ''zip_urls'' of
        Inl e \<Rightarrow> Inl e
      | Inr zip_urls \<Rightarrow>
         (case subscript zip_urls ''medium'' of
            Inl e \<Rightarrow> Inl e
          | Inr medium \<Rightarrow>
             (case str_of medium of
                Inl e \<Rightarrow> Inl e
              | Inr m \<Rightarrow> Inr (replace m ''_ugoira600x600'' ''_ugoira1920x1080''))))"

text \<open>\<^verbatim>\<open>"{file} {delay}\n".format_map(frame)\<close>, line 60.\<close>

definition frame_line :: "json \<Rightarrow> error + string" where
  "frame_line frame =
     (case subscript frame ''file'' of
        Inl e \<Rightarrow> Inl e
      | Inr file \<Rightarrow>
     (case format_value file of
        Inl e \<Rightarrow> Inl e
      | Inr f \<Rightarrow>
     (case subscript frame ''delay'' of
        Inl e \<Rightarrow> Inl e
      | Inr delay \<Rightarrow>
     (case format_value delay of
        Inl e \<Rightarrow> Inl e
      | Inr d \<Rightarrow> Inr (f @ '' '' @ d @ [CHR 0x0A])))))"

fun frame_lines :: "json list \<Rightarrow> error + string list" where
  "frame_lines [] = Inr []"
| "frame_lines (frame # frames) =
     (case frame_line frame of
        Inl e \<Rightarrow> Inl e
      | Inr l \<Rightarrow> (case frame_lines frames of Inl e \<Rightarrow> Inl e | Inr ls \<Rightarrow> Inr (l # ls)))"

text \<open>Lines 59 to 62: the lines joined with \<^verbatim>\<open>"".join\<close>.\<close>

definition framelist :: "json \<Rightarrow> error + string" where
  "framelist ugoira =
     (case subscript ugoira ''frames'' of
        Inl e \<Rightarrow> Inl e
      | Inr frames \<Rightarrow>
         (case iterate frames of
            Inl e \<Rightarrow> Inl e
          | Inr fs \<Rightarrow> (case frame_lines fs of Inl e \<Rightarrow> Inl e | Inr ls \<Rightarrow> Inr (concat ls))))"

text \<open>Lines 50 to 64: the branch of a work whose type is \<^verbatim>\<open>"ugoira"\<close>.\<close>

definition ugoira_branch :: "bool \<Rightarrow> dict \<Rightarrow> api \<Rightarrow> resolved" where
  "ugoira_branch load_ugoira work a =
     (if \<not> load_ugoira
      then \<lparr>yielded = [], raised = None, work_end = JObj work, api_end = a\<rparr>
      else case subscript (JObj work) ''id'' of
        Inl e \<Rightarrow> \<lparr>yielded = [], raised = Some e, work_end = JObj work, api_end = a\<rparr>
      | Inr illust_id \<Rightarrow>
     (case ugoira_metadata illust_id a of
        (Inl e, a1) \<Rightarrow> \<lparr>yielded = [], raised = Some e, work_end = JObj work, api_end = a1\<rparr>
      | (Inr ugoira, a1) \<Rightarrow>
     (case ugoira_url ugoira of
        Inl e \<Rightarrow> \<lparr>yielded = [], raised = Some e, work_end = JObj work, api_end = a1\<rparr>
      | Inr url \<Rightarrow>
     (let work1 = dict_set work ''extension'' (JStr ''zip'')
      in case framelist ugoira of
           Inl e \<Rightarrow>
             \<lparr>yielded = [Url url work1], raised = Some e, work_end = JObj work1, api_end = a1\<rparr>
         | Inr lines \<Rightarrow>
            (let work2 = dict_set work1 ''extension'' (JStr ''txt'')
             in \<lparr>yielded = [Url url work1, Url (''text:'' @ lines) work2], raised = None,
                 work_end = JObj work2, api_end = a1\<rparr>)))))"

text \<open>Lines 67 to 69: the branch of a work with \<^verbatim>\<open>page_count == 1\<close>.\<close>

definition single_branch :: "json \<Rightarrow> dict \<Rightarrow> api \<Rightarrow> resolved" where
  "single_branch meta_single_page work a =
     (case subscript meta_single_page ''original_image_url'' of
        Inl e \<Rightarrow> \<lparr>yielded = [], raised = Some e, work_end = JObj work, api_end = a\<rparr>
      | Inr url \<Rightarrow>
         (case str_of url of
            Inl e \<Rightarrow> \<lparr>yielded = [], raised = Some e, work_end = JObj work, api_end = a\<rparr>
          | Inr u \<Rightarrow>
             (let work1 = dict_set work ''extension'' (JStr (rpartition2 u CHR ''.''))
              in \<lparr>yielded = [Url u work1], raised = None, work_end = JObj work1,
                  api_end = a\<rparr>)))"

text \<open>
  Lines 72 to 76: \<^verbatim>\<open>for num, img in enumerate(meta_pages)\<close>, from index \<open>num\<close> on. The
  result is the messages, the exception (if any) and the work dict at the end.
\<close>

fun pages_loop :: "nat \<Rightarrow> json list \<Rightarrow> dict \<Rightarrow> message list \<times> error option \<times> dict" where
  "pages_loop num [] work = ([], None, work)"
| "pages_loop num (img # imgs) work =
     (case subscript img ''image_urls'' of
        Inl e \<Rightarrow> ([], Some e, work)
      | Inr image_urls \<Rightarrow>
     (case subscript image_urls ''original'' of
        Inl e \<Rightarrow> ([], Some e, work)
      | Inr url \<Rightarrow>
     (let work1 = dict_set work ''num'' (JStr (''_p'' @ format_02 num))
      in case str_of url of
           Inl e \<Rightarrow> ([], Some e, work1)
         | Inr u \<Rightarrow>
            (let work2 = dict_set work1 ''extension'' (JStr (rpartition2 u CHR ''.''));
                 (ms, r, work3) = pages_loop (Suc num) imgs work2
             in (Url u work2 # ms, r, work3)))))"

definition pages_branch :: "json \<Rightarrow> dict \<Rightarrow> api \<Rightarrow> resolved" where
  "pages_branch meta_pages work a =
     (case iterate meta_pages of
        Inl e \<Rightarrow> \<lparr>yielded = [], raised = Some e, work_end = JObj work, api_end = a\<rparr>
      | Inr imgs \<Rightarrow>
         (let (ms, r, work1) = pages_loop 0 imgs work
          in \<lparr>yielded = ms, raised = r, work_end = JObj work1, api_end = a\<rparr>))"

text \<open>Lines 37 to 76: the body of the loop, for a work that is a dict.\<close>

definition items_dict :: "bool \<Rightarrow> dict \<Rightarrow> dict \<Rightarrow> api \<Rightarrow> resolved" where
  "items_dict load_ugoira metadata work a =
     (case subscript (JObj work) ''user'' of
        Inl e \<Rightarrow> \<lparr>yielded = [], raised = Some e, work_end = JObj work, api_end = a\<rparr>
      | Inr user \<Rightarrow>
     (case subscript user ''id'' of
        Inl e \<Rightarrow> \<lparr>yielded = [], raised = Some e, work_end = JObj work, api_end = a\<rparr>
      | Inr user_id \<Rightarrow>
     (if \<not> truthy user_id
      then \<lparr>yielded = [], raised = None, work_end = JObj work, api_end = a\<rparr>
      else case prepare metadata work of
        Inl (e, work1) \<Rightarrow>
          \<lparr>yielded = [], raised = Some e, work_end = JObj work1, api_end = a\<rparr>
      | Inr (meta_single_page, meta_pages, work1) \<Rightarrow>
     (case subscript (JObj work1) ''type'' of
        Inl e \<Rightarrow> \<lparr>yielded = [], raised = Some e, work_end = JObj work1, api_end = a\<rparr>
      | Inr type \<Rightarrow>
     (if eq_str type ''ugoira'' then ugoira_branch load_ugoira work1 a
      else case subscript (JObj work1) ''page_count'' of
        Inl e \<Rightarrow> \<lparr>yielded = [], raised = Some e, work_end = JObj work1, api_end = a\<rparr>
      | Inr page_count \<Rightarrow>
          if eq_int page_count 1 then single_branch meta_single_page work1 a
          else pages_branch meta_pages work1 a)))))"

text \<open>
  The body of the loop for any value the work sequence hands over: \<^verbatim>\<open>work["user"]\<close>
  raises \<^verbatim>\<open>TypeError\<close> on everything but a dict.
\<close>

fun items_work :: "bool \<Rightarrow> dict \<Rightarrow> json \<Rightarrow> api \<Rightarrow> resolved" where
  "items_work load_ugoira metadata (JObj work) a = items_dict load_ugoira metadata work a"
| "items_work load_ugoira metadata work a =
     \<lparr>yielded = [], raised = Some TypeError, work_end = work, api_end = a\<rparr>"

text \<open>
  Lines 36 to 76: the loop over \<^verbatim>\<open>self.works()\<close>, given as the list of the works it
  produces. An exception ends the generator; the works not reached stay as they are.
\<close>

fun works_loop ::
    "bool \<Rightarrow> dict \<Rightarrow> json list \<Rightarrow> api \<Rightarrow> message list \<times> error option \<times> json list \<times> api" where
  "works_loop load_ugoira metadata [] a = ([], None, [], a)"
| "works_loop load_ugoira metadata (work # works) a =
     (let r = items_work load_ugoira metadata work a
      in case raised r of
           Some e \<Rightarrow> (yielded r, Some e, work_end r # works, api_end r)
         | None \<Rightarrow>
            (let (ms, e, ws, a1) = works_loop load_ugoira metadata works (api_end r)
             in (yielded r @ ms, e, work_end r # ws, a1)))"

text \<open>
  \<^verbatim>\<open>items\<close>, lines 30 to 76, with \<open>metadata\<close> the dict that \<^verbatim>\<open>self.get_metadata()\<close> has
  returned.
\<close>

definition items ::
    "bool \<Rightarrow> dict \<Rightarrow> json list \<Rightarrow> api \<Rightarrow> message list \<times> error option \<times> json list \<times> api" where
  "items load_ugoira metadata works a =
     (let (ms, e, ws, a1) = works_loop load_ugoira metadata works a
      in (Version 1 # Directory metadata # ms, e, ws, a1))"

section \<open>PixivRankingExtractor\<close>

text \<open>
  \<^verbatim>\<open>str.lower()\<close> on code points below 256: the letters A to Z and the capital letters of
  Latin-1 (U+00C0 to U+00DE without the multiplication sign U+00D7) move up by 32, which
  sets one bit; every other character stays.
\<close>

fun lower_char :: "char \<Rightarrow> char" where
  "lower_char (Char b0 b1 b2 b3 b4 b5 b6 b7) =
     (let n = (of_char (Char b0 b1 b2 b3 b4 b5 b6 b7) :: nat)
      in if (65 \<le> n \<and> n \<le> 90) \<or> (192 \<le> n \<and> n \<le> 222 \<and> n \<noteq> 215)
         then Char b0 b1 b2 b3 b4 True b6 b7
         else Char b0 b1 b2 b3 b4 b5 b6 b7)"

definition lower :: "string \<Rightarrow> string" where
  "lower s = map lower_char s"

text \<open>
  \<^verbatim>\<open>str.isdecimal()\<close>: at least one character, and all of them decimal digits. Below code
  point 256 the decimal digits are 0 to 9.
\<close>

definition isdecimal :: "string \<Rightarrow> bool" where
  "isdecimal s = (s \<noteq> [] \<and> list_all (\<lambda>c. c \<in> set ''0123456789'') s)"

text \<open>\<^verbatim>\<open>s[i:j]\<close> for constant bounds \<open>0 \<le> i \<le> j\<close>.\<close>

definition slice :: "string \<Rightarrow> nat \<Rightarrow> nat \<Rightarrow> string" where
  "slice s i j = take (j - i) (drop i s)"

text \<open>
  The clock is not part of the model: \<open>yesterday\<close> below stands for the value of
  \<^verbatim>\<open>datetime.utcnow() - timedelta(days=1)\<close>, of which \<^verbatim>\<open>strftime("%Y-%m-%d")\<close> reads
  year, month and day. The year is written with four digits, month and day with two.
\<close>

record datetime =
  year :: nat
  month :: nat
  day :: nat

definition zfill :: "nat \<Rightarrow> string \<Rightarrow> string" where
  "zfill w s = replicate (w - length s) CHR ''0'' @ s"

definition strftime_Ymd :: "datetime \<Rightarrow> string" where
  "strftime_Ymd t =
     zfill 4 (digits (year t)) @ ''-'' @ zfill 2 (digits (month t)) @ ''-'' @ zfill 2 (digits (day t))"

text \<open>The table \<^verbatim>\<open>modes\<close>, lines 266 to 279, and \<^verbatim>\<open>modes[mode]\<close>.\<close>

definition modes :: "(string \<times> string) list" where
  "modes =
     [(''daily'', ''day''),
      (''daily_r18'', ''day_r18''),
      (''weekly'', ''week''),
      (''weekly_r18'', ''week_r18''),
      (''monthly'', ''month''),
      (''male'', ''day_male''),
      (''male_r18'', ''day_male_r18''),
      (''female'', ''day_female''),
      (''female_r18'', ''day_female_r18''),
      (''original'', ''week_original''),
      (''rookie'', ''week_rookie''),
      (''r18g'', ''week_r18g'')]"

definition modes_getitem :: "string \<Rightarrow> error + string" where
  "modes_getitem mode = (case map_of modes mode of None \<Rightarrow> Inl (KeyError mode) | Some v \<Rightarrow> Inr v)"

text \<open>The extractor object after \<^verbatim>\<open>__init__\<close>, with the lines it gave to the logger.\<close>

record ranking =
  self_mode :: string
  self_date :: string
  self_ranking_info :: dict
  self_log :: "event list"

text \<open>The truth value of \<^verbatim>\<open>date\<close>, which is \<^verbatim>\<open>None\<close> or a string.\<close>

fun truthy_str :: "string option \<Rightarrow> bool" where
  "truthy_str None = False"
| "truthy_str (Some s) = (s \<noteq> [])"

text \<open>Lines 283 to 286.\<close>

definition parse_mode :: "(string \<times> string) list \<Rightarrow> string \<times> event list" where
  "parse_mode query =
     (let mode = lower (case map_of query ''mode'' of None \<Rightarrow> ''daily'' | Some m \<Rightarrow> m)
      in if map_of modes mode = None
         then (''daily'', [LogWarning (''invalid mode '' @ [CHR 0x27] @ mode @ [CHR 0x27])])
         else (mode, []))"

text \<open>Lines 289 to 297.\<close>

definition parse_date :: "(string \<times> string) list \<Rightarrow> datetime \<Rightarrow> string \<times> event list" where
  "parse_date query yesterday =
     (let date = map_of query ''date'';
          (date1, warnings) =
            (case date of
               None \<Rightarrow> (date, [])
             | Some d \<Rightarrow>
                 if truthy_str date
                 then if length d = 8 \<and> isdecimal d
                      then (Some (slice d 0 4 @ ''-'' @ slice d 4 6 @ ''-'' @ slice d 6 8), [])
                      else (None,
                            [LogWarning (''invalid date '' @ [CHR 0x27] @ d @ [CHR 0x27])])
                 else (date, []))
      in case date1 of
           None \<Rightarrow> (strftime_Ymd yesterday, warnings)
         | Some d \<Rightarrow> if \<not> truthy_str date1 then (strftime_Ymd yesterday, warnings)
                     else (d, warnings))"

text \<open>
  \<^verbatim>\<open>__init__\<close>, lines 263 to 300, with \<open>query\<close> the dict that \<^verbatim>\<open>text.parse_query\<close> has made
  of the query string.
\<close>

definition ranking_init :: "(string \<times> string) list \<Rightarrow> datetime \<Rightarrow> error + ranking" where
  "ranking_init query yesterday =
     (let (mode, warnings1) = parse_mode query
      in case modes_getitem mode of
           Inl e \<Rightarrow> Inl e
         | Inr api_mode \<Rightarrow>
            (let (date, warnings2) = parse_date query yesterday
             in Inr \<lparr>self_mode = api_mode,
                     self_date = date,
                     self_ranking_info = [(''mode'', JStr mode), (''date'', JStr date)],
                     self_log = warnings1 @ warnings2\<rparr>))"

text \<open>\<^verbatim>\<open>works\<close> and \<^verbatim>\<open>get_metadata\<close> of the ranking extractor, lines 302 to 306.\<close>

definition ranking_works ::
    "ranking \<Rightarrow> api \<Rightarrow> ((json list \<times> error option) \<times> api) option" where
  "ranking_works self a = illust_ranking (self_mode self) (self_date self) a"

definition ranking_get_metadata :: "ranking \<Rightarrow> dict" where
  "ranking_get_metadata self = [(''ranking'', JObj (self_ranking_info self))]"

section \<open>Initial state and sample data\<close>

text \<open>
  \<^verbatim>\<open>PixivAppAPI.__init__\<close>, lines 319 to 336, with the default client keys: no user
  information yet, no \<^verbatim>\<open>Authorization\<close> header, nothing requested, nothing logged. The
  state of the login cache and the scripts of the transport come from outside.
\<close>

definition api_init ::
    "string \<Rightarrow> string \<Rightarrow> (json \<times> string) option \<Rightarrow> (nat \<Rightarrow> response) \<Rightarrow> (nat \<Rightarrow> response) \<Rightarrow> api" where
  "api_init user pass cached get_script post_script =
     \<lparr>username = user, password = pass,
      client_id = ''MOBrBDS8blbauoSck0ZfDbtuzpyT'',
      client_secret = ''lsACyCD94FhDUtGTXi3QzcFE2uU1hqtDaKeqrdwj'',
      user_info = JNull, authorization = None, cache = cached,
      get_responses = get_script, post_responses = post_script,
      gets = 0, posts = 0, log = []\<rparr>"

text \<open>Responses used in the examples below.\<close>

definition json_response :: "int \<Rightarrow> json \<Rightarrow> response" where
  "json_response code j = \<lparr>status_code = code, body_text = [], body_json = Some j\<rparr>"

definition text_response :: "int \<Rightarrow> string \<Rightarrow> response" where
  "text_response code t = \<lparr>status_code = code, body_text = t, body_json = None\<rparr>"

definition sample_credential :: "json \<times> string" where
  "sample_credential = (JObj [(''id'', JStr ''173530'')], ''Bearer abc'')"

text \<open>A user as a work carries it, and the same user as \<^verbatim>\<open>user_detail\<close> returns it.\<close>

definition sample_user :: json where
  "sample_user = JObj [(''id'', JInt 173530), (''account'', JStr ''del_shannon'')]"

definition sample_user_detail :: json where
  "sample_user_detail =
     JObj [(''id'', JInt 173530), (''account'', JStr ''del_shannon''),
           (''comment'', JStr ''hello'')]"

definition sample_metadata :: dict where
  "sample_metadata = [(''user'', sample_user_detail)]"

text \<open>A work of one image, a work of three pages and an animation.\<close>

definition sample_single :: dict where
  "sample_single =
     [(''id'', JInt 966412),
      (''user'', sample_user),
      (''type'', JStr ''illust''),
      (''page_count'', JInt 1),
      (''tags'', JList [JObj [(''name'', JStr ''sky'')], JObj [(''name'', JStr ''sea'')]]),
      (''image_urls'', JObj [(''large'', JStr ''https://i.pximg.net/c/966412_p0_master.jpg'')]),
      (''meta_single_page'',
         JObj [(''original_image_url'', JStr ''https://i.pximg.net/img/966412_p0.png'')]),
      (''meta_pages'', JList [])]"

definition sample_pages :: dict where
  "sample_pages =
     [(''id'', JInt 62568267),
      (''user'', sample_user),
      (''type'', JStr ''manga''),
      (''page_count'', JInt 3),
      (''tags'', JList [JObj [(''name'', JStr ''sky'')]]),
      (''image_urls'', JObj [(''large'', JStr ''https://i.pximg.net/c/62568267_p0_master.jpg'')]),
      (''meta_single_page'', JObj []),
      (''meta_pages'',
         JList [JObj [(''image_urls'', JObj [(''original'', JStr ''https://i.pximg.net/img/62568267_p0.png'')])],
                JObj [(''image_urls'', JObj [(''original'', JStr ''https://i.pximg.net/img/62568267_p1.jpg'')])],
                JObj [(''image_urls'', JObj [(''original'', JStr ''https://i.pximg.net/img/62568267_p2.png'')])]])]"

definition sample_animation :: dict where
  "sample_animation =
     [(''id'', JInt 66806629),
      (''user'', sample_user),
      (''type'', JStr ''ugoira''),
      (''page_count'', JInt 1),
      (''tags'', JList [JObj [(''name'', JStr ''gif'')]]),
      (''image_urls'', JObj [(''large'', JStr ''https://i.pximg.net/c/66806629_master.jpg'')]),
      (''meta_single_page'',
         JObj [(''original_image_url'', JStr ''https://i.pximg.net/img/66806629_ugoira0.jpg'')]),
      (''meta_pages'', JList [])]"

text \<open>The frame metadata of the animation, and the body of the response that carries it.\<close>

definition sample_ugoira :: json where
  "sample_ugoira =
     JObj [(''zip_urls'',
              JObj [(''medium'', JStr ''https://i.pximg.net/zip/66806629_ugoira600x600.zip'')]),
           (''frames'',
              JList [JObj [(''file'', JStr ''000000.jpg''), (''delay'', JInt 100)],
                     JObj [(''file'', JStr ''000001.jpg''), (''delay'', JInt 80)]])]"

definition sample_ugoira_body :: json where
  "sample_ugoira_body = JObj [(''ugoira_metadata'', sample_ugoira)]"

section \<open>Notions used to state the properties\<close>

text \<open>
  A list of dicts laid over each other, the later ones on top: a key has the value of
  the last dict that holds it.
\<close>

fun overlay :: "dict list \<Rightarrow> string \<Rightarrow> json option" where
  "overlay [] k = None"
| "overlay (d # ds) k = (case overlay ds k of Some v \<Rightarrow> Some v | None \<Rightarrow> dict_get d k)"

text \<open>A work without the three keys that \<^verbatim>\<open>items\<close> deletes.\<close>

definition stripped :: "dict \<Rightarrow> dict" where
  "stripped work =
     filter (\<lambda>(k, v). k \<notin> {''meta_single_page'', ''image_urls'', ''meta_pages''}) work"

text \<open>The parts of a message.\<close>

fun message_url :: "message \<Rightarrow> string" where
  "message_url (Url u w) = u"
| "message_url m = []"

fun message_metadata :: "message \<Rightarrow> dict" where
  "message_metadata (Url u w) = w"
| "message_metadata (Directory d) = d"
| "message_metadata (Version v) = []"

definition metadata_field :: "string \<Rightarrow> message \<Rightarrow> json option" where
  "metadata_field k m = dict_get (message_metadata m) k"

text \<open>An API object that is logged in and gets the same response to every request.\<close>

definition sample_api :: "response \<Rightarrow> api" where
  "sample_api r = api_init ''user'' ''secret'' (Some sample_credential) (\<lambda>n. r) (\<lambda>n. r)"

text \<open>A work whose owner has the id 0, as the API returns it for a deleted work.\<close>

definition sample_deleted :: dict where
  "sample_deleted = [(''id'', JInt 966411), (''user'', JObj [(''id'', JInt 0)])]"

text \<open>A work of 101 pages, all with the same file.\<close>

definition sample_long :: dict where
  "sample_long =
     [(''id'', JInt 1),
      (''user'', sample_user),
      (''type'', JStr ''manga''),
      (''page_count'', JInt 101),
      (''tags'', JList []),
      (''image_urls'', JObj []),
      (''meta_single_page'', JObj []),
      (''meta_pages'',
         JList (replicate 101
           (JObj [(''image_urls'', JObj [(''original'', JStr ''https://i.pximg.net/img/1.png'')])])))]"

text \<open>
  A response that \<^verbatim>\<open>_pagination\<close> takes as a page: the status is from 200 to 399, the body
  is JSON with an iterable under \<^verbatim>\<open>illusts\<close> and a value under \<^verbatim>\<open>next_url\<close> that is false
  (\<^verbatim>\<open>null\<close>, empty) or a string. \<open>page_of\<close> gives the items of the page and the
  next-page field.
\<close>

definition page_of :: "response \<Rightarrow> (json list \<times> json) option" where
  "page_of r =
     (if 200 \<le> status_code r \<and> status_code r < 400
      then case body_json r of
             None \<Rightarrow> None
           | Some data \<Rightarrow>
              (case subscript data ''illusts'' of
                 Inl e \<Rightarrow> None
               | Inr illusts \<Rightarrow>
                  (case iterate illusts of
                     Inl e \<Rightarrow> None
                   | Inr works \<Rightarrow>
                      (case subscript data ''next_url'' of
                         Inl e \<Rightarrow> None
                       | Inr next_url \<Rightarrow>
                          (case str_of next_url of
                             Inl e \<Rightarrow> if truthy next_url then None else Some (works, next_url)
                           | Inr s \<Rightarrow> Some (works, next_url)))))
      else None)"

definition page_works :: "response \<Rightarrow> json list" where
  "page_works r = (case page_of r of None \<Rightarrow> [] | Some (works, next_url) \<Rightarrow> works)"

definition page_next :: "response \<Rightarrow> json" where
  "page_next r = (case page_of r of None \<Rightarrow> JNull | Some (works, next_url) \<Rightarrow> next_url)"

text \<open>The next-page field as a string; the empty string when it is not one.\<close>

definition next_string :: "response \<Rightarrow> string" where
  "next_string r = (case str_of (page_next r) of Inl e \<Rightarrow> [] | Inr s \<Rightarrow> s)"

text \<open>
  The parameters of the request for page \<open>n\<close>, as the spec describes them: those given
  for the first page, and after each page the offset found behind the last \<^verbatim>\<open>=\<close> of
  its next-page field, merged into the parameters. \<open>rs n\<close> is the response to the request
  for page \<open>n\<close>.
\<close>

fun page_params :: "(nat \<Rightarrow> response) \<Rightarrow> dict \<Rightarrow> nat \<Rightarrow> dict" where
  "page_params rs params 0 = params"
| "page_params rs params (Suc n) =
     dict_set (page_params rs params n) ''offset'' (JStr (rpartition2 (next_string (rs n)) CHR ''=''))"

text \<open>The GET requests of a log, in order: URL and parameters.\<close>

fun requests :: "event list \<Rightarrow> (string \<times> dict) list" where
  "requests [] = []"
| "requests (Get url params # es) = (url, params) # requests es"
| "requests (e # es) = requests es"

text \<open>
  An API object that is logged in and gets two pages: the first with two works and a
  next-page field, the second with one work and \<^verbatim>\<open>null\<close> as the next-page field.
\<close>

definition sample_page_first :: response where
  "sample_page_first =
     json_response 200
       (JObj [(''illusts'', JList [JObj [(''id'', JInt 1)], JObj [(''id'', JInt 2)]]),
              (''next_url'',
                 JStr ''https://app-api.pixiv.net/v1/illust/ranking?mode=day&offset=30'')])"

definition sample_page_last :: response where
  "sample_page_last =
     json_response 200
       (JObj [(''illusts'', JList [JObj [(''id'', JInt 3)]]), (''next_url'', JNull)])"

definition sample_paged_api :: api where
  "sample_paged_api =
     api_init ''user'' ''secret'' (Some sample_credential)
       (\<lambda>n. if n = 0 then sample_page_first else sample_page_last)
       (\<lambda>n. text_response 404 [])"

section \<open>Properties\<close>

subsection \<open>The ranking extractor\<close>

lemma modes_daily: "map_of modes ''daily'' = Some ''day''"
  by (simp add: modes_def)

lemma parse_mode_known: "\<exists>v. modes_getitem (fst (parse_mode query)) = Inr v"
  by (auto simp: parse_mode_def modes_getitem_def modes_daily Let_def)

text \<open>
  C7, as the code has it. Whatever the query, \<^verbatim>\<open>__init__\<close> of the ranking extractor
  returns. With \<open>m\<close> the lower-cased input mode (\<^verbatim>\<open>daily\<close> when the query has none): if
  \<open>m\<close> is not a key of the table, a warning naming it is logged, the mode sent to the
  ranking endpoint is \<^verbatim>\<open>day\<close> and the mode of the ranking metadata is \<^verbatim>\<open>daily\<close>; if it
  is a key, the mode sent to the endpoint is its value in the table, the mode of the
  ranking metadata is \<open>m\<close> itself, and no warning about the mode is logged. The works
  are the pagination of \<^verbatim>\<open>v1/illust/ranking\<close> with that endpoint mode, and the metadata
  context is the ranking information under the key \<^verbatim>\<open>ranking\<close>.
\<close>

theorem ranking_mode:
  fixes query :: "(string \<times> string) list"
  defines "m \<equiv> lower (case map_of query ''mode'' of None \<Rightarrow> ''daily'' | Some x \<Rightarrow> x)"
  shows "\<exists>r. ranking_init query yesterday = Inr r
     \<and> (map_of modes m = None \<longrightarrow>
          self_mode r = ''day''
          \<and> dict_get (self_ranking_info r) ''mode'' = Some (JStr ''daily'')
          \<and> LogWarning (''invalid mode '' @ [CHR 0x27] @ m @ [CHR 0x27]) \<in> set (self_log r))
     \<and> (\<forall>v. map_of modes m = Some v \<longrightarrow>
          self_mode r = v
          \<and> dict_get (self_ranking_info r) ''mode'' = Some (JStr m)
          \<and> (\<forall>t. LogWarning (''invalid mode '' @ t) \<notin> set (self_log r)))
     \<and> ranking_works r a =
          pagination ''v1/illust/ranking''
            [(''mode'', JStr (self_mode r)), (''date'', JStr (self_date r))] a
     \<and> ranking_get_metadata r = [(''ranking'', JObj (self_ranking_info r))]"
proof (cases "map_of modes m")
  case None
  then show ?thesis
    unfolding m_def
    by (auto simp: ranking_init_def parse_mode_def modes_getitem_def modes_daily dict_get_def
        ranking_works_def illust_ranking_def ranking_get_metadata_def Let_def split: prod.splits)
next
  case (Some v)
  then show ?thesis
    unfolding m_def
    by (auto simp: ranking_init_def parse_mode_def modes_getitem_def dict_get_def parse_date_def
        ranking_works_def illust_ranking_def ranking_get_metadata_def Let_def
        split: prod.splits option.splits if_splits)
qed

lemma lower_bogus: "lower ''bogus'' = ''bogus''"
  by (simp add: lower_def)

lemma lower_weekly: "lower ''weekly_r18'' = ''weekly_r18''"
  by (simp add: lower_def)

text \<open>
  The two inputs of the claim: \<^verbatim>\<open>bogus\<close> gives \<^verbatim>\<open>day\<close> for the endpoint, \<^verbatim>\<open>daily\<close> for
  the metadata and a warning; \<^verbatim>\<open>weekly_r18\<close> gives \<^verbatim>\<open>week_r18\<close> for the endpoint and
  \<^verbatim>\<open>weekly_r18\<close> for the metadata.
\<close>

theorem ranking_mode_witness:
  "map_of modes (lower ''bogus'') = None
   \<and> map_of modes (lower ''weekly_r18'') = Some ''week_r18''
   \<and> (\<exists>r. ranking_init [(''mode'', ''bogus'')] \<lparr>year = 2017, month = 8, day = 17\<rparr> = Inr r
        \<and> self_mode r = ''day''
        \<and> dict_get (self_ranking_info r) ''mode'' = Some (JStr ''daily'')
        \<and> LogWarning (''invalid mode '' @ [CHR 0x27] @ ''bogus'' @ [CHR 0x27]) \<in> set (self_log r))
   \<and> (\<exists>r. ranking_init [(''mode'', ''weekly_r18'')] \<lparr>year = 2017, month = 8, day = 17\<rparr> = Inr r
        \<and> self_mode r = ''week_r18''
        \<and> dict_get (self_ranking_info r) ''mode'' = Some (JStr ''weekly_r18''))"
proof -
  have b: "map_of modes (lower ''bogus'') = None"
    by (simp add: lower_bogus modes_def)
  have w: "map_of modes (lower ''weekly_r18'') = Some ''week_r18''"
    by (simp add: lower_weekly modes_def)
  from ranking_mode[of "[(''mode'', ''bogus'')]" "\<lparr>year = 2017, month = 8, day = 17\<rparr>"] b
  have 1: "\<exists>r. ranking_init [(''mode'', ''bogus'')] \<lparr>year = 2017, month = 8, day = 17\<rparr> = Inr r
        \<and> self_mode r = ''day''
        \<and> dict_get (self_ranking_info r) ''mode'' = Some (JStr ''daily'')
        \<and> LogWarning (''invalid mode '' @ [CHR 0x27] @ ''bogus'' @ [CHR 0x27]) \<in> set (self_log r)"
    by (simp add: lower_bogus) blast
  from ranking_mode[of "[(''mode'', ''weekly_r18'')]" "\<lparr>year = 2017, month = 8, day = 17\<rparr>"] w
  have 2: "\<exists>r. ranking_init [(''mode'', ''weekly_r18'')] \<lparr>year = 2017, month = 8, day = 17\<rparr> = Inr r
        \<and> self_mode r = ''week_r18''
        \<and> dict_get (self_ranking_info r) ''mode'' = Some (JStr ''weekly_r18'')"
    by (simp add: lower_weekly) blast
  from b w 1 2 show ?thesis by blast
qed

text \<open>
  C7 as the spec states it has the mode \<^verbatim>\<open>week_r18\<close> in the ranking metadata context too.
  For the input mode \<^verbatim>\<open>weekly_r18\<close> the metadata context holds \<^verbatim>\<open>weekly_r18\<close>, the name
  the user gave, not the API value.
\<close>

theorem ranking_context_mode_counterexample:
  "ranking_init [(''mode'', ''weekly_r18'')] \<lparr>year = 2017, month = 8, day = 17\<rparr> =
     Inr \<lparr>self_mode = ''week_r18'', self_date = ''2017-08-17'',
          self_ranking_info = [(''mode'', JStr ''weekly_r18''), (''date'', JStr ''2017-08-17'')],
          self_log = []\<rparr>
   \<and> dict_get [(''mode'', JStr ''weekly_r18''), (''date'', JStr ''2017-08-17'')] ''mode''
       \<noteq> Some (JStr ''week_r18'')"
  by code_simp

lemma parse_date_valid:
  assumes "map_of query ''date'' = Some d" and "length d = 8" and "isdecimal d"
  shows "parse_date query yesterday = (slice d 0 4 @ ''-'' @ slice d 4 6 @ ''-'' @ slice d 6 8, [])"
  using assms by (auto simp: parse_date_def Let_def)

lemma parse_date_invalid:
  assumes "map_of query ''date'' = Some d" and "d \<noteq> []" and "\<not> (length d = 8 \<and> isdecimal d)"
  shows "parse_date query yesterday =
    (strftime_Ymd yesterday, [LogWarning (''invalid date '' @ [CHR 0x27] @ d @ [CHR 0x27])])"
  using assms by (auto simp: parse_date_def Let_def)

lemma parse_mode_log: "LogWarning (''invalid date '' @ t) \<notin> set (snd (parse_mode query))"
  by (simp add: parse_mode_def Let_def)

lemma ranking_init_parts:
  "\<exists>v. ranking_init query yesterday =
     Inr \<lparr>self_mode = v, self_date = fst (parse_date query yesterday),
          self_ranking_info = [(''mode'', JStr (fst (parse_mode query))),
                                (''date'', JStr (fst (parse_date query yesterday)))],
          self_log = snd (parse_mode query) @ snd (parse_date query yesterday)\<rparr>"
  using parse_mode_known[of query]
  by (auto simp: ranking_init_def split: prod.splits)

text \<open>
  C8. For a query that carries a non-empty date \<open>d\<close>, \<^verbatim>\<open>__init__\<close> returns, and the date of
  the ranking metadata is the effective date. If \<open>d\<close> is 8 characters long and all of
  them are decimal digits, the effective date is \<open>d\<close> cut into 4, 2 and 2 characters
  joined by hyphens, and no warning about the date is logged. Otherwise a warning that
  names \<open>d\<close> is logged and the effective date is yesterday's UTC date in the format
  \<^verbatim>\<open>%Y-%m-%d\<close>. (A query without a date, or with an empty one, takes the same default
  without a warning.)
\<close>

theorem ranking_date:
  assumes "map_of query ''date'' = Some d" and "d \<noteq> []"
  shows "\<exists>r. ranking_init query yesterday = Inr r
     \<and> dict_get (self_ranking_info r) ''date'' = Some (JStr (self_date r))
     \<and> (length d = 8 \<and> isdecimal d \<longrightarrow>
          self_date r = slice d 0 4 @ ''-'' @ slice d 4 6 @ ''-'' @ slice d 6 8
          \<and> (\<forall>t. LogWarning (''invalid date '' @ t) \<notin> set (self_log r)))
     \<and> (\<not> (length d = 8 \<and> isdecimal d) \<longrightarrow>
          self_date r = strftime_Ymd yesterday
          \<and> LogWarning (''invalid date '' @ [CHR 0x27] @ d @ [CHR 0x27]) \<in> set (self_log r))"
proof -
  obtain v where r: "ranking_init query yesterday =
     Inr \<lparr>self_mode = v, self_date = fst (parse_date query yesterday),
          self_ranking_info = [(''mode'', JStr (fst (parse_mode query))),
                                (''date'', JStr (fst (parse_date query yesterday)))],
          self_log = snd (parse_mode query) @ snd (parse_date query yesterday)\<rparr>"
    using ranking_init_parts by blast
  show ?thesis
  proof (cases "length d = 8 \<and> isdecimal d")
    case True
    with assms have "parse_date query yesterday =
        (slice d 0 4 @ ''-'' @ slice d 4 6 @ ''-'' @ slice d 6 8, [])"
      by (simp add: parse_date_valid)
    with r True show ?thesis
      using parse_mode_log[of _ query] by (simp add: dict_get_def)
  next
    case False
    with assms have "parse_date query yesterday =
        (strftime_Ymd yesterday, [LogWarning (''invalid date '' @ [CHR 0x27] @ d @ [CHR 0x27])])"
      by (simp add: parse_date_invalid)
    with r False show ?thesis by (auto simp: dict_get_def)
  qed
qed

text \<open>
  The two inputs of the claim, with the clock at 2018-03-02: \<^verbatim>\<open>20170818\<close> becomes
  \<^verbatim>\<open>2017-08-18\<close>; \<^verbatim>\<open>2017-08-18\<close> is refused with a warning and replaced by \<^verbatim>\<open>2018-03-01\<close>.
\<close>

theorem ranking_date_witness:
  "map_of [(''date'', ''20170818'')] ''date'' = Some ''20170818''
   \<and> length ''20170818'' = 8 \<and> isdecimal ''20170818''
   \<and> (\<exists>r. ranking_init [(''date'', ''20170818'')] \<lparr>year = 2018, month = 3, day = 1\<rparr> = Inr r
        \<and> self_date r = ''2017-08-18'')
   \<and> map_of [(''date'', ''2017-08-18'')] ''date'' = Some ''2017-08-18''
   \<and> \<not> (length ''2017-08-18'' = 8 \<and> isdecimal ''2017-08-18'')
   \<and> (\<exists>r. ranking_init [(''date'', ''2017-08-18'')] \<lparr>year = 2018, month = 3, day = 1\<rparr> = Inr r
        \<and> self_date r = ''2018-03-01''
        \<and> LogWarning (''invalid date '' @ [CHR 0x27] @ ''2017-08-18'' @ [CHR 0x27])
            \<in> set (self_log r))"
proof -
  have y: "strftime_Ymd \<lparr>year = 2018, month = 3, day = 1\<rparr> = ''2018-03-01''"
    by code_simp
  have d1: "isdecimal ''20170818''" by (simp add: isdecimal_def)
  have s1: "slice ''20170818'' 0 4 @ ''-'' @ slice ''20170818'' 4 6 @ ''-'' @ slice ''20170818'' 6 8
      = ''2017-08-18''"
    by (simp add: slice_def)
  from ranking_date[of "[(''date'', ''20170818'')]" "''20170818''" "\<lparr>year = 2018, month = 3, day = 1\<rparr>"] d1 s1
  have 1: "\<exists>r. ranking_init [(''date'', ''20170818'')] \<lparr>year = 2018, month = 3, day = 1\<rparr> = Inr r
        \<and> self_date r = ''2017-08-18''"
    by simp blast
  from ranking_date[of "[(''date'', ''2017-08-18'')]" "''2017-08-18''" "\<lparr>year = 2018, month = 3, day = 1\<rparr>"] y
  have 2: "\<exists>r. ranking_init [(''date'', ''2017-08-18'')] \<lparr>year = 2018, month = 3, day = 1\<rparr> = Inr r
        \<and> self_date r = ''2018-03-01''
        \<and> LogWarning (''invalid date '' @ [CHR 0x27] @ ''2017-08-18'' @ [CHR 0x27])
            \<in> set (self_log r)"
    by simp blast
  from d1 1 2 show ?thesis by simp
qed

subsection \<open>The API client\<close>

text \<open>What \<^verbatim>\<open>login\<close> leaves alone, and what it adds to the log.\<close>

lemma login_impl_body_state:
  "\<exists>data. snd (login_impl_body a) =
     a\<lparr>posts := Suc (posts a),
       log := log a @ [LogInfo (''Logging in as '' @ username a),
                       Post ''https://oauth.secure.pixiv.net/auth/token'' data]\<rparr>"
  by (auto simp: login_impl_body_def session_post_def emit_def Let_def
      split: sum.splits prod.splits)

lemma login_impl_frame:
  "gets (snd (login_impl a)) = gets a
   \<and> get_responses (snd (login_impl a)) = get_responses a
   \<and> (\<exists>es. log (snd (login_impl a)) = log a @ es \<and> (\<forall>u p. Get u p \<notin> set es))"
proof (cases "cache a")
  case None
  obtain data where d: "snd (login_impl_body a) =
     a\<lparr>posts := Suc (posts a),
       log := log a @ [LogInfo (''Logging in as '' @ username a),
                       Post ''https://oauth.secure.pixiv.net/auth/token'' data]\<rparr>"
    using login_impl_body_state by blast
  obtain x a1 where p: "login_impl_body a = (x, a1)" by (cases "login_impl_body a")
  with d have a1: "a1 = a\<lparr>posts := Suc (posts a),
       log := log a @ [LogInfo (''Logging in as '' @ username a),
                       Post ''https://oauth.secure.pixiv.net/auth/token'' data]\<rparr>" by simp
  from None p have "snd (login_impl a) = a1\<lparr>cache := cache (snd (login_impl a))\<rparr>"
    by (cases x) (simp_all add: login_impl_def a1)
  then have "gets (snd (login_impl a)) = gets a1"
    and "get_responses (snd (login_impl a)) = get_responses a1"
    and "log (snd (login_impl a)) = log a1"
    by (metis api.select_convs api.surjective api.update_convs)+
  with a1 show ?thesis by simp
next
  case (Some c)
  then have "snd (login_impl a) = a" by (simp add: login_impl_def)
  then show ?thesis by simp
qed

lemma login_impl_cache: "fst (login_impl a) = Inr c \<Longrightarrow> cache (snd (login_impl a)) = Some c"
  by (auto simp: login_impl_def split: option.splits sum.splits prod.splits)

lemma login_frame:
  "gets (snd (login a)) = gets a
   \<and> get_responses (snd (login a)) = get_responses a
   \<and> (\<exists>es. log (snd (login a)) = log a @ Login # es \<and> (\<forall>u p. Get u p \<notin> set es))"
proof -
  let ?b = "emit Login a"
  obtain x a1 where p: "login_impl ?b = (x, a1)" by (cases "login_impl ?b")
  from login_impl_frame[of ?b] p
  have f: "gets a1 = gets a" "get_responses a1 = get_responses a"
    and "\<exists>es. log a1 = log a @ Login # es \<and> (\<forall>u p. Get u p \<notin> set es)"
    by (auto simp: emit_def)
  moreover from p have "gets (snd (login a)) = gets a1"
    and "get_responses (snd (login a)) = get_responses a1"
    and "log (snd (login a)) = log a1"
    by (cases x; simp add: login_def split: prod.splits)+
  ultimately show ?thesis by simp
qed

lemma login_cache: "fst (login a) = Inr u \<Longrightarrow> cache (snd (login a)) \<noteq> None"
proof -
  assume ok: "fst (login a) = Inr u"
  let ?b = "emit Login a"
  obtain x a1 where p: "login_impl ?b = (x, a1)" by (cases "login_impl ?b")
  with ok obtain c where x: "x = Inr c" by (cases x) (auto simp: login_def)
  with p login_impl_cache[of ?b c] have "cache a1 = Some c" by simp
  with p x show ?thesis by (auto simp: login_def split: prod.splits)
qed

lemma login_cached: "cache a \<noteq> None \<Longrightarrow> fst (login a) = Inr ()"
  by (auto simp: login_def login_impl_def emit_def split: prod.splits)

text \<open>
  C5. \<^verbatim>\<open>_call\<close> first calls \<^verbatim>\<open>login()\<close>: the log continues with \<open>Login\<close> and with what the
  login itself does, which is never a GET. If the login raises, \<^verbatim>\<open>_call\<close> raises the same
  and requests nothing. Otherwise exactly one GET follows, to the URL of the endpoint with
  the given parameters, and its response decides: a status from 200 to 399 gives the
  result of \<^verbatim>\<open>response.json()\<close>, 404 gives \<^verbatim>\<open>NotFoundError\<close>, any other status logs the body
  as an error and gives \<^verbatim>\<open>StopExtraction\<close>. In each case the GET is the only request
  after the login: nothing is asked a second time.
\<close>

theorem call_login_then_get:
  fixes endpoint :: string and params :: dict and a :: api
  defines "url \<equiv> ''https://app-api.pixiv.net/'' @ endpoint"
      and "r \<equiv> get_responses a (gets a)"
      and "a1 \<equiv> snd (login a)"
  shows "(\<exists>es. log a1 = log a @ Login # es \<and> (\<forall>u p. Get u p \<notin> set es))
    \<and> (\<forall>e. fst (login a) = Inl e \<longrightarrow> call endpoint params a = (Inl e, a1))
    \<and> (fst (login a) = Inr () \<longrightarrow>
         gets (snd (call endpoint params a)) = Suc (gets a)
         \<and> (200 \<le> status_code r \<and> status_code r < 400 \<longrightarrow>
               fst (call endpoint params a) = response_json r
               \<and> log (snd (call endpoint params a)) = log a1 @ [Get url params])
         \<and> (status_code r = 404 \<longrightarrow>
               fst (call endpoint params a) = Inl NotFoundError
               \<and> log (snd (call endpoint params a)) = log a1 @ [Get url params])
         \<and> (\<not> (200 \<le> status_code r \<and> status_code r < 400) \<and> status_code r \<noteq> 404 \<longrightarrow>
               fst (call endpoint params a) = Inl StopExtraction
               \<and> log (snd (call endpoint params a)) =
                   log a1 @ [Get url params, LogError (''API request failed: '' @ body_text r)]))"
proof -
  have f: "gets a1 = gets a" "get_responses a1 = get_responses a"
    using login_frame[of a] by (simp_all add: a1_def)
  have 1: "\<exists>es. log a1 = log a @ Login # es \<and> (\<forall>u p. Get u p \<notin> set es)"
    using login_frame[of a] by (simp add: a1_def)
  have 2: "\<forall>e. fst (login a) = Inl e \<longrightarrow> call endpoint params a = (Inl e, a1)"
    by (auto simp: call_def a1_def split: prod.splits)
  have 3: "fst (login a) = Inr () \<longrightarrow>
         gets (snd (call endpoint params a)) = Suc (gets a)
         \<and> (200 \<le> status_code r \<and> status_code r < 400 \<longrightarrow>
               fst (call endpoint params a) = response_json r
               \<and> log (snd (call endpoint params a)) = log a1 @ [Get url params])
         \<and> (status_code r = 404 \<longrightarrow>
               fst (call endpoint params a) = Inl NotFoundError
               \<and> log (snd (call endpoint params a)) = log a1 @ [Get url params])
         \<and> (\<not> (200 \<le> status_code r \<and> status_code r < 400) \<and> status_code r \<noteq> 404 \<longrightarrow>
               fst (call endpoint params a) = Inl StopExtraction
               \<and> log (snd (call endpoint params a)) =
                   log a1 @ [Get url params, LogError (''API request failed: '' @ body_text r)])"
  proof
    assume ok: "fst (login a) = Inr ()"
    then have l: "login a = (Inr (), a1)" by (simp add: a1_def prod_eq_iff)
    show "gets (snd (call endpoint params a)) = Suc (gets a)
         \<and> (200 \<le> status_code r \<and> status_code r < 400 \<longrightarrow>
               fst (call endpoint params a) = response_json r
               \<and> log (snd (call endpoint params a)) = log a1 @ [Get url params])
         \<and> (status_code r = 404 \<longrightarrow>
               fst (call endpoint params a) = Inl NotFoundError
               \<and> log (snd (call endpoint params a)) = log a1 @ [Get url params])
         \<and> (\<not> (200 \<le> status_code r \<and> status_code r < 400) \<and> status_code r \<noteq> 404 \<longrightarrow>
               fst (call endpoint params a) = Inl StopExtraction
               \<and> log (snd (call endpoint params a)) =
                   log a1 @ [Get url params, LogError (''API request failed: '' @ body_text r)])"
      using f by (simp add: call_def l session_get_def emit_def Let_def r_def url_def)
  qed
  from 1 2 3 show ?thesis by blast
qed

lemma login_sample:
  "login (api_init u p (Some sample_credential) g q) =
     (Inr (), (api_init u p (Some sample_credential) g q)
        \<lparr>user_info := fst sample_credential, authorization := Some (snd sample_credential),
         log := [Login]\<rparr>)"
  by (simp add: login_def login_impl_def emit_def api_init_def sample_credential_def)

lemma login_rejected:
  "fst (login (api_init u p None g (\<lambda>n. text_response 400 ''denied''))) = Inl AuthenticationError"
  by (simp add: login_def login_impl_def login_impl_body_def session_post_def emit_def
      api_init_def text_response_def Let_def)

text \<open>
  Four calls: a cached credential and a 200 response give the parsed body after one
  \<open>Login\<close> and one \<open>Get\<close>; a 404 response gives \<^verbatim>\<open>NotFoundError\<close>; a 500 response gives
  \<^verbatim>\<open>StopExtraction\<close>; a rejected login gives \<^verbatim>\<open>AuthenticationError\<close>.
\<close>

theorem call_login_then_get_witness:
  "fst (login (api_init ''u'' ''p'' (Some sample_credential)
          (\<lambda>n. json_response 200 (JObj [])) (\<lambda>n. text_response 400 []))) = Inr ()
   \<and> call ''v1/user/detail'' [(''user_id'', JStr ''173530'')]
        (api_init ''u'' ''p'' (Some sample_credential)
          (\<lambda>n. json_response 200 (JObj [])) (\<lambda>n. text_response 400 []))
      = (Inr (JObj []),
         (api_init ''u'' ''p'' (Some sample_credential)
          (\<lambda>n. json_response 200 (JObj [])) (\<lambda>n. text_response 400 []))
         \<lparr>user_info := fst sample_credential, authorization := Some (snd sample_credential),
          gets := 1,
          log := [Login, Get ''https://app-api.pixiv.net/v1/user/detail''
                          [(''user_id'', JStr ''173530'')]]\<rparr>)
   \<and> fst (call ''v1/user/detail'' []
        (api_init ''u'' ''p'' (Some sample_credential)
          (\<lambda>n. text_response 404 ''gone'') (\<lambda>n. text_response 400 []))) = Inl NotFoundError
   \<and> fst (call ''v1/user/detail'' []
        (api_init ''u'' ''p'' (Some sample_credential)
          (\<lambda>n. text_response 500 ''oops'') (\<lambda>n. text_response 400 []))) = Inl StopExtraction
   \<and> fst (call ''v1/user/detail'' []
        (api_init ''u'' ''p'' None
          (\<lambda>n. json_response 200 (JObj [])) (\<lambda>n. text_response 400 ''denied'')))
       = Inl AuthenticationError"
proof -
  let ?a = "api_init ''u'' ''p'' (Some sample_credential)
          (\<lambda>n. json_response 200 (JObj [])) (\<lambda>n. text_response 400 [])"
  let ?b = "api_init ''u'' ''p'' (Some sample_credential)
          (\<lambda>n. text_response 404 ''gone'') (\<lambda>n. text_response 400 [])"
  let ?c = "api_init ''u'' ''p'' (Some sample_credential)
          (\<lambda>n. text_response 500 ''oops'') (\<lambda>n. text_response 400 [])"
  let ?d = "api_init ''u'' ''p'' None
          (\<lambda>n. json_response 200 (JObj [])) (\<lambda>n. text_response 400 ''denied'')"
  have la: "fst (login ?a) = Inr ()" and lb: "fst (login ?b) = Inr ()"
    and lc: "fst (login ?c) = Inr ()"
    by (simp_all add: login_sample)
  have ld: "fst (login ?d) = Inl AuthenticationError" by (rule login_rejected)
  have ra: "get_responses ?a (gets ?a) = json_response 200 (JObj [])"
    and rb: "get_responses ?b (gets ?b) = text_response 404 ''gone''"
    and rc: "get_responses ?c (gets ?c) = text_response 500 ''oops''"
    by (simp_all add: api_init_def)
  from call_login_then_get[of ?b "''v1/user/detail''" "[]"] lb rb
  have 2: "fst (call ''v1/user/detail'' [] ?b) = Inl NotFoundError"
    by (simp add: text_response_def)
  from call_login_then_get[of ?c "''v1/user/detail''" "[]"] lc rc
  have 3: "fst (call ''v1/user/detail'' [] ?c) = Inl StopExtraction"
    by (simp add: text_response_def)
  from call_login_then_get[of ?d "''v1/user/detail''" "[]"] ld
  have 4: "fst (call ''v1/user/detail'' [] ?d) = Inl AuthenticationError"
    by simp
  from call_login_then_get[of ?a "''v1/user/detail''" "[(''user_id'', JStr ''173530'')]"] la ra
  have "fst (call ''v1/user/detail'' [(''user_id'', JStr ''173530'')] ?a) = Inr (JObj [])"
    by (simp add: json_response_def response_json_def)
  moreover have "snd (call ''v1/user/detail'' [(''user_id'', JStr ''173530'')] ?a) =
      ?a\<lparr>user_info := fst sample_credential, authorization := Some (snd sample_credential),
          gets := 1,
          log := [Login, Get ''https://app-api.pixiv.net/v1/user/detail''
                          [(''user_id'', JStr ''173530'')]]\<rparr>"
    by (simp add: call_def login_sample)
      (simp add: session_get_def emit_def json_response_def api_init_def)
  ultimately have 1: "call ''v1/user/detail'' [(''user_id'', JStr ''173530'')] ?a
      = (Inr (JObj []),
         ?a\<lparr>user_info := fst sample_credential, authorization := Some (snd sample_credential),
          gets := 1,
          log := [Login, Get ''https://app-api.pixiv.net/v1/user/detail''
                          [(''user_id'', JStr ''173530'')]]\<rparr>)"
    by (simp add: prod_eq_iff)
  from la 1 2 3 4 show ?thesis by simp
qed

subsection \<open>The URL of the animation archive\<close>

text \<open>\<^verbatim>\<open>str.replace\<close> step by step, and what it does at the first occurrence.\<close>

lemma replace_Nil: "old \<noteq> [] \<Longrightarrow> replace [] old new = []"
  by (subst replace.simps) simp

lemma replace_prefix:
  "old \<noteq> [] \<Longrightarrow> replace (old @ s) old new = new @ replace s old new"
  by (subst replace.simps) simp

lemma replace_Cons:
  "old \<noteq> [] \<Longrightarrow> \<not> prefix old (c # s) \<Longrightarrow> replace (c # s) old new = c # replace s old new"
  by (subst replace.simps) simp

lemma replace_absent:
  "old \<noteq> [] \<Longrightarrow> \<not> sublist old s \<Longrightarrow> replace s old new = s"
proof (induction s)
  case Nil
  then show ?case by (simp add: replace_Nil)
next
  case (Cons c s)
  from Cons.prems have "\<not> prefix old (c # s)" and "\<not> sublist old s"
    by (auto simp: sublist_Cons_right)
  with Cons show ?case by (simp add: replace_Cons)
qed

lemma no_overlap:
  assumes "prefix (m # rest) (pre @ (m # rest) @ post)" and "m \<notin> set rest" and "pre \<noteq> []"
  shows "prefix (m # rest) pre"
proof -
  from assms(1) consider "prefix (m # rest) pre"
    | us where "m # rest = pre @ us" and "prefix us ((m # rest) @ post)"
    using prefix_append[of "m # rest" pre "(m # rest) @ post"] by blast
  then show ?thesis
  proof cases
    case 1
    then show ?thesis .
  next
    case 2
    from 2(1) assms(3) obtain cs where pre: "pre = m # cs" and rest: "rest = cs @ us"
      by (cases pre) auto
    show ?thesis
    proof (cases us)
      case Nil
      with 2(1) show ?thesis by simp
    next
      case (Cons u us')
      with 2(2) have "u = m" by simp
      with Cons rest have "m \<in> set rest" by simp
      with assms(2) show ?thesis by simp
    qed
  qed
qed

lemma replace_first:
  assumes "m \<notin> set rest" and "\<not> sublist (m # rest) pre"
  shows "replace (pre @ (m # rest) @ post) (m # rest) new = pre @ new @ replace post (m # rest) new"
  using assms(2)
proof (induction pre)
  case Nil
  show ?case using replace_prefix[of "m # rest" post new] by simp
next
  case (Cons c cs)
  from Cons.prems have np: "\<not> prefix (m # rest) (c # cs)" and ns: "\<not> sublist (m # rest) cs"
    by (auto simp: sublist_Cons_right)
  have "\<not> prefix (m # rest) ((c # cs) @ (m # rest) @ post)"
    using no_overlap[of m rest "c # cs" post] assms(1) np by blast
  then have "replace ((c # cs) @ (m # rest) @ post) (m # rest) new
      = c # replace (cs @ (m # rest) @ post) (m # rest) new"
    using replace_Cons[of "m # rest" c "cs @ (m # rest) @ post" new] by simp
  with Cons.IH[OF ns] show ?case by simp
qed

text \<open>
  Lines 54 and 55 at the first marker: with the medium URL \<open>pre\<close>, marker, \<open>post\<close> and no
  marker inside \<open>pre\<close>, the rewritten URL is \<open>pre\<close>, the new marker and \<open>post\<close> rewritten.
\<close>

lemma ugoira_url_marker:
  assumes "subscript ugoira ''zip_urls'' = Inr zip_urls"
    and "subscript zip_urls ''medium'' = Inr (JStr (pre @ ''_ugoira600x600'' @ post))"
    and "\<not> sublist ''_ugoira600x600'' pre"
  shows "ugoira_url ugoira =
           Inr (pre @ ''_ugoira1920x1080'' @ replace post ''_ugoira600x600'' ''_ugoira1920x1080'')
    \<and> (\<not> sublist ''_ugoira600x600'' post \<longrightarrow>
           ugoira_url ugoira = Inr (pre @ ''_ugoira1920x1080'' @ post))"
proof -
  have "CHR ''_'' \<notin> set ''ugoira600x600''" by simp
  then have r: "replace (pre @ ''_ugoira600x600'' @ post) ''_ugoira600x600'' ''_ugoira1920x1080''
      = pre @ ''_ugoira1920x1080'' @ replace post ''_ugoira600x600'' ''_ugoira1920x1080''"
    using replace_first[of "CHR ''_''" "''ugoira600x600''" pre post "''_ugoira1920x1080''"] assms(3)
    by simp
  have u: "ugoira_url ugoira =
      Inr (replace (pre @ ''_ugoira600x600'' @ post) ''_ugoira600x600'' ''_ugoira1920x1080'')"
    using assms(1,2) by (simp add: ugoira_url_def)
  have a: "\<not> sublist ''_ugoira600x600'' post \<longrightarrow>
      replace post ''_ugoira600x600'' ''_ugoira1920x1080'' = post"
    using replace_absent[of "''_ugoira600x600''" post "''_ugoira1920x1080''"] by simp
  from u r a show ?thesis by simp
qed

subsection \<open>Dictionaries\<close>

lemma dict_get_set: "dict_get (dict_set d k v) k' = (if k' = k then Some v else dict_get d k')"
  by (simp add: dict_get_def dict_set_def update_conv')

lemma dict_get_del:
  "dict_del d k = Inr d' \<Longrightarrow> dict_get d' k' = (if k' = k then None else dict_get d k')"
  by (auto simp: dict_del_def dict_get_def delete_conv' split: if_splits)

lemma dict_get_update_notin:
  "k \<notin> fst ` set m \<Longrightarrow> dict_get (dict_update d m) k = dict_get d k"
  by (induction m arbitrary: d) (auto simp: dict_get_set)

lemma dict_get_update:
  "distinct (map fst m) \<Longrightarrow>
   dict_get (dict_update d m) k = (case dict_get m k of Some v \<Rightarrow> Some v | None \<Rightarrow> dict_get d k)"
proof (induction m arbitrary: d)
  case Nil
  then show ?case by (simp add: dict_get_def)
next
  case (Cons p m)
  obtain k0 v0 where p: "p = (k0, v0)" by (cases p)
  from Cons.prems p have notin: "k0 \<notin> fst ` set m" and dist: "distinct (map fst m)" by auto
  show ?case
  proof (cases "k = k0")
    case True
    with notin have "dict_get (dict_update (dict_set d k0 v0) m) k = Some v0"
      by (simp add: dict_get_update_notin dict_get_set)
    with True p show ?thesis by (simp add: dict_get_def)
  next
    case False
    then have s: "dict_get (dict_set d k0 v0) k = dict_get d k"
      by (simp add: dict_get_set)
    from False p have g: "dict_get (p # m) k = dict_get m k"
      by (simp add: dict_get_def)
    from Cons.IH[OF dist, of "dict_set d k0 v0"] p s g show ?thesis
      by (simp split: option.split)
  qed
qed

subsection \<open>The metadata of a descriptor\<close>

lemma dict_get_stripped:
  "dict_get (stripped work) k =
     (if k \<in> {''meta_single_page'', ''image_urls'', ''meta_pages''} then None else dict_get work k)"
proof -
  have "map_of (filter (\<lambda>(k, v). k \<notin> {''meta_single_page'', ''image_urls'', ''meta_pages''}) work) k
      = (if k \<in> {''meta_single_page'', ''image_urls'', ''meta_pages''} then None else map_of work k)"
    by (induction work) auto
  then show ?thesis by (simp add: stripped_def dict_get_def)
qed

lemma tag_names_all2:
  "tag_names ts = Inr names \<Longrightarrow> list_all2 (\<lambda>t n. subscript t ''name'' = Inr n) ts names"
  by (induction ts arbitrary: names) (auto split: sum.splits)

lemma prepare_Inr:
  assumes "prepare metadata work = Inr (msp, mp, work1)"
  shows "\<exists>tags ts names w1 w2 w3.
      subscript (JObj work) ''meta_single_page'' = Inr msp
    \<and> subscript (JObj work) ''meta_pages'' = Inr mp
    \<and> dict_del work ''meta_single_page'' = Inr w1
    \<and> dict_del w1 ''image_urls'' = Inr w2
    \<and> dict_del w2 ''meta_pages'' = Inr w3
    \<and> subscript (JObj (dict_set w3 ''num'' (JStr []))) ''tags'' = Inr tags
    \<and> iterate tags = Inr ts \<and> tag_names ts = Inr names
    \<and> work1 = dict_update (dict_set (dict_set w3 ''num'' (JStr [])) ''tags'' (JList names)) metadata"
  using assms by (auto simp: prepare_def Let_def split: sum.splits)

lemma dict_get_Nil: "dict_get [] k = None"
  by (simp add: dict_get_def)

lemma dict_get_Cons: "dict_get ((k0, v) # d) k = (if k = k0 then Some v else dict_get d k)"
  by (simp add: dict_get_def)

lemma prepare_lookup:
  assumes "prepare metadata work = Inr (msp, mp, work1)" and "distinct (map fst metadata)"
  shows "\<exists>tags ts names.
      dict_get work ''tags'' = Some tags \<and> iterate tags = Inr ts
    \<and> list_all2 (\<lambda>t n. subscript t ''name'' = Inr n) ts names
    \<and> (\<forall>k. dict_get work1 k =
           overlay [stripped work, [(''num'', JStr []), (''tags'', JList names)], metadata] k)"
proof -
  from prepare_Inr[OF assms(1)] obtain tags ts names w1 w2 w3 where
    d1: "dict_del work ''meta_single_page'' = Inr w1" and
    d2: "dict_del w1 ''image_urls'' = Inr w2" and
    d3: "dict_del w2 ''meta_pages'' = Inr w3" and
    t: "subscript (JObj (dict_set w3 ''num'' (JStr []))) ''tags'' = Inr tags" and
    i: "iterate tags = Inr ts" and n: "tag_names ts = Inr names" and
    w: "work1 = dict_update (dict_set (dict_set w3 ''num'' (JStr [])) ''tags'' (JList names)) metadata"
    by blast
  have w3: "dict_get w3 k = dict_get (stripped work) k" for k
    by (simp add: dict_get_del[OF d3] dict_get_del[OF d2] dict_get_del[OF d1] dict_get_stripped)
  from t have "dict_get (dict_set w3 ''num'' (JStr [])) ''tags'' = Some tags"
    by (simp split: option.splits)
  then have tg: "dict_get work ''tags'' = Some tags"
    by (simp add: dict_get_set w3 dict_get_stripped)
  have "dict_get work1 k =
      overlay [stripped work, [(''num'', JStr []), (''tags'', JList names)], metadata] k" for k
    unfolding w
    by (simp add: dict_get_update[OF assms(2)] dict_get_set w3 dict_get_Cons dict_get_Nil
        split: option.splits)
  with tg i tag_names_all2[OF n] show ?thesis by blast
qed

lemma ugoira_branch_yielded:
  assumes "Url u w \<in> set (yielded (ugoira_branch load_ugoira work a))"
  shows "\<exists>ext. \<forall>k. dict_get w k = overlay [work, [(''extension'', JStr ext)]] k"
proof -
  from assms have "w = dict_set work ''extension'' (JStr ''zip'')
      \<or> w = dict_set (dict_set work ''extension'' (JStr ''zip'')) ''extension'' (JStr ''txt'')"
    by (auto simp: ugoira_branch_def Let_def split: if_splits sum.splits prod.splits)
  then show ?thesis
  proof
    assume "w = dict_set work ''extension'' (JStr ''zip'')"
    then have "\<forall>k. dict_get w k = overlay [work, [(''extension'', JStr ''zip'')]] k"
      by (simp add: dict_get_set dict_get_Cons dict_get_Nil)
    then show ?thesis ..
  next
    assume "w = dict_set (dict_set work ''extension'' (JStr ''zip'')) ''extension'' (JStr ''txt'')"
    then have "\<forall>k. dict_get w k = overlay [work, [(''extension'', JStr ''txt'')]] k"
      by (simp add: dict_get_set dict_get_Cons dict_get_Nil)
    then show ?thesis ..
  qed
qed

lemma single_branch_yielded:
  assumes "Url u w \<in> set (yielded (single_branch meta_single_page work a))"
  shows "\<exists>ext. \<forall>k. dict_get w k = overlay [work, [(''extension'', JStr ext)]] k"
proof -
  from assms obtain ext where "w = dict_set work ''extension'' (JStr ext)"
    by (auto simp: single_branch_def Let_def split: sum.splits)
  then have "\<forall>k. dict_get w k = overlay [work, [(''extension'', JStr ext)]] k"
    by (simp add: dict_get_set dict_get_Cons dict_get_Nil)
  then show ?thesis ..
qed

lemma pages_loop_yielded:
  assumes "Url u w \<in> set (fst (pages_loop num imgs work))"
  shows "\<exists>sfx ext. \<forall>k. dict_get w k =
           overlay [work, [(''num'', JStr sfx), (''extension'', JStr ext)]] k"
  using assms
proof (induction imgs arbitrary: num work)
  case Nil
  then show ?case by simp
next
  case (Cons img imgs)
  from Cons.prems obtain image_urls url s where
    iu: "subscript img ''image_urls'' = Inr image_urls" and
    ur: "subscript image_urls ''original'' = Inr url" and
    st: "str_of url = Inr s"
    by (auto simp: Let_def split: sum.splits prod.splits)
  let ?w1 = "dict_set work ''num'' (JStr (''_p'' @ format_02 num))"
  let ?w2 = "dict_set ?w1 ''extension'' (JStr (rpartition2 s CHR ''.''))"
  from Cons.prems iu ur st
  have "Url u w = Url s ?w2 \<or> Url u w \<in> set (fst (pages_loop (Suc num) imgs ?w2))"
    by (auto simp: Let_def split: prod.splits)
  then show ?case
  proof
    assume "Url u w = Url s ?w2"
    then have "\<forall>k. dict_get w k = overlay [work, [(''num'', JStr (''_p'' @ format_02 num)),
        (''extension'', JStr (rpartition2 s CHR ''.''))]] k"
      by (simp add: dict_get_set dict_get_Cons dict_get_Nil)
    then show ?thesis by blast
  next
    assume "Url u w \<in> set (fst (pages_loop (Suc num) imgs ?w2))"
    from Cons.IH[OF this] obtain sfx ext where
      "\<forall>k. dict_get w k = overlay [?w2, [(''num'', JStr sfx), (''extension'', JStr ext)]] k"
      by blast
    then have "\<forall>k. dict_get w k = overlay [work, [(''num'', JStr sfx), (''extension'', JStr ext)]] k"
      by (simp add: dict_get_set dict_get_Cons dict_get_Nil)
    then show ?thesis by blast
  qed
qed

lemma pages_branch_yielded:
  assumes "Url u w \<in> set (yielded (pages_branch meta_pages work a))"
  shows "\<exists>sfx ext. \<forall>k. dict_get w k =
           overlay [work, [(''num'', JStr sfx), (''extension'', JStr ext)]] k"
proof -
  from assms have "\<exists>imgs. Url u w \<in> set (fst (pages_loop 0 imgs work))"
    by (auto simp: pages_branch_def split: sum.splits prod.splits) (metis fst_conv)
  then obtain imgs where "Url u w \<in> set (fst (pages_loop 0 imgs work))" ..
  then show ?thesis by (rule pages_loop_yielded)
qed

lemma items_dict_yielded:
  assumes "Url u w \<in> set (yielded (items_dict load_ugoira metadata work a))"
  shows "\<exists>msp mp work1.
      prepare metadata work = Inr (msp, mp, work1)
    \<and> (Url u w \<in> set (yielded (ugoira_branch load_ugoira work1 a))
       \<or> Url u w \<in> set (yielded (single_branch msp work1 a))
       \<or> Url u w \<in> set (yielded (pages_branch mp work1 a)))"
  using assms
  by (auto simp: items_dict_def split: sum.splits prod.splits if_splits)

lemma overlay_top:
  assumes "\<forall>k. dict_get w k = overlay [d, r] k" and "\<forall>k. dict_get d k = overlay ds k"
  shows "\<forall>k. dict_get w k = overlay (ds @ [r]) k"
proof -
  have "overlay (ds @ [r]) k = (case dict_get r k of Some v \<Rightarrow> Some v | None \<Rightarrow> overlay ds k)" for k
    by (induction ds) (auto simp: dict_get_Nil split: option.splits)
  with assms show ?thesis by (simp add: dict_get_Nil split: option.splits)
qed

lemma sample_single_yielded:
  "yielded (items_dict lu sample_metadata sample_single a) =
     [Url ''https://i.pximg.net/img/966412_p0.png''
       [(''id'', JInt 966412),
        (''user'', sample_user_detail),
        (''type'', JStr ''illust''), (''page_count'', JInt 1),
        (''tags'', JList [JStr ''sky'', JStr ''sea'']), (''num'', JStr []),
        (''extension'', JStr ''png'')]]"
  by (simp add: items_dict_def sample_single_def sample_metadata_def sample_user_def
      prepare_def dict_get_def dict_del_def dict_set_def single_branch_def
      rpartition2_def Let_def)

subsection \<open>The work after the loop body\<close>

lemma ugoira_branch_end:
  "\<exists>w'. work_end (ugoira_branch load_ugoira work a) = JObj w'
     \<and> (\<forall>k. k \<noteq> ''extension'' \<longrightarrow> dict_get w' k = dict_get work k)"
  by (auto simp: ugoira_branch_def Let_def dict_get_set split: sum.splits prod.splits)

lemma single_branch_end:
  "\<exists>w'. work_end (single_branch meta_single_page work a) = JObj w'
     \<and> (\<forall>k. k \<noteq> ''extension'' \<longrightarrow> dict_get w' k = dict_get work k)"
  by (auto simp: single_branch_def Let_def dict_get_set split: sum.splits)

lemma pages_loop_end:
  "(\<forall>k. k \<noteq> ''num'' \<longrightarrow> k \<noteq> ''extension'' \<longrightarrow>
        dict_get (snd (snd (pages_loop num imgs work))) k = dict_get work k)
   \<and> (dict_get work ''num'' \<noteq> None \<longrightarrow>
        dict_get (snd (snd (pages_loop num imgs work))) ''num'' \<noteq> None)"
proof (induction imgs arbitrary: num work)
  case Nil
  show ?case by simp
next
  case (Cons img imgs)
  show ?case
  proof (cases "subscript img ''image_urls''")
    case (Inl e)
    then show ?thesis by simp
  next
    case iu: (Inr image_urls)
    show ?thesis
    proof (cases "subscript image_urls ''original''")
      case (Inl e)
      with iu show ?thesis by simp
    next
      case ur: (Inr url)
      let ?w1 = "dict_set work ''num'' (JStr (''_p'' @ format_02 num))"
      show ?thesis
      proof (cases "str_of url")
        case (Inl e)
        with iu ur show ?thesis by (simp add: dict_get_set)
      next
        case (Inr s)
        let ?w2 = "dict_set ?w1 ''extension'' (JStr (rpartition2 s CHR ''.''))"
        have e: "snd (snd (pages_loop num (img # imgs) work))
            = snd (snd (pages_loop (Suc num) imgs ?w2))"
          using iu ur Inr by (simp add: Let_def split: prod.splits)
        have n: "dict_get ?w2 ''num'' \<noteq> None" by (simp add: dict_get_set)
        from Cons.IH[of "Suc num" ?w2] n show ?thesis
          unfolding e by (simp add: dict_get_set)
      qed
    qed
  qed
qed

lemma pages_branch_end:
  "\<exists>w'. work_end (pages_branch meta_pages work a) = JObj w'
     \<and> (\<forall>k. k \<noteq> ''num'' \<longrightarrow> k \<noteq> ''extension'' \<longrightarrow> dict_get w' k = dict_get work k)
     \<and> (dict_get work ''num'' \<noteq> None \<longrightarrow> dict_get w' ''num'' \<noteq> None)"
proof (cases "iterate meta_pages")
  case (Inl e)
  then show ?thesis by (simp add: pages_branch_def)
next
  case (Inr imgs)
  then have "work_end (pages_branch meta_pages work a) = JObj (snd (snd (pages_loop 0 imgs work)))"
    by (simp add: pages_branch_def split: prod.splits)
  with pages_loop_end[of 0 imgs work] show ?thesis by simp
qed

lemma items_dict_completed:
  assumes "raised (items_dict load_ugoira metadata work a) = None"
  shows "\<exists>user uid. subscript (JObj work) ''user'' = Inr user \<and> subscript user ''id'' = Inr uid
    \<and> (\<not> truthy uid \<longrightarrow>
          items_dict load_ugoira metadata work a =
            \<lparr>yielded = [], raised = None, work_end = JObj work, api_end = a\<rparr>)
    \<and> (truthy uid \<longrightarrow> (\<exists>msp mp work1.
          prepare metadata work = Inr (msp, mp, work1)
        \<and> (items_dict load_ugoira metadata work a = ugoira_branch load_ugoira work1 a
           \<or> items_dict load_ugoira metadata work a = single_branch msp work1 a
           \<or> items_dict load_ugoira metadata work a = pages_branch mp work1 a)))"
  using assms
  by (auto simp: items_dict_def split: sum.splits prod.splits if_splits)

lemma prepare_keys:
  assumes "prepare metadata work = Inr (msp, mp, work1)"
  shows "dict_get work ''meta_single_page'' \<noteq> None \<and> dict_get work ''image_urls'' \<noteq> None
    \<and> dict_get work ''meta_pages'' \<noteq> None"
proof -
  from prepare_Inr[OF assms] obtain w1 w2 w3 where
    d1: "dict_del work ''meta_single_page'' = Inr w1" and
    d2: "dict_del w1 ''image_urls'' = Inr w2" and
    d3: "dict_del w2 ''meta_pages'' = Inr w3"
    by blast
  from d1 have 1: "dict_get work ''meta_single_page'' \<noteq> None"
    by (auto simp: dict_del_def split: if_splits)
  from d2 have "dict_get w1 ''image_urls'' \<noteq> None"
    by (auto simp: dict_del_def split: if_splits)
  then have 2: "dict_get work ''image_urls'' \<noteq> None"
    by (simp add: dict_get_del[OF d1])
  from d3 have "dict_get w2 ''meta_pages'' \<noteq> None"
    by (auto simp: dict_del_def split: if_splits)
  then have 3: "dict_get work ''meta_pages'' \<noteq> None"
    by (simp add: dict_get_del[OF d2] dict_get_del[OF d1])
  from 1 2 3 show ?thesis by simp
qed

lemma sample_single_end:
  "work_end (items_dict lu sample_metadata sample_single a) =
     JObj [(''id'', JInt 966412),
           (''user'', sample_user_detail),
           (''type'', JStr ''illust''), (''page_count'', JInt 1),
           (''tags'', JList [JStr ''sky'', JStr ''sea'']), (''num'', JStr []),
           (''extension'', JStr ''png'')]
   \<and> raised (items_dict lu sample_metadata sample_single a) = None"
  by (simp add: items_dict_def sample_single_def sample_metadata_def sample_user_def
      prepare_def dict_get_def dict_del_def dict_set_def single_branch_def
      rpartition2_def Let_def)

lemma sample_deleted_end:
  "items_dict lu sample_metadata sample_deleted a =
     \<lparr>yielded = [], raised = None, work_end = JObj sample_deleted, api_end = a\<rparr>"
  by (simp add: items_dict_def sample_deleted_def dict_get_def)

subsection \<open>The branches of the loop body\<close>

lemma metadata_field_Url: "metadata_field k (Url u w) = dict_get w k"
  by (simp add: metadata_field_def)

lemma pages_loop_pages:
  assumes "list_all2 (\<lambda>img u. \<exists>iu. subscript img ''image_urls'' = Inr iu
              \<and> subscript iu ''original'' = Inr (JStr u)) imgs urls"
  shows "fst (snd (pages_loop num imgs work)) = None
    \<and> length (fst (pages_loop num imgs work)) = length imgs
    \<and> (\<forall>i < length imgs.
          message_url (fst (pages_loop num imgs work) ! i) = urls ! i
        \<and> metadata_field ''num'' (fst (pages_loop num imgs work) ! i)
            = Some (JStr (''_p'' @ format_02 (num + i)))
        \<and> metadata_field ''extension'' (fst (pages_loop num imgs work) ! i)
            = Some (JStr (rpartition2 (urls ! i) CHR ''.'')))"
  using assms
proof (induction imgs arbitrary: num work urls)
  case Nil
  then show ?case by simp
next
  case (Cons img imgs)
  from Cons.prems obtain u us iu where
    urls: "urls = u # us" and
    iu: "subscript img ''image_urls'' = Inr iu" and
    ur: "subscript iu ''original'' = Inr (JStr u)" and
    rest: "list_all2 (\<lambda>img u. \<exists>iu. subscript img ''image_urls'' = Inr iu
              \<and> subscript iu ''original'' = Inr (JStr u)) imgs us"
    by (auto simp: list_all2_Cons1)
  let ?w2 = "dict_set (dict_set work ''num'' (JStr (''_p'' @ format_02 num)))
      ''extension'' (JStr (rpartition2 u CHR ''.''))"
  let ?r = "pages_loop (Suc num) imgs ?w2"
  have e: "pages_loop num (img # imgs) work = (Url u ?w2 # fst ?r, fst (snd ?r), snd (snd ?r))"
    using iu ur by (simp add: Let_def split: prod.splits)
  note ih = Cons.IH[OF rest, of "Suc num" ?w2]
  have "\<forall>i < length (img # imgs).
          message_url (fst (pages_loop num (img # imgs) work) ! i) = urls ! i
        \<and> metadata_field ''num'' (fst (pages_loop num (img # imgs) work) ! i)
            = Some (JStr (''_p'' @ format_02 (num + i)))
        \<and> metadata_field ''extension'' (fst (pages_loop num (img # imgs) work) ! i)
            = Some (JStr (rpartition2 (urls ! i) CHR ''.''))"
  proof (intro allI impI)
    fix i assume i: "i < length (img # imgs)"
    show "message_url (fst (pages_loop num (img # imgs) work) ! i) = urls ! i
        \<and> metadata_field ''num'' (fst (pages_loop num (img # imgs) work) ! i)
            = Some (JStr (''_p'' @ format_02 (num + i)))
        \<and> metadata_field ''extension'' (fst (pages_loop num (img # imgs) work) ! i)
            = Some (JStr (rpartition2 (urls ! i) CHR ''.''))"
    proof (cases i)
      case 0
      then show ?thesis
        unfolding e urls by (simp add: metadata_field_Url dict_get_set)
    next
      case (Suc j)
      with i have "j < length imgs" by simp
      with ih Suc show ?thesis unfolding e urls by simp
    qed
  qed
  with ih show ?case unfolding e by simp
qed

lemma format_02_small: "n < 10 \<Longrightarrow> format_02 n = [CHR ''0'', digit n]"
  by (simp add: format_02_def digits.simps)

lemma digits_nonempty: "digits n \<noteq> []"
  by (subst digits.simps) simp

lemma length_digits_ge2: "10 \<le> n \<Longrightarrow> 2 \<le> length (digits n)"
  by (subst digits.simps) (simp add: Suc_le_eq digits_nonempty)

lemma format_02_large: "10 \<le> n \<Longrightarrow> format_02 n = digits n"
  using length_digits_ge2[of n] by (simp add: format_02_def)

lemma prepare_field:
  assumes "prepare metadata work = Inr (msp, mp, work1)" and "distinct (map fst metadata)"
    and "dict_get metadata k = None"
    and "k \<notin> {''meta_single_page'', ''image_urls'', ''meta_pages'', ''num'', ''tags''}"
  shows "dict_get work1 k = dict_get work k"
proof -
  from prepare_lookup[OF assms(1,2)] obtain names where
    "\<forall>k. dict_get work1 k =
       overlay [stripped work, [(''num'', JStr []), (''tags'', JList names)], metadata] k"
    by blast
  with assms(3,4) show ?thesis
    by (simp add: dict_get_Cons dict_get_Nil dict_get_stripped)
qed

lemma items_dict_branch:
  assumes "subscript (JObj work) ''user'' = Inr user" and "subscript user ''id'' = Inr uid"
    and "truthy uid" and "prepare metadata work = Inr (msp, mp, work1)"
    and "dict_get work1 ''type'' = Some ty"
  shows "items_dict load_ugoira metadata work a =
     (if eq_str ty ''ugoira'' then ugoira_branch load_ugoira work1 a
      else case subscript (JObj work1) ''page_count'' of
             Inl e \<Rightarrow> \<lparr>yielded = [], raised = Some e, work_end = JObj work1, api_end = a\<rparr>
           | Inr pc \<Rightarrow> if eq_int pc 1 then single_branch msp work1 a
                       else pages_branch mp work1 a)"
  using assms by (simp add: items_dict_def)

text \<open>
  C10. Take a context that is a dict without the keys \<^verbatim>\<open>type\<close> and \<^verbatim>\<open>page_count\<close>, and a
  work that is not skipped and passes lines 40 to 47, whose type is anything but
  \<^verbatim>\<open>"ugoira"\<close>. Then the page count alone decides: if it equals 1, the loop body is the
  single-image branch, and with a string under \<^verbatim>\<open>original_image_url\<close> of the work's
  \<^verbatim>\<open>meta_single_page\<close> it yields exactly one descriptor, with that URL; if it does not
  equal 1, the loop body is the multi-image branch over the work's \<^verbatim>\<open>meta_pages\<close>. The
  type does not occur in the result.
\<close>

theorem branch_by_page_count:
  assumes "distinct (map fst metadata)"
    and "dict_get metadata ''type'' = None" and "dict_get metadata ''page_count'' = None"
    and "subscript (JObj work) ''user'' = Inr user" and "subscript user ''id'' = Inr uid"
    and "truthy uid"
    and "prepare metadata work = Inr (msp, mp, work1)"
    and "dict_get work ''type'' = Some ty" and "\<not> eq_str ty ''ugoira''"
    and "dict_get work ''page_count'' = Some pc"
  shows "dict_get work ''meta_single_page'' = Some msp \<and> dict_get work ''meta_pages'' = Some mp
    \<and> (eq_int pc 1 \<longrightarrow>
          items_dict load_ugoira metadata work a = single_branch msp work1 a
        \<and> (\<forall>u. subscript msp ''original_image_url'' = Inr (JStr u) \<longrightarrow>
              raised (items_dict load_ugoira metadata work a) = None
            \<and> yielded (items_dict load_ugoira metadata work a) =
                [Url u (dict_set work1 ''extension'' (JStr (rpartition2 u CHR ''.'')))]))
    \<and> (\<not> eq_int pc 1 \<longrightarrow>
          items_dict load_ugoira metadata work a = pages_branch mp work1 a)"
proof -
  have ty: "dict_get work1 ''type'' = Some ty"
    using prepare_field[OF assms(7,1,2)] assms(8) by simp
  have pc: "subscript (JObj work1) ''page_count'' = Inr pc"
    using prepare_field[OF assms(7,1,3)] assms(10) by simp
  from prepare_Inr[OF assms(7)]
  have k: "dict_get work ''meta_single_page'' = Some msp \<and> dict_get work ''meta_pages'' = Some mp"
    by (auto split: option.splits)
  have i: "items_dict load_ugoira metadata work a =
      (if eq_int pc 1 then single_branch msp work1 a else pages_branch mp work1 a)"
    using items_dict_branch[OF assms(4,5,6,7) ty, of load_ugoira a] assms(9) pc by simp
  have s: "\<forall>u. subscript msp ''original_image_url'' = Inr (JStr u) \<longrightarrow>
      raised (single_branch msp work1 a) = None
      \<and> yielded (single_branch msp work1 a) =
           [Url u (dict_set work1 ''extension'' (JStr (rpartition2 u CHR ''.'')))]"
    by (simp add: single_branch_def Let_def)
  from k i s show ?thesis by simp
qed

lemma sample_single_prepare:
  "prepare sample_metadata sample_single =
     Inr (JObj [(''original_image_url'', JStr ''https://i.pximg.net/img/966412_p0.png'')],
          JList [],
          [(''id'', JInt 966412), (''user'', sample_user_detail),
           (''type'', JStr ''illust''), (''page_count'', JInt 1),
           (''tags'', JList [JStr ''sky'', JStr ''sea'']), (''num'', JStr [])])"
  by (simp add: sample_single_def sample_metadata_def sample_user_def
      prepare_def dict_get_def dict_del_def dict_set_def Let_def)

lemma sample_pages_prepare:
  "prepare sample_metadata sample_pages =
     Inr (JObj [],
          JList [JObj [(''image_urls'', JObj [(''original'', JStr ''https://i.pximg.net/img/62568267_p0.png'')])],
                 JObj [(''image_urls'', JObj [(''original'', JStr ''https://i.pximg.net/img/62568267_p1.jpg'')])],
                 JObj [(''image_urls'', JObj [(''original'', JStr ''https://i.pximg.net/img/62568267_p2.png'')])]],
          [(''id'', JInt 62568267), (''user'', sample_user_detail),
           (''type'', JStr ''manga''), (''page_count'', JInt 3),
           (''tags'', JList [JStr ''sky'']), (''num'', JStr [])])"
  by (simp add: sample_pages_def sample_metadata_def sample_user_def
      prepare_def dict_get_def dict_del_def dict_set_def Let_def)

lemma sample_user_id:
  "subscript (JObj sample_single) ''user'' = Inr sample_user"
  "subscript (JObj sample_pages) ''user'' = Inr sample_user"
  "subscript (JObj sample_animation) ''user'' = Inr sample_user"
  "subscript sample_user ''id'' = Inr (JInt 173530)"
  by (simp_all add: sample_single_def sample_pages_def sample_animation_def sample_user_def
      dict_get_def)

lemma sample_metadata_keys:
  "distinct (map fst sample_metadata)"
  "dict_get sample_metadata ''type'' = None"
  "dict_get sample_metadata ''page_count'' = None"
  by (simp_all add: sample_metadata_def dict_get_def)

text \<open>
  The sample work of type \<^verbatim>\<open>illust\<close> with page count 1 gives its one descriptor; the
  sample work of type \<^verbatim>\<open>manga\<close> with page count 3 gives three.
\<close>

theorem branch_by_page_count_witness:
  "dict_get sample_single ''type'' = Some (JStr ''illust'') \<and> \<not> eq_str (JStr ''illust'') ''ugoira''
   \<and> dict_get sample_single ''page_count'' = Some (JInt 1) \<and> eq_int (JInt 1) 1
   \<and> yielded (items_dict True sample_metadata sample_single (sample_api (text_response 404 []))) =
       [Url ''https://i.pximg.net/img/966412_p0.png''
          [(''id'', JInt 966412), (''user'', sample_user_detail),
           (''type'', JStr ''illust''), (''page_count'', JInt 1),
           (''tags'', JList [JStr ''sky'', JStr ''sea'']), (''num'', JStr []),
           (''extension'', JStr ''png'')]]
   \<and> dict_get sample_pages ''type'' = Some (JStr ''manga'') \<and> \<not> eq_str (JStr ''manga'') ''ugoira''
   \<and> dict_get sample_pages ''page_count'' = Some (JInt 3) \<and> \<not> eq_int (JInt 3) 1
   \<and> length (yielded (items_dict True sample_metadata sample_pages
                (sample_api (text_response 404 [])))) = 3"
proof -
  let ?a = "sample_api (text_response 404 [])"
  have t1: "dict_get sample_single ''type'' = Some (JStr ''illust'')"
    and p1: "dict_get sample_single ''page_count'' = Some (JInt 1)"
    by (simp_all add: sample_single_def dict_get_def)
  have t2: "dict_get sample_pages ''type'' = Some (JStr ''manga'')"
    and p2: "dict_get sample_pages ''page_count'' = Some (JInt 3)"
    by (simp_all add: sample_pages_def dict_get_def)
  have n1: "\<not> eq_str (JStr ''illust'') ''ugoira''" and n2: "\<not> eq_str (JStr ''manga'') ''ugoira''"
    by simp_all
  have tr: "truthy (JInt 173530)" by simp
  have e1: "eq_int (JInt 1) 1" and e2: "\<not> eq_int (JInt 3) 1" by simp_all
  have ou: "subscript (JObj [(''original_image_url'', JStr ''https://i.pximg.net/img/966412_p0.png'')])
      ''original_image_url'' = Inr (JStr ''https://i.pximg.net/img/966412_p0.png'')"
    by (simp add: dict_get_def)
  let ?msp = "JObj [(''original_image_url'', JStr ''https://i.pximg.net/img/966412_p0.png'')]"
  let ?w1 = "[(''id'', JInt 966412), (''user'', sample_user_detail),
           (''type'', JStr ''illust''), (''page_count'', JInt 1),
           (''tags'', JList [JStr ''sky'', JStr ''sea'']), (''num'', JStr [])]"
  from branch_by_page_count[OF sample_metadata_keys sample_user_id(1) sample_user_id(4) tr
      sample_single_prepare t1 n1 p1, of True ?a] e1
  have "\<forall>u. subscript ?msp ''original_image_url'' = Inr (JStr u) \<longrightarrow>
      yielded (items_dict True sample_metadata sample_single ?a) =
        [Url u (dict_set ?w1 ''extension'' (JStr (rpartition2 u CHR ''.'')))]"
    by blast
  with ou have "yielded (items_dict True sample_metadata sample_single ?a) =
        [Url ''https://i.pximg.net/img/966412_p0.png''
          (dict_set ?w1 ''extension''
            (JStr (rpartition2 ''https://i.pximg.net/img/966412_p0.png'' CHR ''.'')))]"
    by blast
  then have 1: "yielded (items_dict True sample_metadata sample_single ?a) =
       [Url ''https://i.pximg.net/img/966412_p0.png''
          [(''id'', JInt 966412), (''user'', sample_user_detail),
           (''type'', JStr ''illust''), (''page_count'', JInt 1),
           (''tags'', JList [JStr ''sky'', JStr ''sea'']), (''num'', JStr []),
           (''extension'', JStr ''png'')]]"
    by (simp add: dict_set_def rpartition2_def)
  let ?mp = "JList [JObj [(''image_urls'', JObj [(''original'', JStr ''https://i.pximg.net/img/62568267_p0.png'')])],
                 JObj [(''image_urls'', JObj [(''original'', JStr ''https://i.pximg.net/img/62568267_p1.jpg'')])],
                 JObj [(''image_urls'', JObj [(''original'', JStr ''https://i.pximg.net/img/62568267_p2.png'')])]]"
  let ?w2 = "[(''id'', JInt 62568267), (''user'', sample_user_detail),
           (''type'', JStr ''manga''), (''page_count'', JInt 3),
           (''tags'', JList [JStr ''sky'']), (''num'', JStr [])]"
  from branch_by_page_count[OF sample_metadata_keys sample_user_id(2) sample_user_id(4) tr
      sample_pages_prepare t2 n2 p2, of True ?a] e2
  have "items_dict True sample_metadata sample_pages ?a = pages_branch ?mp ?w2 ?a"
    by blast
  moreover have "length (yielded (pages_branch ?mp ?w2 ?a)) = 3"
    by (simp add: pages_branch_def dict_get_def Let_def split: prod.splits)
  ultimately have 2: "length (yielded (items_dict True sample_metadata sample_pages ?a)) = 3"
    by simp
  from t1 n1 p1 1 t2 n2 p2 2 show ?thesis by simp
qed

text \<open>
  C4. Take a context that is a dict without the keys \<^verbatim>\<open>type\<close> and \<^verbatim>\<open>page_count\<close>, and a
  work that is not skipped and passes lines 40 to 47, whose type is not \<^verbatim>\<open>"ugoira"\<close>,
  whose page count is \<open>k > 1\<close> and whose \<^verbatim>\<open>meta_pages\<close> is a list of \<open>k\<close> pages, each with a
  string under \<^verbatim>\<open>image_urls\<close>, \<^verbatim>\<open>original\<close>. Then the loop body ends without an exception
  and yields exactly \<open>k\<close> descriptors, in the order of the pages: descriptor \<open>i\<close> has the
  URL of page \<open>i\<close> and the suffix \<^verbatim>\<open>_p\<close> followed by \<open>i\<close> in two digits, which is a zero
  and the digit for \<open>i < 10\<close> and the decimal digits of \<open>i\<close>, two or more and none cut
  off, from 10 on.
\<close>

theorem page_suffixes:
  assumes "distinct (map fst metadata)"
    and "dict_get metadata ''type'' = None" and "dict_get metadata ''page_count'' = None"
    and "subscript (JObj work) ''user'' = Inr user" and "subscript user ''id'' = Inr uid"
    and "truthy uid"
    and "prepare metadata work = Inr (msp, mp, work1)"
    and "dict_get work ''type'' = Some ty" and "\<not> eq_str ty ''ugoira''"
    and "dict_get work ''page_count'' = Some (JInt k)" and "1 < k"
    and "dict_get work ''meta_pages'' = Some (JList imgs)" and "int (length imgs) = k"
    and "list_all2 (\<lambda>img u. \<exists>iu. subscript img ''image_urls'' = Inr iu
              \<and> subscript iu ''original'' = Inr (JStr u)) imgs urls"
  shows "raised (items_dict load_ugoira metadata work a) = None
    \<and> length (yielded (items_dict load_ugoira metadata work a)) = nat k
    \<and> (\<forall>i < nat k.
          message_url (yielded (items_dict load_ugoira metadata work a) ! i) = urls ! i
        \<and> metadata_field ''num'' (yielded (items_dict load_ugoira metadata work a) ! i)
            = Some (JStr (''_p'' @ format_02 i))
        \<and> (i < 10 \<longrightarrow> format_02 i = [CHR ''0'', digit i])
        \<and> (10 \<le> i \<longrightarrow> format_02 i = digits i \<and> 2 \<le> length (digits i)))"
proof -
  have ty: "dict_get work1 ''type'' = Some ty"
    using prepare_field[OF assms(7,1,2)] assms(8) by simp
  have pc: "subscript (JObj work1) ''page_count'' = Inr (JInt k)"
    using prepare_field[OF assms(7,1,3)] assms(10) by simp
  from prepare_Inr[OF assms(7)] assms(12) have mp: "mp = JList imgs"
    by (auto split: option.splits)
  from assms(11) have ne: "\<not> eq_int (JInt k) 1" by simp
  have i: "items_dict load_ugoira metadata work a = pages_branch (JList imgs) work1 a"
    using items_dict_branch[OF assms(4,5,6,7) ty, of load_ugoira a] assms(9) pc ne mp by simp
  let ?r = "pages_loop 0 imgs work1"
  have b: "yielded (pages_branch (JList imgs) work1 a) = fst ?r"
    "raised (pages_branch (JList imgs) work1 a) = fst (snd ?r)"
    by (simp_all add: pages_branch_def split: prod.splits)
  from assms(13) have n: "nat k = length imgs" by auto
  from pages_loop_pages[OF assms(14), of 0 work1]
  have l: "fst (snd ?r) = None" "length (fst ?r) = length imgs"
    and p: "\<forall>i < length imgs. message_url (fst ?r ! i) = urls ! i
        \<and> metadata_field ''num'' (fst ?r ! i) = Some (JStr (''_p'' @ format_02 i))"
    by simp_all
  have f: "\<forall>i. (i < 10 \<longrightarrow> format_02 i = [CHR ''0'', digit i])
        \<and> (10 \<le> i \<longrightarrow> format_02 i = digits i \<and> 2 \<le> length (digits i))"
    by (simp add: format_02_small format_02_large length_digits_ge2)
  from l p f show ?thesis unfolding i b n by simp
qed

lemma list_all2_replicate2: "P x y \<Longrightarrow> list_all2 P (replicate n x) (replicate n y)"
  by (induction n) simp_all

lemma sample_long_prepare:
  "prepare sample_metadata sample_long =
     Inr (JObj [],
          JList (replicate 101
           (JObj [(''image_urls'', JObj [(''original'', JStr ''https://i.pximg.net/img/1.png'')])])),
          [(''id'', JInt 1), (''user'', sample_user_detail),
           (''type'', JStr ''manga''), (''page_count'', JInt 101),
           (''tags'', JList []), (''num'', JStr [])])"
  by (simp add: sample_long_def sample_metadata_def sample_user_def
      prepare_def dict_get_def dict_del_def dict_set_def Let_def)

lemma format_02_examples:
  "format_02 0 = ''00''" "format_02 1 = ''01''" "format_02 (Suc 0) = ''01''"
  "format_02 2 = ''02''" "format_02 100 = ''100''"
  by (simp_all add: format_02_def digits.simps digit_def)

text \<open>
  The sample work of three pages gives the suffixes \<^verbatim>\<open>_p00\<close>, \<^verbatim>\<open>_p01\<close>, \<^verbatim>\<open>_p02\<close>; the
  sample work of 101 pages gives 101 descriptors, the last with the suffix \<^verbatim>\<open>_p100\<close>.
\<close>

theorem page_suffixes_witness:
  "dict_get sample_pages ''page_count'' = Some (JInt 3) \<and> (1::int) < 3
   \<and> length (yielded (items_dict True sample_metadata sample_pages
                (sample_api (text_response 404 [])))) = 3
   \<and> metadata_field ''num'' (yielded (items_dict True sample_metadata sample_pages
                (sample_api (text_response 404 []))) ! 0) = Some (JStr ''_p00'')
   \<and> metadata_field ''num'' (yielded (items_dict True sample_metadata sample_pages
                (sample_api (text_response 404 []))) ! 1) = Some (JStr ''_p01'')
   \<and> metadata_field ''num'' (yielded (items_dict True sample_metadata sample_pages
                (sample_api (text_response 404 []))) ! 2) = Some (JStr ''_p02'')
   \<and> message_url (yielded (items_dict True sample_metadata sample_pages
                (sample_api (text_response 404 []))) ! 1) = ''https://i.pximg.net/img/62568267_p1.jpg''
   \<and> dict_get sample_long ''page_count'' = Some (JInt 101) \<and> (1::int) < 101
   \<and> length (yielded (items_dict True sample_metadata sample_long
                (sample_api (text_response 404 [])))) = 101
   \<and> metadata_field ''num'' (yielded (items_dict True sample_metadata sample_long
                (sample_api (text_response 404 []))) ! 100) = Some (JStr ''_p100'')"
proof -
  let ?a = "sample_api (text_response 404 [])"
  let ?imgs = "[JObj [(''image_urls'', JObj [(''original'', JStr ''https://i.pximg.net/img/62568267_p0.png'')])],
                 JObj [(''image_urls'', JObj [(''original'', JStr ''https://i.pximg.net/img/62568267_p1.jpg'')])],
                 JObj [(''image_urls'', JObj [(''original'', JStr ''https://i.pximg.net/img/62568267_p2.png'')])]]"
  let ?urls = "[''https://i.pximg.net/img/62568267_p0.png'',
      ''https://i.pximg.net/img/62568267_p1.jpg'', ''https://i.pximg.net/img/62568267_p2.png'']"
  let ?img = "JObj [(''image_urls'', JObj [(''original'', JStr ''https://i.pximg.net/img/1.png'')])]"
  have tr: "truthy (JInt 173530)" by simp
  have t2: "dict_get sample_pages ''type'' = Some (JStr ''manga'')"
    and p2: "dict_get sample_pages ''page_count'' = Some (JInt 3)"
    and m2: "dict_get sample_pages ''meta_pages'' = Some (JList ?imgs)"
    by (simp_all add: sample_pages_def dict_get_def)
  have t3: "dict_get sample_long ''type'' = Some (JStr ''manga'')"
    and p3: "dict_get sample_long ''page_count'' = Some (JInt 101)"
    and m3: "dict_get sample_long ''meta_pages'' = Some (JList (replicate 101 ?img))"
    and u3: "subscript (JObj sample_long) ''user'' = Inr sample_user"
    by (simp_all add: sample_long_def dict_get_def)
  have n: "\<not> eq_str (JStr ''manga'') ''ugoira''" by simp
  have l2: "int (length ?imgs) = 3" by simp
  have l3: "int (length (replicate 101 ?img)) = 101" by simp
  have a2: "list_all2 (\<lambda>img u. \<exists>iu. subscript img ''image_urls'' = Inr iu
              \<and> subscript iu ''original'' = Inr (JStr u)) ?imgs ?urls"
    by (simp add: dict_get_def)
  have a3: "list_all2 (\<lambda>img u. \<exists>iu. subscript img ''image_urls'' = Inr iu
              \<and> subscript iu ''original'' = Inr (JStr u))
            (replicate 101 ?img) (replicate 101 ''https://i.pximg.net/img/1.png'')"
    by (rule list_all2_replicate2) (simp add: dict_get_def)
  have lt2: "(1::int) < 3" and lt3: "(1::int) < 101" by simp_all
  note r2 = page_suffixes[OF sample_metadata_keys sample_user_id(2) sample_user_id(4) tr
      sample_pages_prepare t2 n p2 lt2 m2 l2 a2, of True ?a]
  note r3 = page_suffixes[OF sample_metadata_keys u3 sample_user_id(4) tr
      sample_long_prepare t3 n p3 lt3 m3 l3 a3, of True ?a]
  from r2 have 1: "length (yielded (items_dict True sample_metadata sample_pages ?a)) = 3"
    by simp
  from r2 have "\<forall>i<3. message_url (yielded (items_dict True sample_metadata sample_pages ?a) ! i)
        = ?urls ! i
      \<and> metadata_field ''num'' (yielded (items_dict True sample_metadata sample_pages ?a) ! i)
        = Some (JStr (''_p'' @ format_02 i))"
    by simp
  then have 2: "metadata_field ''num'' (yielded (items_dict True sample_metadata sample_pages ?a) ! 0)
        = Some (JStr (''_p'' @ format_02 0))"
    and 3: "metadata_field ''num'' (yielded (items_dict True sample_metadata sample_pages ?a) ! 1)
        = Some (JStr (''_p'' @ format_02 1))"
    and 4: "metadata_field ''num'' (yielded (items_dict True sample_metadata sample_pages ?a) ! 2)
        = Some (JStr (''_p'' @ format_02 2))"
    and 5: "message_url (yielded (items_dict True sample_metadata sample_pages ?a) ! 1)
        = ?urls ! 1"
    by simp_all
  from r3 have 6: "length (yielded (items_dict True sample_metadata sample_long ?a)) = 101"
    by simp
  from r3 have "\<forall>i<101. metadata_field ''num''
        (yielded (items_dict True sample_metadata sample_long ?a) ! i)
        = Some (JStr (''_p'' @ format_02 i))"
    by simp
  then have 7: "metadata_field ''num'' (yielded (items_dict True sample_metadata sample_long ?a) ! 100)
        = Some (JStr (''_p'' @ format_02 100))"
    by simp
  from p2 1 2 3 4 5 p3 6 7 show ?thesis by (simp add: format_02_examples)
qed

subsection \<open>Animations\<close>

lemma replace_nonempty:
  "s \<noteq> [] \<Longrightarrow> old \<noteq> [] \<Longrightarrow> new \<noteq> [] \<Longrightarrow> replace s old new \<noteq> []"
  by (subst replace.simps) simp

lemma frame_line_Inr:
  "frame_line frame = Inr l \<Longrightarrow>
     \<exists>file delay f d. subscript frame ''file'' = Inr file \<and> format_value file = Inr f
       \<and> subscript frame ''delay'' = Inr delay \<and> format_value delay = Inr d
       \<and> l = f @ '' '' @ d @ [CHR 0x0A]"
  by (auto simp: frame_line_def split: sum.splits)

lemma frame_lines_all2:
  "frame_lines frames = Inr ls \<Longrightarrow>
     list_all2 (\<lambda>frame l. \<exists>file delay f d.
         subscript frame ''file'' = Inr file \<and> format_value file = Inr f
       \<and> subscript frame ''delay'' = Inr delay \<and> format_value delay = Inr d
       \<and> l = f @ '' '' @ d @ [CHR 0x0A]) frames ls"
proof (induction frames arbitrary: ls)
  case Nil
  then show ?case by simp
next
  case (Cons frame frames)
  from Cons.prems obtain l ls' where l: "frame_line frame = Inr l"
    and r: "frame_lines frames = Inr ls'" and ls: "ls = l # ls'"
    by (auto split: sum.splits)
  from frame_line_Inr[OF l] Cons.IH[OF r] ls show ?case by simp
qed

lemma ugoira_branch_completed:
  assumes "raised (ugoira_branch True work a) = None"
  shows "\<exists>illust_id ugoira a1 zip_urls m fr frames ls.
      subscript (JObj work) ''id'' = Inr illust_id
    \<and> ugoira_metadata illust_id a = (Inr ugoira, a1)
    \<and> subscript ugoira ''zip_urls'' = Inr zip_urls
    \<and> subscript zip_urls ''medium'' = Inr (JStr m)
    \<and> subscript ugoira ''frames'' = Inr fr \<and> iterate fr = Inr frames
    \<and> frame_lines frames = Inr ls
    \<and> yielded (ugoira_branch True work a) =
        [Url (replace m ''_ugoira600x600'' ''_ugoira1920x1080'')
             (dict_set work ''extension'' (JStr ''zip'')),
         Url (''text:'' @ concat ls)
             (dict_set (dict_set work ''extension'' (JStr ''zip'')) ''extension'' (JStr ''txt''))]"
proof -
  from assms obtain illust_id where i: "subscript (JObj work) ''id'' = Inr illust_id"
    by (cases "subscript (JObj work) ''id''") (auto simp: ugoira_branch_def)
  obtain x a1 where u: "ugoira_metadata illust_id a = (x, a1)"
    by (cases "ugoira_metadata illust_id a")
  from assms i u obtain ugoira where x: "x = Inr ugoira"
    by (cases x) (auto simp: ugoira_branch_def)
  from assms i u x obtain url where uu: "ugoira_url ugoira = Inr url"
    by (cases "ugoira_url ugoira") (auto simp: ugoira_branch_def)
  from assms i u x uu obtain lines where fl: "framelist ugoira = Inr lines"
    by (cases "framelist ugoira") (auto simp: ugoira_branch_def Let_def)
  from uu obtain zip_urls m where z: "subscript ugoira ''zip_urls'' = Inr zip_urls"
    "subscript zip_urls ''medium'' = Inr (JStr m)"
    "url = replace m ''_ugoira600x600'' ''_ugoira1920x1080''"
    by (auto simp: ugoira_url_def split: sum.splits elim: str_of.elims)
  from fl obtain fr frames ls where f: "subscript ugoira ''frames'' = Inr fr"
    "iterate fr = Inr frames" "frame_lines frames = Inr ls" "lines = concat ls"
    by (auto simp: framelist_def split: sum.splits)
  have "yielded (ugoira_branch True work a) =
        [Url url (dict_set work ''extension'' (JStr ''zip'')),
         Url (''text:'' @ lines)
             (dict_set (dict_set work ''extension'' (JStr ''zip'')) ''extension'' (JStr ''txt''))]"
    using i u x uu fl by (simp add: ugoira_branch_def Let_def)
  with i u x z f show ?thesis by blast
qed

text \<open>
  C2. Take a context that is a dict without the key \<^verbatim>\<open>type\<close>, and a work of type
  \<^verbatim>\<open>"ugoira"\<close> that is not skipped and passes lines 40 to 47. With animation loading
  disabled the loop body yields nothing and ends without an exception. With animation
  loading enabled, whenever the loop body ends without an exception it has yielded exactly
  two descriptors: first the archive, whose URL is the medium URL of the fetched frame
  metadata after the rewrite (not empty when the medium URL is not) and whose extension is
  \<^verbatim>\<open>zip\<close>; then the frame list, whose URL is \<^verbatim>\<open>text:\<close> followed by one line per frame, in
  the order of the frames, each line being the file, a blank, the delay and a newline, and
  whose extension is \<^verbatim>\<open>txt\<close>.
\<close>

theorem animation_descriptors:
  assumes "distinct (map fst metadata)" and "dict_get metadata ''type'' = None"
    and "subscript (JObj work) ''user'' = Inr user" and "subscript user ''id'' = Inr uid"
    and "truthy uid"
    and "prepare metadata work = Inr (msp, mp, work1)"
    and "dict_get work ''type'' = Some (JStr ''ugoira'')"
  shows "(\<not> load_ugoira \<longrightarrow>
            yielded (items_dict load_ugoira metadata work a) = []
          \<and> raised (items_dict load_ugoira metadata work a) = None)
    \<and> (load_ugoira \<longrightarrow> raised (items_dict load_ugoira metadata work a) = None \<longrightarrow>
         (\<exists>illust_id ugoira a1 zip_urls m fr frames ls.
            subscript (JObj work1) ''id'' = Inr illust_id
          \<and> ugoira_metadata illust_id a = (Inr ugoira, a1)
          \<and> subscript ugoira ''zip_urls'' = Inr zip_urls
          \<and> subscript zip_urls ''medium'' = Inr (JStr m)
          \<and> subscript ugoira ''frames'' = Inr fr \<and> iterate fr = Inr frames
          \<and> yielded (items_dict load_ugoira metadata work a) =
              [Url (replace m ''_ugoira600x600'' ''_ugoira1920x1080'')
                   (dict_set work1 ''extension'' (JStr ''zip'')),
               Url (''text:'' @ concat ls)
                   (dict_set (dict_set work1 ''extension'' (JStr ''zip''))
                      ''extension'' (JStr ''txt''))]
          \<and> map (metadata_field ''extension'') (yielded (items_dict load_ugoira metadata work a))
              = [Some (JStr ''zip''), Some (JStr ''txt'')]
          \<and> (m \<noteq> [] \<longrightarrow> replace m ''_ugoira600x600'' ''_ugoira1920x1080'' \<noteq> [])
          \<and> length ls = length frames
          \<and> list_all2 (\<lambda>frame l. \<exists>file delay f d.
                 subscript frame ''file'' = Inr file \<and> format_value file = Inr f
               \<and> subscript frame ''delay'' = Inr delay \<and> format_value delay = Inr d
               \<and> l = f @ '' '' @ d @ [CHR 0x0A]) frames ls))"
proof -
  have ty: "dict_get work1 ''type'' = Some (JStr ''ugoira'')"
    using prepare_field[OF assms(6,1,2)] assms(7) by simp
  have i: "items_dict load_ugoira metadata work a = ugoira_branch load_ugoira work1 a"
    using items_dict_branch[OF assms(3,4,5,6) ty, of load_ugoira a] by simp
  have off: "\<not> load_ugoira \<longrightarrow>
            yielded (ugoira_branch load_ugoira work1 a) = []
          \<and> raised (ugoira_branch load_ugoira work1 a) = None"
    by (simp add: ugoira_branch_def)
  have on: "\<exists>illust_id ugoira a1 zip_urls m fr frames ls.
            subscript (JObj work1) ''id'' = Inr illust_id
          \<and> ugoira_metadata illust_id a = (Inr ugoira, a1)
          \<and> subscript ugoira ''zip_urls'' = Inr zip_urls
          \<and> subscript zip_urls ''medium'' = Inr (JStr m)
          \<and> subscript ugoira ''frames'' = Inr fr \<and> iterate fr = Inr frames
          \<and> yielded (ugoira_branch load_ugoira work1 a) =
              [Url (replace m ''_ugoira600x600'' ''_ugoira1920x1080'')
                   (dict_set work1 ''extension'' (JStr ''zip'')),
               Url (''text:'' @ concat ls)
                   (dict_set (dict_set work1 ''extension'' (JStr ''zip''))
                      ''extension'' (JStr ''txt''))]
          \<and> map (metadata_field ''extension'') (yielded (ugoira_branch load_ugoira work1 a))
              = [Some (JStr ''zip''), Some (JStr ''txt'')]
          \<and> (m \<noteq> [] \<longrightarrow> replace m ''_ugoira600x600'' ''_ugoira1920x1080'' \<noteq> [])
          \<and> length ls = length frames
          \<and> list_all2 (\<lambda>frame l. \<exists>file delay f d.
                 subscript frame ''file'' = Inr file \<and> format_value file = Inr f
               \<and> subscript frame ''delay'' = Inr delay \<and> format_value delay = Inr d
               \<and> l = f @ '' '' @ d @ [CHR 0x0A]) frames ls"
    if l: "load_ugoira" and r: "raised (ugoira_branch load_ugoira work1 a) = None"
  proof -
    from l r have "raised (ugoira_branch True work1 a) = None" by simp
    from ugoira_branch_completed[OF this] obtain illust_id ugoira a1 zip_urls m fr frames ls where
      f: "subscript (JObj work1) ''id'' = Inr illust_id"
         "ugoira_metadata illust_id a = (Inr ugoira, a1)"
         "subscript ugoira ''zip_urls'' = Inr zip_urls"
         "subscript zip_urls ''medium'' = Inr (JStr m)"
         "subscript ugoira ''frames'' = Inr fr" "iterate fr = Inr frames" and
      fl: "frame_lines frames = Inr ls" and
      y: "yielded (ugoira_branch True work1 a) =
        [Url (replace m ''_ugoira600x600'' ''_ugoira1920x1080'')
             (dict_set work1 ''extension'' (JStr ''zip'')),
         Url (''text:'' @ concat ls)
             (dict_set (dict_set work1 ''extension'' (JStr ''zip'')) ''extension'' (JStr ''txt''))]"
      by blast
    note a2 = frame_lines_all2[OF fl]
    from a2 have len: "length ls = length frames" by (simp add: list_all2_lengthD)
    have ne: "m \<noteq> [] \<longrightarrow> replace m ''_ugoira600x600'' ''_ugoira1920x1080'' \<noteq> []"
      by (simp add: replace_nonempty)
    from y l have y': "yielded (ugoira_branch load_ugoira work1 a) =
        [Url (replace m ''_ugoira600x600'' ''_ugoira1920x1080'')
             (dict_set work1 ''extension'' (JStr ''zip'')),
         Url (''text:'' @ concat ls)
             (dict_set (dict_set work1 ''extension'' (JStr ''zip'')) ''extension'' (JStr ''txt''))]"
      by simp
    then have ex: "map (metadata_field ''extension'') (yielded (ugoira_branch load_ugoira work1 a))
              = [Some (JStr ''zip''), Some (JStr ''txt'')]"
      by (simp add: metadata_field_Url dict_get_set)
    show ?thesis
      by (rule exI[of _ illust_id], rule exI[of _ ugoira], rule exI[of _ a1],
          rule exI[of _ zip_urls], rule exI[of _ m], rule exI[of _ fr],
          rule exI[of _ frames], rule exI[of _ ls])
         (intro conjI f y' ex ne len a2)
  qed
  show ?thesis unfolding i
  proof (intro conjI impI)
    assume "\<not> load_ugoira"
    with off show "yielded (ugoira_branch load_ugoira work1 a) = []"
      and "raised (ugoira_branch load_ugoira work1 a) = None"
      by simp_all
  next
    assume "load_ugoira" and "raised (ugoira_branch load_ugoira work1 a) = None"
    then show "\<exists>illust_id ugoira a1 zip_urls m fr frames ls.
            subscript (JObj work1) ''id'' = Inr illust_id
          \<and> ugoira_metadata illust_id a = (Inr ugoira, a1)
          \<and> subscript ugoira ''zip_urls'' = Inr zip_urls
          \<and> subscript zip_urls ''medium'' = Inr (JStr m)
          \<and> subscript ugoira ''frames'' = Inr fr \<and> iterate fr = Inr frames
          \<and> yielded (ugoira_branch load_ugoira work1 a) =
              [Url (replace m ''_ugoira600x600'' ''_ugoira1920x1080'')
                   (dict_set work1 ''extension'' (JStr ''zip'')),
               Url (''text:'' @ concat ls)
                   (dict_set (dict_set work1 ''extension'' (JStr ''zip''))
                      ''extension'' (JStr ''txt''))]
          \<and> map (metadata_field ''extension'') (yielded (ugoira_branch load_ugoira work1 a))
              = [Some (JStr ''zip''), Some (JStr ''txt'')]
          \<and> (m \<noteq> [] \<longrightarrow> replace m ''_ugoira600x600'' ''_ugoira1920x1080'' \<noteq> [])
          \<and> length ls = length frames
          \<and> list_all2 (\<lambda>frame l. \<exists>file delay f d.
                 subscript frame ''file'' = Inr file \<and> format_value file = Inr f
               \<and> subscript frame ''delay'' = Inr delay \<and> format_value delay = Inr d
               \<and> l = f @ '' '' @ d @ [CHR 0x0A]) frames ls"
      by (rule on)
  qed
qed

lemma sample_animation_prepare:
  "prepare sample_metadata sample_animation =
     Inr (JObj [(''original_image_url'', JStr ''https://i.pximg.net/img/66806629_ugoira0.jpg'')],
          JList [],
          [(''id'', JInt 66806629), (''user'', sample_user_detail),
           (''type'', JStr ''ugoira''), (''page_count'', JInt 1),
           (''tags'', JList [JStr ''gif'']), (''num'', JStr [])])"
  by (simp add: sample_animation_def sample_metadata_def sample_user_def
      prepare_def dict_get_def dict_del_def dict_set_def Let_def)

lemma sample_ugoira_metadata:
  "fst (ugoira_metadata i (sample_api (json_response 200 sample_ugoira_body))) = Inr sample_ugoira"
  by (simp add: ugoira_metadata_def call_def sample_api_def login_sample)
     (simp add: session_get_def api_init_def json_response_def response_json_def
        sample_ugoira_body_def dict_get_def emit_def split: prod.splits)

lemma sample_ugoira_url:
  "ugoira_url sample_ugoira = Inr ''https://i.pximg.net/zip/66806629_ugoira1920x1080.zip''"
  by code_simp

lemma sample_framelist:
  "framelist sample_ugoira = Inr (''000000.jpg 100'' @ [CHR 0x0A] @ ''000001.jpg 80'' @ [CHR 0x0A])"
  by code_simp

lemma sample_animation_items:
  "raised (items_dict True sample_metadata sample_animation
      (sample_api (json_response 200 sample_ugoira_body))) = None
   \<and> map message_url (yielded (items_dict True sample_metadata sample_animation
      (sample_api (json_response 200 sample_ugoira_body)))) =
       [''https://i.pximg.net/zip/66806629_ugoira1920x1080.zip'',
        ''text:000000.jpg 100'' @ [CHR 0x0A] @ ''000001.jpg 80'' @ [CHR 0x0A]]"
proof -
  let ?a = "sample_api (json_response 200 sample_ugoira_body)"
  let ?w1 = "[(''id'', JInt 66806629), (''user'', sample_user_detail),
           (''type'', JStr ''ugoira''), (''page_count'', JInt 1),
           (''tags'', JList [JStr ''gif'']), (''num'', JStr [])]"
  have ty: "dict_get ?w1 ''type'' = Some (JStr ''ugoira'')" by (simp add: dict_get_def)
  have tr: "truthy (JInt 173530)" by simp
  from items_dict_branch[OF sample_user_id(3) sample_user_id(4) tr sample_animation_prepare ty,
      of True ?a]
  have i: "items_dict True sample_metadata sample_animation ?a = ugoira_branch True ?w1 ?a"
    by simp
  obtain x a1 where u: "ugoira_metadata (JInt 66806629) ?a = (x, a1)"
    by (cases "ugoira_metadata (JInt 66806629) ?a")
  with sample_ugoira_metadata[of "JInt 66806629"] have x: "x = Inr sample_ugoira" by simp
  show ?thesis
    unfolding i
    by (simp add: ugoira_branch_def dict_get_def u x sample_ugoira_url sample_framelist Let_def)
qed

text \<open>
  The sample animation with the sample frame metadata: two descriptors with loading
  enabled, the archive and the list of the two frames; none with loading disabled.
\<close>

theorem animation_descriptors_witness:
  "dict_get sample_animation ''type'' = Some (JStr ''ugoira'')
   \<and> raised (items_dict True sample_metadata sample_animation
        (sample_api (json_response 200 sample_ugoira_body))) = None
   \<and> length (yielded (items_dict True sample_metadata sample_animation
        (sample_api (json_response 200 sample_ugoira_body)))) = 2
   \<and> map (metadata_field ''extension'') (yielded (items_dict True sample_metadata sample_animation
        (sample_api (json_response 200 sample_ugoira_body))))
       = [Some (JStr ''zip''), Some (JStr ''txt'')]
   \<and> map message_url (yielded (items_dict True sample_metadata sample_animation
        (sample_api (json_response 200 sample_ugoira_body)))) =
       [''https://i.pximg.net/zip/66806629_ugoira1920x1080.zip'',
        ''text:000000.jpg 100'' @ [CHR 0x0A] @ ''000001.jpg 80'' @ [CHR 0x0A]]
   \<and> yielded (items_dict False sample_metadata sample_animation
        (sample_api (json_response 200 sample_ugoira_body))) = []"
proof -
  let ?a = "sample_api (json_response 200 sample_ugoira_body)"
  have ty: "dict_get sample_animation ''type'' = Some (JStr ''ugoira'')"
    by (simp add: sample_animation_def dict_get_def)
  have tr: "truthy (JInt 173530)" by simp
  note on = animation_descriptors[OF sample_metadata_keys(1,2) sample_user_id(3) sample_user_id(4)
      tr sample_animation_prepare ty, of True ?a]
  note off = animation_descriptors[OF sample_metadata_keys(1,2) sample_user_id(3) sample_user_id(4)
      tr sample_animation_prepare ty, of False ?a]
  have r: "raised (items_dict True sample_metadata sample_animation ?a) = None"
    and u: "map message_url (yielded (items_dict True sample_metadata sample_animation ?a)) =
       [''https://i.pximg.net/zip/66806629_ugoira1920x1080.zip'',
        ''text:000000.jpg 100'' @ [CHR 0x0A] @ ''000001.jpg 80'' @ [CHR 0x0A]]"
    using sample_animation_items by simp_all
  from on r have e: "map (metadata_field ''extension'')
      (yielded (items_dict True sample_metadata sample_animation ?a))
       = [Some (JStr ''zip''), Some (JStr ''txt'')]"
    by blast
  then have "length (map (metadata_field ''extension'')
      (yielded (items_dict True sample_metadata sample_animation ?a))) = 2"
    by simp
  then have l: "length (yielded (items_dict True sample_metadata sample_animation ?a)) = 2"
    by simp
  from off have z: "yielded (items_dict False sample_metadata sample_animation ?a) = []"
    by blast
  from ty r l e u z show ?thesis by blast
qed

subsection \<open>The last overlay of each branch\<close>

lemma ugoira_branch_yielded_ext:
  assumes "Url u w \<in> set (yielded (ugoira_branch load_ugoira work a))"
  shows "\<exists>ext. (ext = ''zip'' \<or> ext = ''txt'')
     \<and> (\<forall>k. dict_get w k = overlay [work, [(''extension'', JStr ext)]] k)"
proof -
  from assms have "w = dict_set work ''extension'' (JStr ''zip'')
      \<or> w = dict_set (dict_set work ''extension'' (JStr ''zip'')) ''extension'' (JStr ''txt'')"
    by (auto simp: ugoira_branch_def Let_def split: if_splits sum.splits prod.splits)
  then show ?thesis
  proof
    assume "w = dict_set work ''extension'' (JStr ''zip'')"
    then have "\<forall>k. dict_get w k = overlay [work, [(''extension'', JStr ''zip'')]] k"
      by (simp add: dict_get_set dict_get_Cons dict_get_Nil)
    then show ?thesis by blast
  next
    assume "w = dict_set (dict_set work ''extension'' (JStr ''zip'')) ''extension'' (JStr ''txt'')"
    then have "\<forall>k. dict_get w k = overlay [work, [(''extension'', JStr ''txt'')]] k"
      by (simp add: dict_get_set dict_get_Cons dict_get_Nil)
    then show ?thesis by blast
  qed
qed

lemma single_branch_yielded_ext:
  assumes "Url u w \<in> set (yielded (single_branch meta_single_page work a))"
  shows "\<forall>k. dict_get w k = overlay [work, [(''extension'', JStr (rpartition2 u CHR ''.''))]] k"
proof -
  from assms have "w = dict_set work ''extension'' (JStr (rpartition2 u CHR ''.''))"
    by (auto simp: single_branch_def Let_def split: sum.splits)
  then show ?thesis
    by (simp add: dict_get_set dict_get_Cons dict_get_Nil)
qed

lemma pages_loop_yielded_ext:
  assumes "Url u w \<in> set (fst (pages_loop num imgs work))"
  shows "\<exists>i. \<forall>k. dict_get w k =
           overlay [work, [(''num'', JStr (''_p'' @ format_02 i)),
                           (''extension'', JStr (rpartition2 u CHR ''.''))]] k"
  using assms
proof (induction imgs arbitrary: num work)
  case Nil
  then show ?case by simp
next
  case (Cons img imgs)
  from Cons.prems obtain image_urls url s where
    iu: "subscript img ''image_urls'' = Inr image_urls" and
    ur: "subscript image_urls ''original'' = Inr url" and
    st: "str_of url = Inr s"
    by (auto simp: Let_def split: sum.splits prod.splits)
  let ?w1 = "dict_set work ''num'' (JStr (''_p'' @ format_02 num))"
  let ?w2 = "dict_set ?w1 ''extension'' (JStr (rpartition2 s CHR ''.''))"
  from Cons.prems iu ur st
  have "Url u w = Url s ?w2 \<or> Url u w \<in> set (fst (pages_loop (Suc num) imgs ?w2))"
    by (auto simp: Let_def split: prod.splits)
  then show ?case
  proof
    assume "Url u w = Url s ?w2"
    then have "\<forall>k. dict_get w k = overlay [work, [(''num'', JStr (''_p'' @ format_02 num)),
        (''extension'', JStr (rpartition2 u CHR ''.''))]] k"
      by (simp add: dict_get_set dict_get_Cons dict_get_Nil)
    then show ?thesis by blast
  next
    assume "Url u w \<in> set (fst (pages_loop (Suc num) imgs ?w2))"
    from Cons.IH[OF this] obtain i where
      "\<forall>k. dict_get w k = overlay [?w2, [(''num'', JStr (''_p'' @ format_02 i)),
          (''extension'', JStr (rpartition2 u CHR ''.''))]] k"
      by blast
    then have "\<forall>k. dict_get w k = overlay [work, [(''num'', JStr (''_p'' @ format_02 i)),
          (''extension'', JStr (rpartition2 u CHR ''.''))]] k"
      by (simp add: dict_get_set dict_get_Cons dict_get_Nil)
    then show ?thesis by blast
  qed
qed

lemma pages_branch_yielded_ext:
  assumes "Url u w \<in> set (yielded (pages_branch meta_pages work a))"
  shows "\<exists>i. \<forall>k. dict_get w k =
           overlay [work, [(''num'', JStr (''_p'' @ format_02 i)),
                           (''extension'', JStr (rpartition2 u CHR ''.''))]] k"
proof -
  from assms have "\<exists>imgs. Url u w \<in> set (fst (pages_loop 0 imgs work))"
    by (auto simp: pages_branch_def split: sum.splits prod.splits) (metis fst_conv)
  then obtain imgs where "Url u w \<in> set (fst (pages_loop 0 imgs work))" ..
  then show ?thesis by (rule pages_loop_yielded_ext)
qed

lemma items_dict_yielded_branch:
  assumes "Url u w \<in> set (yielded (items_dict load_ugoira metadata work a))"
  shows "\<exists>msp mp work1 ty.
      prepare metadata work = Inr (msp, mp, work1) \<and> dict_get work1 ''type'' = Some ty
    \<and> (eq_str ty ''ugoira'' \<longrightarrow> Url u w \<in> set (yielded (ugoira_branch load_ugoira work1 a)))
    \<and> (\<not> eq_str ty ''ugoira'' \<longrightarrow> (\<exists>pc. dict_get work1 ''page_count'' = Some pc
          \<and> (eq_int pc 1 \<longrightarrow> Url u w \<in> set (yielded (single_branch msp work1 a)))
          \<and> (\<not> eq_int pc 1 \<longrightarrow> Url u w \<in> set (yielded (pages_branch mp work1 a)))))"
  using assms
  by (auto simp: items_dict_def split: sum.splits prod.splits if_splits option.splits)

text \<open>
  C1, as the code has it. The context \<open>metadata\<close> is a dict, so its keys are distinct.
  For every descriptor that the loop body yields for a work, the tags of the work are
  iterable and each has a name, and the metadata of the descriptor is, key by key, the
  overlay of four dicts in rising precedence: the work without \<^verbatim>\<open>meta_single_page\<close>,
  \<^verbatim>\<open>image_urls\<close> and \<^verbatim>\<open>meta_pages\<close>; the empty suffix \<^verbatim>\<open>num\<close> and the list of the tag
  names; the context; and what the branch of the work sets at the end. The branch is the
  one that \<^verbatim>\<open>type\<close> and \<^verbatim>\<open>page_count\<close> of the descriptor select, which are those of the work
  when the context does not hold these keys. For the type \<^verbatim>\<open>"ugoira"\<close> the last dict is the
  extension alone, \<^verbatim>\<open>zip\<close> or \<^verbatim>\<open>txt\<close>. For another type and the page count 1 it is the
  extension alone, the part of the URL after its last dot. For another type and another
  page count, the descriptor is a page of a multi-image work, and the last dict is the page
  suffix \<^verbatim>\<open>num\<close>, which is \<^verbatim>\<open>_p\<close> and a page index in two digits, and the extension. So
  the context overrides the fields of the work, the extension overrides the context, and
  the page suffix overrides the context only for a page of a multi-image work.
\<close>

theorem descriptor_metadata_precedence:
  assumes "distinct (map fst metadata)"
    and "Url u w \<in> set (yielded (items_dict load_ugoira metadata work a))"
  shows "\<exists>ty tags ts names.
      dict_get w ''type'' = Some ty
    \<and> (dict_get metadata ''type'' = None \<longrightarrow> dict_get work ''type'' = Some ty)
    \<and> dict_get work ''tags'' = Some tags \<and> iterate tags = Inr ts
    \<and> list_all2 (\<lambda>t n. subscript t ''name'' = Inr n) ts names
    \<and> (eq_str ty ''ugoira'' \<longrightarrow>
         (\<exists>ext. (ext = ''zip'' \<or> ext = ''txt'')
            \<and> (\<forall>k. dict_get w k =
                  overlay [stripped work, [(''num'', JStr []), (''tags'', JList names)], metadata,
                           [(''extension'', JStr ext)]] k)))
    \<and> (\<not> eq_str ty ''ugoira'' \<longrightarrow>
         (\<exists>pc. dict_get w ''page_count'' = Some pc
            \<and> (dict_get metadata ''page_count'' = None \<longrightarrow> dict_get work ''page_count'' = Some pc)
            \<and> (eq_int pc 1 \<longrightarrow>
                 (\<forall>k. dict_get w k =
                    overlay [stripped work, [(''num'', JStr []), (''tags'', JList names)], metadata,
                             [(''extension'', JStr (rpartition2 u CHR ''.''))]] k))
            \<and> (\<not> eq_int pc 1 \<longrightarrow>
                 (\<exists>i. \<forall>k. dict_get w k =
                    overlay [stripped work, [(''num'', JStr []), (''tags'', JList names)], metadata,
                             [(''num'', JStr (''_p'' @ format_02 i)),
                              (''extension'', JStr (rpartition2 u CHR ''.''))]] k))))"
proof -
  from items_dict_yielded_branch[OF assms(2)] obtain msp mp work1 ty where
    p: "prepare metadata work = Inr (msp, mp, work1)" and
    ty: "dict_get work1 ''type'' = Some ty" and
    bu: "eq_str ty ''ugoira'' \<longrightarrow> Url u w \<in> set (yielded (ugoira_branch load_ugoira work1 a))" and
    bn: "\<not> eq_str ty ''ugoira'' \<longrightarrow> (\<exists>pc. dict_get work1 ''page_count'' = Some pc
          \<and> (eq_int pc 1 \<longrightarrow> Url u w \<in> set (yielded (single_branch msp work1 a)))
          \<and> (\<not> eq_int pc 1 \<longrightarrow> Url u w \<in> set (yielded (pages_branch mp work1 a))))"
    by blast
  from prepare_lookup[OF p assms(1)] obtain tags ts names where
    t: "dict_get work ''tags'' = Some tags" "iterate tags = Inr ts"
       "list_all2 (\<lambda>t n. subscript t ''name'' = Inr n) ts names" and
    l: "\<forall>k. dict_get work1 k =
           overlay [stripped work, [(''num'', JStr []), (''tags'', JList names)], metadata] k"
    by blast
  have top: "\<forall>k. dict_get w k =
      overlay [stripped work, [(''num'', JStr []), (''tags'', JList names)], metadata, r] k"
    if "\<forall>k. dict_get w k = overlay [work1, r] k" for r
    using overlay_top[OF that l] by simp
  have keep: "dict_get w k = dict_get work1 k"
    if "\<forall>k. dict_get w k = overlay [work1, r] k" and "dict_get r k = None" for r k
    using that by (simp add: dict_get_Nil)
  have wty: "dict_get work ''type'' = Some ty" if "dict_get metadata ''type'' = None"
    using prepare_field[OF p assms(1) that] ty by simp
  have wpc: "dict_get work ''page_count'' = dict_get work1 ''page_count''"
    if "dict_get metadata ''page_count'' = None"
    using prepare_field[OF p assms(1) that] by simp
  have U: "eq_str ty ''ugoira'' \<longrightarrow>
      dict_get w ''type'' = Some ty
      \<and> (\<exists>ext. (ext = ''zip'' \<or> ext = ''txt'')
            \<and> (\<forall>k. dict_get w k = overlay [stripped work, [(''num'', JStr []), (''tags'', JList names)], metadata, [(''extension'', JStr ext)]] k))"
  proof
    assume "eq_str ty ''ugoira''"
    with bu have "Url u w \<in> set (yielded (ugoira_branch load_ugoira work1 a))" by blast
    from ugoira_branch_yielded_ext[OF this] obtain ext where
      e: "ext = ''zip'' \<or> ext = ''txt''" and
      o: "\<forall>k. dict_get w k = overlay [work1, [(''extension'', JStr ext)]] k"
      by blast
    have "dict_get w ''type'' = Some ty"
      using keep[OF o, of "''type''"] ty by (simp add: dict_get_Cons dict_get_Nil)
    with e top[OF o] show "dict_get w ''type'' = Some ty
      \<and> (\<exists>ext. (ext = ''zip'' \<or> ext = ''txt'')
            \<and> (\<forall>k. dict_get w k = overlay [stripped work, [(''num'', JStr []), (''tags'', JList names)], metadata, [(''extension'', JStr ext)]] k))"
      by blast
  qed
  have N: "\<not> eq_str ty ''ugoira'' \<longrightarrow>
      dict_get w ''type'' = Some ty
      \<and> (\<exists>pc. dict_get w ''page_count'' = Some pc
            \<and> dict_get work1 ''page_count'' = Some pc
            \<and> (eq_int pc 1 \<longrightarrow>
                 (\<forall>k. dict_get w k =
                    overlay [stripped work, [(''num'', JStr []), (''tags'', JList names)], metadata, [(''extension'', JStr (rpartition2 u CHR ''.''))]] k))
            \<and> (\<not> eq_int pc 1 \<longrightarrow>
                 (\<exists>i. \<forall>k. dict_get w k =
                    overlay [stripped work, [(''num'', JStr []), (''tags'', JList names)], metadata, [(''num'', JStr (''_p'' @ format_02 i)),
                              (''extension'', JStr (rpartition2 u CHR ''.''))]] k)))"
  proof
    assume "\<not> eq_str ty ''ugoira''"
    with bn obtain pc where
      pc: "dict_get work1 ''page_count'' = Some pc" and
      s: "eq_int pc 1 \<longrightarrow> Url u w \<in> set (yielded (single_branch msp work1 a))" and
      m: "\<not> eq_int pc 1 \<longrightarrow> Url u w \<in> set (yielded (pages_branch mp work1 a))"
      by blast
    show "dict_get w ''type'' = Some ty
      \<and> (\<exists>pc. dict_get w ''page_count'' = Some pc
            \<and> dict_get work1 ''page_count'' = Some pc
            \<and> (eq_int pc 1 \<longrightarrow>
                 (\<forall>k. dict_get w k =
                    overlay [stripped work, [(''num'', JStr []), (''tags'', JList names)], metadata, [(''extension'', JStr (rpartition2 u CHR ''.''))]] k))
            \<and> (\<not> eq_int pc 1 \<longrightarrow>
                 (\<exists>i. \<forall>k. dict_get w k =
                    overlay [stripped work, [(''num'', JStr []), (''tags'', JList names)], metadata, [(''num'', JStr (''_p'' @ format_02 i)),
                              (''extension'', JStr (rpartition2 u CHR ''.''))]] k)))"
    proof (cases "eq_int pc 1")
      case True
      with s have "Url u w \<in> set (yielded (single_branch msp work1 a))" by blast
      from single_branch_yielded_ext[OF this]
      have o: "\<forall>k. dict_get w k =
          overlay [work1, [(''extension'', JStr (rpartition2 u CHR ''.''))]] k" .
      have 1: "dict_get w ''type'' = Some ty"
        using keep[OF o, of "''type''"] ty by (simp add: dict_get_Cons dict_get_Nil)
      have 2: "dict_get w ''page_count'' = Some pc"
        using keep[OF o, of "''page_count''"] pc by (simp add: dict_get_Cons dict_get_Nil)
      from 1 2 pc True top[OF o] show ?thesis by blast
    next
      case False
      with m have "Url u w \<in> set (yielded (pages_branch mp work1 a))" by blast
      from pages_branch_yielded_ext[OF this] obtain i where
        o: "\<forall>k. dict_get w k =
          overlay [work1, [(''num'', JStr (''_p'' @ format_02 i)),
                           (''extension'', JStr (rpartition2 u CHR ''.''))]] k"
        by blast
      have 1: "dict_get w ''type'' = Some ty"
        using keep[OF o, of "''type''"] ty by (simp add: dict_get_Cons dict_get_Nil)
      have 2: "dict_get w ''page_count'' = Some pc"
        using keep[OF o, of "''page_count''"] pc by (simp add: dict_get_Cons dict_get_Nil)
      from 1 2 pc False top[OF o] show ?thesis by blast
    qed
  qed
  have W: "dict_get w ''type'' = Some ty" using U N by blast
  have N': "\<not> eq_str ty ''ugoira'' \<longrightarrow>
      (\<exists>pc. dict_get w ''page_count'' = Some pc
            \<and> (dict_get metadata ''page_count'' = None \<longrightarrow> dict_get work ''page_count'' = Some pc)
            \<and> (eq_int pc 1 \<longrightarrow>
                 (\<forall>k. dict_get w k =
                    overlay [stripped work, [(''num'', JStr []), (''tags'', JList names)], metadata, [(''extension'', JStr (rpartition2 u CHR ''.''))]] k))
            \<and> (\<not> eq_int pc 1 \<longrightarrow>
                 (\<exists>i. \<forall>k. dict_get w k =
                    overlay [stripped work, [(''num'', JStr []), (''tags'', JList names)], metadata, [(''num'', JStr (''_p'' @ format_02 i)),
                              (''extension'', JStr (rpartition2 u CHR ''.''))]] k)))"
    using N wpc by metis
  have U': "eq_str ty ''ugoira'' \<longrightarrow>
      (\<exists>ext. (ext = ''zip'' \<or> ext = ''txt'')
            \<and> (\<forall>k. dict_get w k = overlay [stripped work, [(''num'', JStr []), (''tags'', JList names)], metadata, [(''extension'', JStr ext)]] k))"
    using U by blast
  have wty': "dict_get metadata ''type'' = None \<longrightarrow> dict_get work ''type'' = Some ty"
    using wty by blast
  show ?thesis
    by (rule exI[of _ ty], rule exI[of _ tags], rule exI[of _ ts], rule exI[of _ names])
       (intro conjI W wty' t U' N')
qed

lemma sample_pages_yielded:
  "yielded (items_dict lu sample_metadata sample_pages a) =
     [Url ''https://i.pximg.net/img/62568267_p0.png''
        [(''id'', JInt 62568267), (''user'', sample_user_detail),
         (''type'', JStr ''manga''), (''page_count'', JInt 3),
         (''tags'', JList [JStr ''sky'']), (''num'', JStr ''_p00''),
         (''extension'', JStr ''png'')],
      Url ''https://i.pximg.net/img/62568267_p1.jpg''
        [(''id'', JInt 62568267), (''user'', sample_user_detail),
         (''type'', JStr ''manga''), (''page_count'', JInt 3),
         (''tags'', JList [JStr ''sky'']), (''num'', JStr ''_p01''),
         (''extension'', JStr ''jpg'')],
      Url ''https://i.pximg.net/img/62568267_p2.png''
        [(''id'', JInt 62568267), (''user'', sample_user_detail),
         (''type'', JStr ''manga''), (''page_count'', JInt 3),
         (''tags'', JList [JStr ''sky'']), (''num'', JStr ''_p02''),
         (''extension'', JStr ''png'')]]
   \<and> raised (items_dict lu sample_metadata sample_pages a) = None"
proof -
  let ?mp = "JList [JObj [(''image_urls'', JObj [(''original'', JStr ''https://i.pximg.net/img/62568267_p0.png'')])],
                 JObj [(''image_urls'', JObj [(''original'', JStr ''https://i.pximg.net/img/62568267_p1.jpg'')])],
                 JObj [(''image_urls'', JObj [(''original'', JStr ''https://i.pximg.net/img/62568267_p2.png'')])]]"
  let ?w = "[(''id'', JInt 62568267), (''user'', sample_user_detail),
           (''type'', JStr ''manga''), (''page_count'', JInt 3),
           (''tags'', JList [JStr ''sky'']), (''num'', JStr [])]"
  have ty: "dict_get ?w ''type'' = Some (JStr ''manga'')" by (simp add: dict_get_def)
  have tr: "truthy (JInt 173530)" by simp
  from items_dict_branch[OF sample_user_id(2) sample_user_id(4) tr sample_pages_prepare ty,
      of lu a]
  have i: "items_dict lu sample_metadata sample_pages a = pages_branch ?mp ?w a"
    by (simp add: dict_get_def)
  have f2: "format_02 (Suc (Suc 0)) = ''02''"
    using format_02_examples(4) by (simp add: numeral_2_eq_2)
  show ?thesis
    unfolding i
    by (simp add: pages_branch_def dict_get_def dict_set_def Let_def rpartition2_def
        format_02_examples f2)
qed

lemma sample_animation_yielded:
  "yielded (items_dict True sample_metadata sample_animation
      (sample_api (json_response 200 sample_ugoira_body))) =
     [Url ''https://i.pximg.net/zip/66806629_ugoira1920x1080.zip''
        [(''id'', JInt 66806629), (''user'', sample_user_detail),
         (''type'', JStr ''ugoira''), (''page_count'', JInt 1),
         (''tags'', JList [JStr ''gif'']), (''num'', JStr []),
         (''extension'', JStr ''zip'')],
      Url (''text:000000.jpg 100'' @ [CHR 0x0A] @ ''000001.jpg 80'' @ [CHR 0x0A])
        [(''id'', JInt 66806629), (''user'', sample_user_detail),
         (''type'', JStr ''ugoira''), (''page_count'', JInt 1),
         (''tags'', JList [JStr ''gif'']), (''num'', JStr []),
         (''extension'', JStr ''txt'')]]"
proof -
  let ?a = "sample_api (json_response 200 sample_ugoira_body)"
  let ?w1 = "[(''id'', JInt 66806629), (''user'', sample_user_detail),
           (''type'', JStr ''ugoira''), (''page_count'', JInt 1),
           (''tags'', JList [JStr ''gif'']), (''num'', JStr [])]"
  have ty: "dict_get ?w1 ''type'' = Some (JStr ''ugoira'')" by (simp add: dict_get_def)
  have tr: "truthy (JInt 173530)" by simp
  from items_dict_branch[OF sample_user_id(3) sample_user_id(4) tr sample_animation_prepare ty,
      of True ?a]
  have i: "items_dict True sample_metadata sample_animation ?a = ugoira_branch True ?w1 ?a"
    by simp
  obtain x a1 where u: "ugoira_metadata (JInt 66806629) ?a = (x, a1)"
    by (cases "ugoira_metadata (JInt 66806629) ?a")
  with sample_ugoira_metadata[of "JInt 66806629"] have x: "x = Inr sample_ugoira" by simp
  show ?thesis
    unfolding i
    by (simp add: ugoira_branch_def dict_get_def dict_set_def u x sample_ugoira_url
        sample_framelist Let_def)
qed

lemma sample_animation_disabled:
  "items_dict False sample_metadata sample_animation a =
     \<lparr>yielded = [], raised = None,
      work_end = JObj [(''id'', JInt 66806629), (''user'', sample_user_detail),
           (''type'', JStr ''ugoira''), (''page_count'', JInt 1),
           (''tags'', JList [JStr ''gif'']), (''num'', JStr [])],
      api_end = a\<rparr>"
proof -
  let ?w1 = "[(''id'', JInt 66806629), (''user'', sample_user_detail),
           (''type'', JStr ''ugoira''), (''page_count'', JInt 1),
           (''tags'', JList [JStr ''gif'']), (''num'', JStr [])]"
  have ty: "dict_get ?w1 ''type'' = Some (JStr ''ugoira'')" by (simp add: dict_get_def)
  have tr: "truthy (JInt 173530)" by simp
  from items_dict_branch[OF sample_user_id(3) sample_user_id(4) tr sample_animation_prepare ty,
      of False a]
  show ?thesis by (simp add: ugoira_branch_def)
qed

lemma sample_tag_names:
  assumes "list_all2 (\<lambda>t n. subscript t ''name'' = Inr n) ts names"
  shows "iterate (JList [JObj [(''name'', JStr ''sky'')], JObj [(''name'', JStr ''sea'')]]) = Inr ts
           \<longrightarrow> names = [JStr ''sky'', JStr ''sea'']"
    and "iterate (JList [JObj [(''name'', JStr ''sky'')]]) = Inr ts \<longrightarrow> names = [JStr ''sky'']"
    and "iterate (JList [JObj [(''name'', JStr ''gif'')]]) = Inr ts \<longrightarrow> names = [JStr ''gif'']"
  using assms by (auto simp: list_all2_Cons1 dict_get_def)

lemma sample_tags:
  "dict_get sample_single ''tags''
      = Some (JList [JObj [(''name'', JStr ''sky'')], JObj [(''name'', JStr ''sea'')]])"
  "dict_get sample_pages ''tags'' = Some (JList [JObj [(''name'', JStr ''sky'')]])"
  "dict_get sample_animation ''tags'' = Some (JList [JObj [(''name'', JStr ''gif'')]])"
  by (simp_all add: sample_single_def sample_pages_def sample_animation_def dict_get_def)

text \<open>
  The three branches under the sample context: the descriptor of the sample work of one
  image has the extension on top; the second page of the sample work of three pages has
  the page suffix and the extension on top; the archive of the sample animation has the
  extension on top.
\<close>

theorem descriptor_metadata_precedence_witness:
  "distinct (map fst sample_metadata)
   \<and> Url ''https://i.pximg.net/img/966412_p0.png''
       [(''id'', JInt 966412), (''user'', sample_user_detail),
        (''type'', JStr ''illust''), (''page_count'', JInt 1),
        (''tags'', JList [JStr ''sky'', JStr ''sea'']), (''num'', JStr []),
        (''extension'', JStr ''png'')]
      \<in> set (yielded (items_dict True sample_metadata sample_single
                 (sample_api (text_response 404 []))))
   \<and> (\<forall>k. dict_get
              [(''id'', JInt 966412), (''user'', sample_user_detail),
               (''type'', JStr ''illust''), (''page_count'', JInt 1),
               (''tags'', JList [JStr ''sky'', JStr ''sea'']), (''num'', JStr []),
               (''extension'', JStr ''png'')] k =
           overlay [stripped sample_single,
                    [(''num'', JStr []), (''tags'', JList [JStr ''sky'', JStr ''sea''])],
                    sample_metadata,
                    [(''extension'', JStr ''png'')]] k)
   \<and> Url ''https://i.pximg.net/img/62568267_p1.jpg''
        [(''id'', JInt 62568267), (''user'', sample_user_detail),
         (''type'', JStr ''manga''), (''page_count'', JInt 3),
         (''tags'', JList [JStr ''sky'']), (''num'', JStr ''_p01''),
         (''extension'', JStr ''jpg'')]
      \<in> set (yielded (items_dict True sample_metadata sample_pages
                 (sample_api (text_response 404 []))))
   \<and> (\<exists>i. \<forall>k. dict_get
              [(''id'', JInt 62568267), (''user'', sample_user_detail),
               (''type'', JStr ''manga''), (''page_count'', JInt 3),
               (''tags'', JList [JStr ''sky'']), (''num'', JStr ''_p01''),
               (''extension'', JStr ''jpg'')] k =
           overlay [stripped sample_pages,
                    [(''num'', JStr []), (''tags'', JList [JStr ''sky''])],
                    sample_metadata,
                    [(''num'', JStr (''_p'' @ format_02 i)), (''extension'', JStr ''jpg'')]] k)
   \<and> Url ''https://i.pximg.net/zip/66806629_ugoira1920x1080.zip''
        [(''id'', JInt 66806629), (''user'', sample_user_detail),
         (''type'', JStr ''ugoira''), (''page_count'', JInt 1),
         (''tags'', JList [JStr ''gif'']), (''num'', JStr []),
         (''extension'', JStr ''zip'')]
      \<in> set (yielded (items_dict True sample_metadata sample_animation
                 (sample_api (json_response 200 sample_ugoira_body))))
   \<and> (\<exists>ext. (ext = ''zip'' \<or> ext = ''txt'')
        \<and> (\<forall>k. dict_get
              [(''id'', JInt 66806629), (''user'', sample_user_detail),
               (''type'', JStr ''ugoira''), (''page_count'', JInt 1),
               (''tags'', JList [JStr ''gif'']), (''num'', JStr []),
               (''extension'', JStr ''zip'')] k =
           overlay [stripped sample_animation,
                    [(''num'', JStr []), (''tags'', JList [JStr ''gif''])],
                    sample_metadata,
                    [(''extension'', JStr ext)]] k))"
proof -
  let ?a = "sample_api (text_response 404 [])"
  let ?b = "sample_api (json_response 200 sample_ugoira_body)"
  let ?u1 = "''https://i.pximg.net/img/966412_p0.png''"
  let ?w1 = "[(''id'', JInt 966412), (''user'', sample_user_detail),
        (''type'', JStr ''illust''), (''page_count'', JInt 1),
        (''tags'', JList [JStr ''sky'', JStr ''sea'']), (''num'', JStr []),
        (''extension'', JStr ''png'')]"
  let ?u2 = "''https://i.pximg.net/img/62568267_p1.jpg''"
  let ?w2 = "[(''id'', JInt 62568267), (''user'', sample_user_detail),
         (''type'', JStr ''manga''), (''page_count'', JInt 3),
         (''tags'', JList [JStr ''sky'']), (''num'', JStr ''_p01''),
         (''extension'', JStr ''jpg'')]"
  let ?u3 = "''https://i.pximg.net/zip/66806629_ugoira1920x1080.zip''"
  let ?w3 = "[(''id'', JInt 66806629), (''user'', sample_user_detail),
         (''type'', JStr ''ugoira''), (''page_count'', JInt 1),
         (''tags'', JList [JStr ''gif'']), (''num'', JStr []),
         (''extension'', JStr ''zip'')]"
  have d: "distinct (map fst sample_metadata)" by (rule sample_metadata_keys(1))
  have m1: "Url ?u1 ?w1 \<in> set (yielded (items_dict True sample_metadata sample_single ?a))"
    by (simp add: sample_single_yielded)
  have m2: "Url ?u2 ?w2 \<in> set (yielded (items_dict True sample_metadata sample_pages ?a))"
    by (simp add: sample_pages_yielded)
  have m3: "Url ?u3 ?w3 \<in> set (yielded (items_dict True sample_metadata sample_animation ?b))"
    by (simp add: sample_animation_yielded)
  have t1: "dict_get ?w1 ''type'' = Some ty \<Longrightarrow> \<not> eq_str ty ''ugoira''" for ty
    by (auto simp: dict_get_def)
  have p1: "dict_get ?w1 ''page_count'' = Some pc \<Longrightarrow> eq_int pc 1" for pc
    by (auto simp: dict_get_def)
  have t2: "dict_get ?w2 ''type'' = Some ty \<Longrightarrow> \<not> eq_str ty ''ugoira''" for ty
    by (auto simp: dict_get_def)
  have p2: "dict_get ?w2 ''page_count'' = Some pc \<Longrightarrow> \<not> eq_int pc 1" for pc
    by (auto simp: dict_get_def)
  have t3: "dict_get ?w3 ''type'' = Some ty \<Longrightarrow> eq_str ty ''ugoira''" for ty
    by (auto simp: dict_get_def)
  have x1: "rpartition2 ?u1 CHR ''.'' = ''png''" and x2: "rpartition2 ?u2 CHR ''.'' = ''jpg''"
    by (simp_all add: rpartition2_def)
  from descriptor_metadata_precedence[OF d m1] obtain ty tags ts names where
    a: "dict_get ?w1 ''type'' = Some ty"
       "dict_get sample_single ''tags'' = Some tags" "iterate tags = Inr ts"
       "list_all2 (\<lambda>t n. subscript t ''name'' = Inr n) ts names" and
    b: "\<not> eq_str ty ''ugoira'' \<longrightarrow>
         (\<exists>pc. dict_get ?w1 ''page_count'' = Some pc
            \<and> (eq_int pc 1 \<longrightarrow>
                 (\<forall>k. dict_get ?w1 k =
                    overlay [stripped sample_single, [(''num'', JStr []), (''tags'', JList names)],
                             sample_metadata,
                             [(''extension'', JStr (rpartition2 ?u1 CHR ''.''))]] k)))"
    by blast
  from a sample_tags(1) sample_tag_names(1)[OF a(4)]
  have n: "names = [JStr ''sky'', JStr ''sea'']" by simp
  from b t1[OF a(1)] p1 have 1: "\<forall>k. dict_get ?w1 k =
       overlay [stripped sample_single, [(''num'', JStr []), (''tags'', JList names)],
                sample_metadata, [(''extension'', JStr (rpartition2 ?u1 CHR ''.''))]] k"
    by blast
  have r1: "\<forall>k. dict_get ?w1 k =
       overlay [stripped sample_single,
                [(''num'', JStr []), (''tags'', JList [JStr ''sky'', JStr ''sea''])],
                sample_metadata, [(''extension'', JStr ''png'')]] k"
    using 1 unfolding n x1 .
  from descriptor_metadata_precedence[OF d m2] obtain ty tags ts names where
    a: "dict_get ?w2 ''type'' = Some ty"
       "dict_get sample_pages ''tags'' = Some tags" "iterate tags = Inr ts"
       "list_all2 (\<lambda>t n. subscript t ''name'' = Inr n) ts names" and
    b: "\<not> eq_str ty ''ugoira'' \<longrightarrow>
         (\<exists>pc. dict_get ?w2 ''page_count'' = Some pc
            \<and> (\<not> eq_int pc 1 \<longrightarrow>
                 (\<exists>i. \<forall>k. dict_get ?w2 k =
                    overlay [stripped sample_pages, [(''num'', JStr []), (''tags'', JList names)],
                             sample_metadata,
                             [(''num'', JStr (''_p'' @ format_02 i)),
                              (''extension'', JStr (rpartition2 ?u2 CHR ''.''))]] k)))"
    by blast
  from a sample_tags(2) sample_tag_names(2)[OF a(4)]
  have n: "names = [JStr ''sky'']" by simp
  from b t2[OF a(1)] p2 have 2: "\<exists>i. \<forall>k. dict_get ?w2 k =
       overlay [stripped sample_pages, [(''num'', JStr []), (''tags'', JList names)],
                sample_metadata,
                [(''num'', JStr (''_p'' @ format_02 i)),
                 (''extension'', JStr (rpartition2 ?u2 CHR ''.''))]] k"
    by blast
  have r2: "\<exists>i. \<forall>k. dict_get ?w2 k =
       overlay [stripped sample_pages, [(''num'', JStr []), (''tags'', JList [JStr ''sky''])],
                sample_metadata,
                [(''num'', JStr (''_p'' @ format_02 i)), (''extension'', JStr ''jpg'')]] k"
    using 2 unfolding n x2 .
  from descriptor_metadata_precedence[OF d m3] obtain ty tags ts names where
    a: "dict_get ?w3 ''type'' = Some ty"
       "dict_get sample_animation ''tags'' = Some tags" "iterate tags = Inr ts"
       "list_all2 (\<lambda>t n. subscript t ''name'' = Inr n) ts names" and
    b: "eq_str ty ''ugoira'' \<longrightarrow>
         (\<exists>ext. (ext = ''zip'' \<or> ext = ''txt'')
            \<and> (\<forall>k. dict_get ?w3 k =
                  overlay [stripped sample_animation,
                           [(''num'', JStr []), (''tags'', JList names)], sample_metadata,
                           [(''extension'', JStr ext)]] k))"
    by blast
  from a sample_tags(3) sample_tag_names(3)[OF a(4)]
  have n: "names = [JStr ''gif'']" by simp
  from b t3[OF a(1)] have 3: "\<exists>ext. (ext = ''zip'' \<or> ext = ''txt'')
            \<and> (\<forall>k. dict_get ?w3 k =
                  overlay [stripped sample_animation,
                           [(''num'', JStr []), (''tags'', JList names)], sample_metadata,
                           [(''extension'', JStr ext)]] k)"
    by blast
  have r3: "\<exists>ext. (ext = ''zip'' \<or> ext = ''txt'')
            \<and> (\<forall>k. dict_get ?w3 k =
                  overlay [stripped sample_animation,
                           [(''num'', JStr []), (''tags'', JList [JStr ''gif''])], sample_metadata,
                           [(''extension'', JStr ext)]] k)"
    using 3 unfolding n .
  from d m1 r1 m2 r2 m3 r3 show ?thesis by (intro conjI)
qed

text \<open>
  C1 as the spec states it lays the fields of the work over the context. The sample work
  carries its user, the sample context carries the detailed user under the same key: the
  descriptor has the user of the context, where the order of the spec gives the user of
  the work.
\<close>

theorem work_over_context_counterexample:
  "map (metadata_field ''user'')
       (yielded (items_dict True sample_metadata sample_single (sample_api (text_response 404 []))))
     = [Some sample_user_detail]
   \<and> overlay [sample_metadata, stripped sample_single,
               [(''num'', JStr []), (''tags'', JList [JStr ''sky'', JStr ''sea''])],
               [(''extension'', JStr ''png'')]] ''user'' = Some sample_user
   \<and> sample_user_detail \<noteq> sample_user"
  by (simp add: sample_single_yielded metadata_field_def dict_get_Cons dict_get_Nil
      dict_get_stripped)
     (simp add: sample_single_def sample_metadata_def sample_user_def sample_user_detail_def
      dict_get_Cons dict_get_Nil)

subsection \<open>The URL of the archive descriptor\<close>

lemma ugoira_branch_first:
  assumes "subscript (JObj work1) ''id'' = Inr illust_id"
    and "ugoira_metadata illust_id a = (Inr ugoira, a1)"
    and "ugoira_url ugoira = Inr url"
  shows "\<exists>ms. yielded (ugoira_branch True work1 a) =
           Url url (dict_set work1 ''extension'' (JStr ''zip'')) # ms"
  using assms by (simp add: ugoira_branch_def Let_def split: sum.splits)

text \<open>
  C3. Take a context that is a dict without the key \<^verbatim>\<open>type\<close>, and a work of type
  \<^verbatim>\<open>"ugoira"\<close> that is not skipped and passes lines 40 to 47, with animation loading
  enabled. Let the frame metadata be fetched for the id of the work, and let its medium
  URL be \<open>pre\<close>, the marker \<^verbatim>\<open>_ugoira600x600\<close>, \<open>post\<close>, with no marker inside \<open>pre\<close>. Then
  the first descriptor that the loop body yields is the archive, with the extension
  \<^verbatim>\<open>zip\<close>, and its URL is \<open>pre\<close>, the marker \<^verbatim>\<open>_ugoira1920x1080\<close>, and \<open>post\<close> with its
  markers replaced the same way. When the marker occurs once, that is, not in \<open>post\<close>
  either, the URL of the archive descriptor is \<open>pre\<close>, the new marker, \<open>post\<close>: the medium
  URL with the marker replaced and everything around it as it was.
\<close>

theorem ugoira_url_rewrite:
  assumes "distinct (map fst metadata)" and "dict_get metadata ''type'' = None"
    and "subscript (JObj work) ''user'' = Inr user" and "subscript user ''id'' = Inr uid"
    and "truthy uid"
    and "prepare metadata work = Inr (msp, mp, work1)"
    and "dict_get work ''type'' = Some (JStr ''ugoira'')"
    and "subscript (JObj work1) ''id'' = Inr illust_id"
    and "ugoira_metadata illust_id a = (Inr ugoira, a1)"
    and "subscript ugoira ''zip_urls'' = Inr zip_urls"
    and "subscript zip_urls ''medium'' = Inr (JStr (pre @ ''_ugoira600x600'' @ post))"
    and "\<not> sublist ''_ugoira600x600'' pre"
  shows "(\<exists>ms. yielded (items_dict True metadata work a) =
            Url (pre @ ''_ugoira1920x1080''
                   @ replace post ''_ugoira600x600'' ''_ugoira1920x1080'')
                (dict_set work1 ''extension'' (JStr ''zip'')) # ms)
    \<and> metadata_field ''extension'' (hd (yielded (items_dict True metadata work a)))
        = Some (JStr ''zip'')
    \<and> (\<not> sublist ''_ugoira600x600'' post \<longrightarrow>
          message_url (hd (yielded (items_dict True metadata work a)))
            = pre @ ''_ugoira1920x1080'' @ post)"
proof -
  have ty: "dict_get work1 ''type'' = Some (JStr ''ugoira'')"
    using prepare_field[OF assms(6,1,2)] assms(7) by simp
  have i: "items_dict True metadata work a = ugoira_branch True work1 a"
    using items_dict_branch[OF assms(3,4,5,6) ty, of True a] by simp
  from ugoira_url_marker[OF assms(10,11,12)]
  have u: "ugoira_url ugoira =
      Inr (pre @ ''_ugoira1920x1080'' @ replace post ''_ugoira600x600'' ''_ugoira1920x1080'')"
    and v: "\<not> sublist ''_ugoira600x600'' post \<longrightarrow>
      ugoira_url ugoira = Inr (pre @ ''_ugoira1920x1080'' @ post)"
    by blast+
  from ugoira_branch_first[OF assms(8,9) u] obtain ms where
    y: "yielded (items_dict True metadata work a) =
          Url (pre @ ''_ugoira1920x1080''
                 @ replace post ''_ugoira600x600'' ''_ugoira1920x1080'')
              (dict_set work1 ''extension'' (JStr ''zip'')) # ms"
    unfolding i by blast
  have e: "metadata_field ''extension'' (hd (yielded (items_dict True metadata work a)))
      = Some (JStr ''zip'')"
    by (simp add: y metadata_field_def dict_get_set)
  have w: "\<not> sublist ''_ugoira600x600'' post \<longrightarrow>
      message_url (hd (yielded (items_dict True metadata work a)))
        = pre @ ''_ugoira1920x1080'' @ post"
    using u v by (simp add: y)
  from y e w show ?thesis by blast
qed

text \<open>
  The sample animation: the marker occurs once, between the work id and \<^verbatim>\<open>.zip\<close>, and the
  archive descriptor has the URL with the new marker there.
\<close>

theorem ugoira_url_rewrite_witness:
  "distinct (map fst sample_metadata) \<and> dict_get sample_metadata ''type'' = None
   \<and> subscript (JObj sample_animation) ''user'' = Inr sample_user
   \<and> subscript sample_user ''id'' = Inr (JInt 173530) \<and> truthy (JInt 173530)
   \<and> dict_get sample_animation ''type'' = Some (JStr ''ugoira'')
   \<and> fst (ugoira_metadata (JInt 66806629) (sample_api (json_response 200 sample_ugoira_body)))
       = Inr sample_ugoira
   \<and> subscript sample_ugoira ''zip_urls'' =
       Inr (JObj [(''medium'', JStr ''https://i.pximg.net/zip/66806629_ugoira600x600.zip'')])
   \<and> subscript (JObj [(''medium'', JStr ''https://i.pximg.net/zip/66806629_ugoira600x600.zip'')])
        ''medium''
       = Inr (JStr (''https://i.pximg.net/zip/66806629'' @ ''_ugoira600x600'' @ ''.zip''))
   \<and> \<not> sublist ''_ugoira600x600'' ''https://i.pximg.net/zip/66806629''
   \<and> \<not> sublist ''_ugoira600x600'' ''.zip''
   \<and> metadata_field ''extension''
        (hd (yielded (items_dict True sample_metadata sample_animation
               (sample_api (json_response 200 sample_ugoira_body)))))
       = Some (JStr ''zip'')
   \<and> message_url
        (hd (yielded (items_dict True sample_metadata sample_animation
               (sample_api (json_response 200 sample_ugoira_body)))))
       = ''https://i.pximg.net/zip/66806629_ugoira1920x1080.zip''"
proof -
  let ?b = "sample_api (json_response 200 sample_ugoira_body)"
  let ?w1 = "[(''id'', JInt 66806629), (''user'', sample_user_detail),
           (''type'', JStr ''ugoira''), (''page_count'', JInt 1),
           (''tags'', JList [JStr ''gif'']), (''num'', JStr [])]"
  have tr: "truthy (JInt 173530)" by simp
  have ty: "dict_get sample_animation ''type'' = Some (JStr ''ugoira'')"
    by (simp add: sample_animation_def dict_get_def)
  have id: "subscript (JObj ?w1) ''id'' = Inr (JInt 66806629)"
    by (simp add: dict_get_def)
  have f: "fst (ugoira_metadata (JInt 66806629) ?b) = Inr sample_ugoira"
    by (rule sample_ugoira_metadata)
  then have um: "ugoira_metadata (JInt 66806629) ?b
      = (Inr sample_ugoira, snd (ugoira_metadata (JInt 66806629) ?b))"
    by (metis prod.collapse)
  have 1: "subscript sample_ugoira ''zip_urls'' =
     Inr (JObj [(''medium'', JStr ''https://i.pximg.net/zip/66806629_ugoira600x600.zip'')])"
    by (simp add: sample_ugoira_def dict_get_def)
  have 2: "subscript (JObj [(''medium'', JStr ''https://i.pximg.net/zip/66806629_ugoira600x600.zip'')])
        ''medium''
       = Inr (JStr (''https://i.pximg.net/zip/66806629'' @ ''_ugoira600x600'' @ ''.zip''))"
    by (simp add: dict_get_def)
  have 3: "\<not> sublist ''_ugoira600x600'' ''https://i.pximg.net/zip/66806629''"
    by code_simp
  have 4: "\<not> sublist ''_ugoira600x600'' ''.zip''"
    by code_simp
  from ugoira_url_rewrite[OF sample_metadata_keys(1,2) sample_user_id(3,4) tr
      sample_animation_prepare ty id um 1 2 3] 4
  have e: "metadata_field ''extension''
        (hd (yielded (items_dict True sample_metadata sample_animation ?b)))
       = Some (JStr ''zip'')"
    and "message_url (hd (yielded (items_dict True sample_metadata sample_animation ?b)))
       = ''https://i.pximg.net/zip/66806629'' @ ''_ugoira1920x1080'' @ ''.zip''"
    by blast+
  then have m: "message_url (hd (yielded (items_dict True sample_metadata sample_animation ?b)))
       = ''https://i.pximg.net/zip/66806629_ugoira1920x1080.zip''"
    by simp
  from sample_metadata_keys(1,2) sample_user_id(3,4) tr ty f 1 2 3 4 e m
  show ?thesis by (intro conjI)
qed

subsection \<open>The work after the last descriptor\<close>

lemma ugoira_branch_last:
  "(yielded (ugoira_branch load_ugoira work a) = [] \<longrightarrow>
      work_end (ugoira_branch load_ugoira work a) = JObj work)
   \<and> (yielded (ugoira_branch load_ugoira work a) \<noteq> [] \<longrightarrow>
      work_end (ugoira_branch load_ugoira work a)
        = JObj (message_metadata (last (yielded (ugoira_branch load_ugoira work a))))
      \<and> (\<exists>ext. metadata_field ''extension'' (last (yielded (ugoira_branch load_ugoira work a)))
            = Some (JStr ext)))"
  by (auto simp: ugoira_branch_def Let_def dict_get_set metadata_field_def
      split: sum.splits prod.splits)

lemma single_branch_last:
  "(yielded (single_branch msp work a) = [] \<longrightarrow>
      work_end (single_branch msp work a) = JObj work)
   \<and> (yielded (single_branch msp work a) \<noteq> [] \<longrightarrow>
      work_end (single_branch msp work a)
        = JObj (message_metadata (last (yielded (single_branch msp work a))))
      \<and> (\<exists>ext. metadata_field ''extension'' (last (yielded (single_branch msp work a)))
            = Some (JStr ext)))"
  by (auto simp: single_branch_def Let_def dict_get_set metadata_field_def split: sum.splits)

lemma pages_loop_last:
  assumes "fst (snd (pages_loop num imgs work)) = None"
  shows "(fst (pages_loop num imgs work) = [] \<longrightarrow> snd (snd (pages_loop num imgs work)) = work)
   \<and> (fst (pages_loop num imgs work) \<noteq> [] \<longrightarrow>
        snd (snd (pages_loop num imgs work))
          = message_metadata (last (fst (pages_loop num imgs work)))
        \<and> (\<exists>ext. metadata_field ''extension'' (last (fst (pages_loop num imgs work)))
              = Some (JStr ext)))"
  using assms
proof (induction imgs arbitrary: num work)
  case Nil
  show ?case by simp
next
  case (Cons img imgs)
  from Cons.prems obtain image_urls url s where
    iu: "subscript img ''image_urls'' = Inr image_urls" and
    ur: "subscript image_urls ''original'' = Inr url" and
    st: "str_of url = Inr s"
    by (auto simp: Let_def split: sum.splits prod.splits)
  let ?w1 = "dict_set work ''num'' (JStr (''_p'' @ format_02 num))"
  let ?w2 = "dict_set ?w1 ''extension'' (JStr (rpartition2 s CHR ''.''))"
  obtain ms r w3 where p: "pages_loop (Suc num) imgs ?w2 = (ms, r, w3)"
    by (cases "pages_loop (Suc num) imgs ?w2") auto
  have e: "pages_loop num (img # imgs) work = (Url s ?w2 # ms, r, w3)"
    using iu ur st p by (simp add: Let_def)
  from Cons.prems e have r: "r = None" by simp
  from Cons.IH[of "Suc num" ?w2] p r
  have ih: "(ms = [] \<longrightarrow> w3 = ?w2)
     \<and> (ms \<noteq> [] \<longrightarrow> w3 = message_metadata (last ms)
          \<and> (\<exists>ext. metadata_field ''extension'' (last ms) = Some (JStr ext)))"
    by simp
  show ?case
  proof (cases "ms = []")
    case True
    with ih have "w3 = ?w2" by blast
    with True show ?thesis
      unfolding e by (simp add: metadata_field_def dict_get_set)
  next
    case False
    with ih show ?thesis
      unfolding e by simp
  qed
qed

lemma pages_branch_last:
  assumes "raised (pages_branch mp work a) = None"
  shows "(yielded (pages_branch mp work a) = [] \<longrightarrow>
      work_end (pages_branch mp work a) = JObj work)
   \<and> (yielded (pages_branch mp work a) \<noteq> [] \<longrightarrow>
      work_end (pages_branch mp work a)
        = JObj (message_metadata (last (yielded (pages_branch mp work a))))
      \<and> (\<exists>ext. metadata_field ''extension'' (last (yielded (pages_branch mp work a)))
            = Some (JStr ext)))"
proof (cases "iterate mp")
  case (Inl e)
  with assms show ?thesis by (simp add: pages_branch_def)
next
  case (Inr imgs)
  obtain ms r w3 where p: "pages_loop 0 imgs work = (ms, r, w3)"
    by (cases "pages_loop 0 imgs work") auto
  with Inr have b: "pages_branch mp work a =
      \<lparr>yielded = ms, raised = r, work_end = JObj w3, api_end = a\<rparr>"
    by (simp add: pages_branch_def)
  with assms have "r = None" by simp
  with pages_loop_last[of 0 imgs work] p show ?thesis
    unfolding b by simp
qed

text \<open>
  C9, as the code has it. The loop body works on the work record itself. When it ends
  without an exception, the owning user has an id. If that id is false (zero, empty), the
  work is skipped: nothing is yielded and the record is as before. Otherwise the record
  has been changed in place: it had the keys \<^verbatim>\<open>meta_single_page\<close>, \<^verbatim>\<open>image_urls\<close> and
  \<^verbatim>\<open>meta_pages\<close>, and now, apart from \<^verbatim>\<open>num\<close> and \<^verbatim>\<open>extension\<close>, it holds the old record
  without these three keys, with \<^verbatim>\<open>tags\<close> replaced by the list of the tag names, and with
  the context laid over it; and it has a key \<^verbatim>\<open>num\<close>. When descriptors have been yielded,
  the record is the metadata of the last of them, and so holds an extension. When none
  has been yielded (an animation with loading disabled, a work of several images without
  pages), nothing more has been written: the record is the old one without the three
  keys, with the empty \<^verbatim>\<open>num\<close> and the tag names, and with the context laid over it, and
  it has an extension only if the work or the context had one.
\<close>

theorem work_changed_in_place:
  assumes "distinct (map fst metadata)"
    and "raised (items_dict load_ugoira metadata work a) = None"
  shows "\<exists>user uid. subscript (JObj work) ''user'' = Inr user \<and> subscript user ''id'' = Inr uid
    \<and> (\<not> truthy uid \<longrightarrow>
          work_end (items_dict load_ugoira metadata work a) = JObj work
          \<and> yielded (items_dict load_ugoira metadata work a) = [])
    \<and> (truthy uid \<longrightarrow> (\<exists>work' tags ts names.
          work_end (items_dict load_ugoira metadata work a) = JObj work'
        \<and> dict_get work ''tags'' = Some tags \<and> iterate tags = Inr ts
        \<and> list_all2 (\<lambda>t n. subscript t ''name'' = Inr n) ts names
        \<and> dict_get work ''meta_single_page'' \<noteq> None
        \<and> dict_get work ''image_urls'' \<noteq> None
        \<and> dict_get work ''meta_pages'' \<noteq> None
        \<and> dict_get work' ''num'' \<noteq> None
        \<and> (\<forall>k. k \<noteq> ''num'' \<longrightarrow> k \<noteq> ''extension'' \<longrightarrow>
              dict_get work' k =
                overlay [stripped work, [(''tags'', JList names)], metadata] k)
        \<and> (yielded (items_dict load_ugoira metadata work a) \<noteq> [] \<longrightarrow>
              work' = message_metadata (last (yielded (items_dict load_ugoira metadata work a)))
            \<and> (\<exists>ext. dict_get work' ''extension'' = Some (JStr ext)))
        \<and> (yielded (items_dict load_ugoira metadata work a) = [] \<longrightarrow>
              (\<forall>k. dict_get work' k =
                 overlay [stripped work, [(''num'', JStr []), (''tags'', JList names)],
                          metadata] k))))"
proof -
  let ?r = "items_dict load_ugoira metadata work a"
  from items_dict_completed[OF assms(2)] obtain user uid where
    u: "subscript (JObj work) ''user'' = Inr user" "subscript user ''id'' = Inr uid" and
    f: "\<not> truthy uid \<longrightarrow>
          ?r = \<lparr>yielded = [], raised = None, work_end = JObj work, api_end = a\<rparr>" and
    t: "truthy uid \<longrightarrow> (\<exists>msp mp work1.
          prepare metadata work = Inr (msp, mp, work1)
        \<and> (?r = ugoira_branch load_ugoira work1 a
           \<or> ?r = single_branch msp work1 a
           \<or> ?r = pages_branch mp work1 a))"
    by blast
  have "truthy uid \<longrightarrow> (\<exists>work' tags ts names.
          work_end ?r = JObj work'
        \<and> dict_get work ''tags'' = Some tags \<and> iterate tags = Inr ts
        \<and> list_all2 (\<lambda>t n. subscript t ''name'' = Inr n) ts names
        \<and> dict_get work ''meta_single_page'' \<noteq> None
        \<and> dict_get work ''image_urls'' \<noteq> None
        \<and> dict_get work ''meta_pages'' \<noteq> None
        \<and> dict_get work' ''num'' \<noteq> None
        \<and> (\<forall>k. k \<noteq> ''num'' \<longrightarrow> k \<noteq> ''extension'' \<longrightarrow>
              dict_get work' k =
                overlay [stripped work, [(''tags'', JList names)], metadata] k)
        \<and> (yielded ?r \<noteq> [] \<longrightarrow>
              work' = message_metadata (last (yielded ?r))
            \<and> (\<exists>ext. dict_get work' ''extension'' = Some (JStr ext)))
        \<and> (yielded ?r = [] \<longrightarrow>
              (\<forall>k. dict_get work' k =
                 overlay [stripped work, [(''num'', JStr []), (''tags'', JList names)],
                          metadata] k)))"
  proof
    assume "truthy uid"
    with t obtain msp mp work1 where
      p: "prepare metadata work = Inr (msp, mp, work1)" and
      b: "?r = ugoira_branch load_ugoira work1 a
           \<or> ?r = single_branch msp work1 a
           \<or> ?r = pages_branch mp work1 a"
      by blast
    from prepare_lookup[OF p assms(1)] obtain tags ts names where
      tg: "dict_get work ''tags'' = Some tags" "iterate tags = Inr ts"
          "list_all2 (\<lambda>t n. subscript t ''name'' = Inr n) ts names" and
      l: "\<forall>k. dict_get work1 k =
           overlay [stripped work, [(''num'', JStr []), (''tags'', JList names)], metadata] k"
      by blast
    from l have n1: "dict_get work1 ''num'' \<noteq> None"
      by (simp add: dict_get_Cons dict_get_Nil split: option.splits)
    from l have l': "\<forall>k. k \<noteq> ''num'' \<longrightarrow> dict_get work1 k =
           overlay [stripped work, [(''tags'', JList names)], metadata] k"
      by (simp add: dict_get_Cons dict_get_Nil split: option.splits)
    have "\<exists>work'. work_end ?r = JObj work'
      \<and> (\<forall>k. k \<noteq> ''num'' \<longrightarrow> k \<noteq> ''extension'' \<longrightarrow> dict_get work' k = dict_get work1 k)
      \<and> (dict_get work1 ''num'' \<noteq> None \<longrightarrow> dict_get work' ''num'' \<noteq> None)"
      using b
    proof (elim disjE)
      assume i: "?r = ugoira_branch load_ugoira work1 a"
      from ugoira_branch_end[of load_ugoira work1 a] obtain w' where
        "work_end (ugoira_branch load_ugoira work1 a) = JObj w'"
        "\<forall>k. k \<noteq> ''extension'' \<longrightarrow> dict_get w' k = dict_get work1 k"
        by blast
      with i show ?thesis by simp
    next
      assume i: "?r = single_branch msp work1 a"
      from single_branch_end[of msp work1 a] obtain w' where
        "work_end (single_branch msp work1 a) = JObj w'"
        "\<forall>k. k \<noteq> ''extension'' \<longrightarrow> dict_get w' k = dict_get work1 k"
        by blast
      with i show ?thesis by simp
    next
      assume i: "?r = pages_branch mp work1 a"
      from pages_branch_end[of mp work1 a] i show ?thesis by simp
    qed
    then obtain work' where
      e: "work_end ?r = JObj work'" and
      k: "\<forall>k. k \<noteq> ''num'' \<longrightarrow> k \<noteq> ''extension'' \<longrightarrow> dict_get work' k = dict_get work1 k" and
      n: "dict_get work1 ''num'' \<noteq> None \<longrightarrow> dict_get work' ''num'' \<noteq> None"
      by blast
    have la: "(yielded ?r = [] \<longrightarrow> work_end ?r = JObj work1)
      \<and> (yielded ?r \<noteq> [] \<longrightarrow>
           work_end ?r = JObj (message_metadata (last (yielded ?r)))
           \<and> (\<exists>ext. metadata_field ''extension'' (last (yielded ?r)) = Some (JStr ext)))"
      using b
    proof (elim disjE)
      assume i: "?r = ugoira_branch load_ugoira work1 a"
      show ?thesis unfolding i by (rule ugoira_branch_last)
    next
      assume i: "?r = single_branch msp work1 a"
      show ?thesis unfolding i by (rule single_branch_last)
    next
      assume i: "?r = pages_branch mp work1 a"
      with assms(2) have "raised (pages_branch mp work1 a) = None" by simp
      then show ?thesis unfolding i by (rule pages_branch_last)
    qed
    have y1: "yielded ?r \<noteq> [] \<longrightarrow>
              work' = message_metadata (last (yielded ?r))
            \<and> (\<exists>ext. dict_get work' ''extension'' = Some (JStr ext))"
      using la e by (auto simp: metadata_field_def)
    have y0: "yielded ?r = [] \<longrightarrow>
              (\<forall>k. dict_get work' k =
                 overlay [stripped work, [(''num'', JStr []), (''tags'', JList names)],
                          metadata] k)"
    proof
      assume "yielded ?r = []"
      with la e have "work' = work1" by simp
      with l show "\<forall>k. dict_get work' k =
                 overlay [stripped work, [(''num'', JStr []), (''tags'', JList names)],
                          metadata] k"
        by simp
    qed
    from k l' have kk: "\<forall>k. k \<noteq> ''num'' \<longrightarrow> k \<noteq> ''extension'' \<longrightarrow>
              dict_get work' k = overlay [stripped work, [(''tags'', JList names)], metadata] k"
      by simp
    from n n1 have nn: "dict_get work' ''num'' \<noteq> None" by blast
    from prepare_keys[OF p] have
      k1: "dict_get work ''meta_single_page'' \<noteq> None" and
      k2: "dict_get work ''image_urls'' \<noteq> None" and
      k3: "dict_get work ''meta_pages'' \<noteq> None"
      by blast+
    show "\<exists>work' tags ts names.
          work_end ?r = JObj work'
        \<and> dict_get work ''tags'' = Some tags \<and> iterate tags = Inr ts
        \<and> list_all2 (\<lambda>t n. subscript t ''name'' = Inr n) ts names
        \<and> dict_get work ''meta_single_page'' \<noteq> None
        \<and> dict_get work ''image_urls'' \<noteq> None
        \<and> dict_get work ''meta_pages'' \<noteq> None
        \<and> dict_get work' ''num'' \<noteq> None
        \<and> (\<forall>k. k \<noteq> ''num'' \<longrightarrow> k \<noteq> ''extension'' \<longrightarrow>
              dict_get work' k =
                overlay [stripped work, [(''tags'', JList names)], metadata] k)
        \<and> (yielded ?r \<noteq> [] \<longrightarrow>
              work' = message_metadata (last (yielded ?r))
            \<and> (\<exists>ext. dict_get work' ''extension'' = Some (JStr ext)))
        \<and> (yielded ?r = [] \<longrightarrow>
              (\<forall>k. dict_get work' k =
                 overlay [stripped work, [(''num'', JStr []), (''tags'', JList names)],
                          metadata] k))"
      by (rule exI[of _ work'], rule exI[of _ tags], rule exI[of _ ts], rule exI[of _ names])
         (intro conjI e tg k1 k2 k3 nn kk y1 y0)
  qed
  with u f show ?thesis by (intro exI conjI) (assumption, assumption, simp, assumption)
qed

text \<open>
  The sample work of one image is changed in place and ends as the metadata of its
  descriptor, with an extension; the sample animation with loading disabled is changed in
  place, yields nothing and gets no extension; the work of the deleted user is skipped and
  stays as it is.
\<close>

theorem work_changed_in_place_witness:
  "distinct (map fst sample_metadata)
   \<and> subscript sample_user ''id'' = Inr (JInt 173530) \<and> truthy (JInt 173530)
   \<and> raised (items_dict True sample_metadata sample_single (sample_api (text_response 404 []))) = None
   \<and> subscript (JObj sample_single) ''user'' = Inr sample_user
   \<and> yielded (items_dict True sample_metadata sample_single (sample_api (text_response 404 []))) \<noteq> []
   \<and> (\<exists>work'. work_end (items_dict True sample_metadata sample_single
                    (sample_api (text_response 404 []))) = JObj work'
        \<and> dict_get work' ''num'' \<noteq> None
        \<and> dict_get work' ''id'' =
            overlay [stripped sample_single, [(''tags'', JList [JStr ''sky'', JStr ''sea''])],
                     sample_metadata] ''id''
        \<and> work' = message_metadata (last (yielded (items_dict True sample_metadata sample_single
                    (sample_api (text_response 404 [])))))
        \<and> (\<exists>ext. dict_get work' ''extension'' = Some (JStr ext)))
   \<and> raised (items_dict False sample_metadata sample_animation (sample_api (text_response 404 []))) = None
   \<and> subscript (JObj sample_animation) ''user'' = Inr sample_user
   \<and> yielded (items_dict False sample_metadata sample_animation (sample_api (text_response 404 []))) = []
   \<and> (\<exists>work'. work_end (items_dict False sample_metadata sample_animation
                    (sample_api (text_response 404 []))) = JObj work'
        \<and> (\<forall>k. dict_get work' k =
              overlay [stripped sample_animation,
                       [(''num'', JStr []), (''tags'', JList [JStr ''gif''])],
                       sample_metadata] k)
        \<and> dict_get work' ''extension'' = None)
   \<and> raised (items_dict True sample_metadata sample_deleted (sample_api (text_response 404 []))) = None
   \<and> subscript (JObj sample_deleted) ''user'' = Inr (JObj [(''id'', JInt 0)])
   \<and> subscript (JObj [(''id'', JInt 0)]) ''id'' = Inr (JInt 0) \<and> \<not> truthy (JInt 0)
   \<and> work_end (items_dict True sample_metadata sample_deleted (sample_api (text_response 404 [])))
       = JObj sample_deleted"
proof -
  let ?a = "sample_api (text_response 404 [])"
  let ?r1 = "items_dict True sample_metadata sample_single ?a"
  let ?r2 = "items_dict True sample_metadata sample_deleted ?a"
  let ?r3 = "items_dict False sample_metadata sample_animation ?a"
  have d: "distinct (map fst sample_metadata)" by (rule sample_metadata_keys(1))
  have tr: "truthy (JInt 173530)" and nt: "\<not> truthy (JInt 0)" by simp_all
  have r1: "raised ?r1 = None" by (simp add: sample_single_end)
  have r2: "raised ?r2 = None" by (simp add: sample_deleted_end)
  have r3: "raised ?r3 = None" by (simp add: sample_animation_disabled)
  have y1: "yielded ?r1 \<noteq> []" by (simp add: sample_single_yielded)
  have y3: "yielded ?r3 = []" by (simp add: sample_animation_disabled)
  have u2: "subscript (JObj sample_deleted) ''user'' = Inr (JObj [(''id'', JInt 0)])"
    by (simp add: sample_deleted_def dict_get_def)
  have i2: "subscript (JObj [(''id'', JInt 0)]) ''id'' = Inr (JInt 0)"
    by (simp add: dict_get_def)
  note u1 = sample_user_id(1) and u3 = sample_user_id(3) and i1 = sample_user_id(4)
  from work_changed_in_place[OF d r1] obtain user uid where
    a: "subscript (JObj sample_single) ''user'' = Inr user" "subscript user ''id'' = Inr uid" and
    b: "truthy uid \<longrightarrow> (\<exists>work' tags ts names.
          work_end ?r1 = JObj work'
        \<and> dict_get sample_single ''tags'' = Some tags \<and> iterate tags = Inr ts
        \<and> list_all2 (\<lambda>t n. subscript t ''name'' = Inr n) ts names
        \<and> dict_get sample_single ''meta_single_page'' \<noteq> None
        \<and> dict_get sample_single ''image_urls'' \<noteq> None
        \<and> dict_get sample_single ''meta_pages'' \<noteq> None
        \<and> dict_get work' ''num'' \<noteq> None
        \<and> (\<forall>k. k \<noteq> ''num'' \<longrightarrow> k \<noteq> ''extension'' \<longrightarrow>
              dict_get work' k =
                overlay [stripped sample_single, [(''tags'', JList names)], sample_metadata] k)
        \<and> (yielded ?r1 \<noteq> [] \<longrightarrow>
              work' = message_metadata (last (yielded ?r1))
            \<and> (\<exists>ext. dict_get work' ''extension'' = Some (JStr ext)))
        \<and> (yielded ?r1 = [] \<longrightarrow>
              (\<forall>k. dict_get work' k =
                 overlay [stripped sample_single, [(''num'', JStr []), (''tags'', JList names)],
                          sample_metadata] k)))"
    by (elim exE conjE)
  from a u1 i1 have "uid = JInt 173530" by simp
  then have tu: "truthy uid" by simp
  from b tu have "\<exists>work' tags ts names.
          work_end ?r1 = JObj work'
        \<and> dict_get sample_single ''tags'' = Some tags \<and> iterate tags = Inr ts
        \<and> list_all2 (\<lambda>t n. subscript t ''name'' = Inr n) ts names
        \<and> dict_get sample_single ''meta_single_page'' \<noteq> None
        \<and> dict_get sample_single ''image_urls'' \<noteq> None
        \<and> dict_get sample_single ''meta_pages'' \<noteq> None
        \<and> dict_get work' ''num'' \<noteq> None
        \<and> (\<forall>k. k \<noteq> ''num'' \<longrightarrow> k \<noteq> ''extension'' \<longrightarrow>
              dict_get work' k =
                overlay [stripped sample_single, [(''tags'', JList names)], sample_metadata] k)
        \<and> (yielded ?r1 \<noteq> [] \<longrightarrow>
              work' = message_metadata (last (yielded ?r1))
            \<and> (\<exists>ext. dict_get work' ''extension'' = Some (JStr ext)))
        \<and> (yielded ?r1 = [] \<longrightarrow>
              (\<forall>k. dict_get work' k =
                 overlay [stripped sample_single, [(''num'', JStr []), (''tags'', JList names)],
                          sample_metadata] k))"
    by (rule mp)
  then obtain work' tags ts names where
    c: "work_end ?r1 = JObj work'"
       "dict_get sample_single ''tags'' = Some tags" "iterate tags = Inr ts"
       "list_all2 (\<lambda>t n. subscript t ''name'' = Inr n) ts names"
       "dict_get work' ''num'' \<noteq> None"
       "\<forall>k. k \<noteq> ''num'' \<longrightarrow> k \<noteq> ''extension'' \<longrightarrow>
              dict_get work' k =
                overlay [stripped sample_single, [(''tags'', JList names)], sample_metadata] k" and
    c1: "yielded ?r1 \<noteq> [] \<longrightarrow>
              work' = message_metadata (last (yielded ?r1))
            \<and> (\<exists>ext. dict_get work' ''extension'' = Some (JStr ext))" and
    c0: "yielded ?r1 = [] \<longrightarrow>
              (\<forall>k. dict_get work' k =
                 overlay [stripped sample_single, [(''num'', JStr []), (''tags'', JList names)],
                          sample_metadata] k)"
    by (elim exE conjE)
  from c1 y1 have c78: "work' = message_metadata (last (yielded ?r1))
      \<and> (\<exists>ext. dict_get work' ''extension'' = Some (JStr ext))"
    by (rule mp)
  note c7 = conjunct1[OF c78] and c8 = conjunct2[OF c78]
  from c(2,3) sample_tags(1) sample_tag_names(1)[OF c(4)]
  have n: "names = [JStr ''sky'', JStr ''sea'']" by simp
  have ne: "''id'' \<noteq> ''num''" "''id'' \<noteq> ''extension''" by simp_all
  have "dict_get work' ''id'' =
      overlay [stripped sample_single, [(''tags'', JList names)], sample_metadata] ''id''"
    by (rule c(6)[rule_format, OF ne])
  then have id: "dict_get work' ''id'' =
      overlay [stripped sample_single, [(''tags'', JList [JStr ''sky'', JStr ''sea''])],
               sample_metadata] ''id''"
    unfolding n .
  have 1: "\<exists>work'. work_end ?r1 = JObj work'
        \<and> dict_get work' ''num'' \<noteq> None
        \<and> dict_get work' ''id'' =
            overlay [stripped sample_single, [(''tags'', JList [JStr ''sky'', JStr ''sea''])],
                     sample_metadata] ''id''
        \<and> work' = message_metadata (last (yielded ?r1))
        \<and> (\<exists>ext. dict_get work' ''extension'' = Some (JStr ext))"
    by (rule exI[of _ work']) (intro conjI c(1) c(5) id c7 c8)
  from work_changed_in_place[OF d r3] obtain user uid where
    a: "subscript (JObj sample_animation) ''user'' = Inr user" "subscript user ''id'' = Inr uid" and
    b: "truthy uid \<longrightarrow> (\<exists>work' tags ts names.
          work_end ?r3 = JObj work'
        \<and> dict_get sample_animation ''tags'' = Some tags \<and> iterate tags = Inr ts
        \<and> list_all2 (\<lambda>t n. subscript t ''name'' = Inr n) ts names
        \<and> dict_get sample_animation ''meta_single_page'' \<noteq> None
        \<and> dict_get sample_animation ''image_urls'' \<noteq> None
        \<and> dict_get sample_animation ''meta_pages'' \<noteq> None
        \<and> dict_get work' ''num'' \<noteq> None
        \<and> (\<forall>k. k \<noteq> ''num'' \<longrightarrow> k \<noteq> ''extension'' \<longrightarrow>
              dict_get work' k =
                overlay [stripped sample_animation, [(''tags'', JList names)], sample_metadata] k)
        \<and> (yielded ?r3 \<noteq> [] \<longrightarrow>
              work' = message_metadata (last (yielded ?r3))
            \<and> (\<exists>ext. dict_get work' ''extension'' = Some (JStr ext)))
        \<and> (yielded ?r3 = [] \<longrightarrow>
              (\<forall>k. dict_get work' k =
                 overlay [stripped sample_animation, [(''num'', JStr []), (''tags'', JList names)],
                          sample_metadata] k)))"
    by (elim exE conjE)
  from a u3 i1 have "uid = JInt 173530" by simp
  then have tu: "truthy uid" by simp
  from b tu have "\<exists>work' tags ts names.
          work_end ?r3 = JObj work'
        \<and> dict_get sample_animation ''tags'' = Some tags \<and> iterate tags = Inr ts
        \<and> list_all2 (\<lambda>t n. subscript t ''name'' = Inr n) ts names
        \<and> dict_get sample_animation ''meta_single_page'' \<noteq> None
        \<and> dict_get sample_animation ''image_urls'' \<noteq> None
        \<and> dict_get sample_animation ''meta_pages'' \<noteq> None
        \<and> dict_get work' ''num'' \<noteq> None
        \<and> (\<forall>k. k \<noteq> ''num'' \<longrightarrow> k \<noteq> ''extension'' \<longrightarrow>
              dict_get work' k =
                overlay [stripped sample_animation, [(''tags'', JList names)], sample_metadata] k)
        \<and> (yielded ?r3 \<noteq> [] \<longrightarrow>
              work' = message_metadata (last (yielded ?r3))
            \<and> (\<exists>ext. dict_get work' ''extension'' = Some (JStr ext)))
        \<and> (yielded ?r3 = [] \<longrightarrow>
              (\<forall>k. dict_get work' k =
                 overlay [stripped sample_animation, [(''num'', JStr []), (''tags'', JList names)],
                          sample_metadata] k))"
    by (rule mp)
  then obtain work' tags ts names where
    c: "work_end ?r3 = JObj work'"
       "dict_get sample_animation ''tags'' = Some tags" "iterate tags = Inr ts"
       "list_all2 (\<lambda>t n. subscript t ''name'' = Inr n) ts names"
       "dict_get work' ''num'' \<noteq> None"
       "\<forall>k. k \<noteq> ''num'' \<longrightarrow> k \<noteq> ''extension'' \<longrightarrow>
              dict_get work' k =
                overlay [stripped sample_animation, [(''tags'', JList names)], sample_metadata] k" and
    c1: "yielded ?r3 \<noteq> [] \<longrightarrow>
              work' = message_metadata (last (yielded ?r3))
            \<and> (\<exists>ext. dict_get work' ''extension'' = Some (JStr ext))" and
    c0: "yielded ?r3 = [] \<longrightarrow>
              (\<forall>k. dict_get work' k =
                 overlay [stripped sample_animation, [(''num'', JStr []), (''tags'', JList names)],
                          sample_metadata] k)"
    by (elim exE conjE)
  from c0 y3 have c5: "\<forall>k. dict_get work' k =
                 overlay [stripped sample_animation,
                          [(''num'', JStr []), (''tags'', JList names)], sample_metadata] k"
    by (rule mp)
  from c(2,3) sample_tags(3) sample_tag_names(3)[OF c(4)]
  have n: "names = [JStr ''gif'']" by simp
  have o: "\<forall>k. dict_get work' k =
                 overlay [stripped sample_animation,
                          [(''num'', JStr []), (''tags'', JList [JStr ''gif''])],
                          sample_metadata] k"
    using c5 unfolding n .
  have "overlay [stripped sample_animation,
                 [(''num'', JStr []), (''tags'', JList [JStr ''gif''])],
                 sample_metadata] ''extension'' = None"
    by (simp add: sample_metadata_def dict_get_Cons dict_get_Nil dict_get_stripped)
       (simp add: sample_animation_def dict_get_Cons dict_get_Nil)
  with o have x: "dict_get work' ''extension'' = None" by simp
  have 3: "\<exists>work'. work_end ?r3 = JObj work'
        \<and> (\<forall>k. dict_get work' k =
              overlay [stripped sample_animation,
                       [(''num'', JStr []), (''tags'', JList [JStr ''gif''])],
                       sample_metadata] k)
        \<and> dict_get work' ''extension'' = None"
    by (rule exI[of _ work']) (intro conjI c(1) o x)
  from work_changed_in_place[OF d r2] obtain user uid where
    a: "subscript (JObj sample_deleted) ''user'' = Inr user" "subscript user ''id'' = Inr uid" and
    b: "\<not> truthy uid \<longrightarrow> work_end ?r2 = JObj sample_deleted
          \<and> yielded ?r2 = []"
    by (elim exE conjE)
  from a u2 i2 have "uid = JInt 0" by simp
  with b nt have 2: "work_end ?r2 = JObj sample_deleted" by simp
  from d i1 tr r1 u1 y1 1 r3 u3 y3 3 r2 u2 i2 nt 2 show ?thesis by (intro conjI)
qed

text \<open>
  C9 as the spec states it has the record unchanged. The sample work of one image is
  resolved without an exception, and afterwards the record is another one: it had
  \<^verbatim>\<open>meta_pages\<close>, and reading that key now raises \<^verbatim>\<open>KeyError\<close>.
\<close>

theorem work_unchanged_counterexample:
  "raised (items_dict True sample_metadata sample_single (sample_api (text_response 404 []))) = None
   \<and> work_end (items_dict True sample_metadata sample_single (sample_api (text_response 404 [])))
       \<noteq> JObj sample_single
   \<and> dict_get sample_single ''meta_pages'' = Some (JList [])
   \<and> subscript (work_end (items_dict True sample_metadata sample_single
                   (sample_api (text_response 404 [])))) ''meta_pages''
       = Inl (KeyError ''meta_pages'')"
  by (simp add: sample_single_end) (simp add: sample_single_def dict_get_def)

subsection \<open>Pagination\<close>

lemma requests_append: "requests (xs @ ys) = requests xs @ requests ys"
  by (induction xs rule: requests.induct) simp_all

lemma requests_none: "\<forall>u p. Get u p \<notin> set es \<Longrightarrow> requests es = []"
  by (induction es rule: requests.induct) auto

lemma requests_login: "requests (log (snd (login a))) = requests (log a)"
proof -
  from login_frame[of a] obtain es where
    "log (snd (login a)) = log a @ Login # es" and "\<forall>u p. Get u p \<notin> set es"
    by blast
  then show ?thesis by (simp add: requests_append requests_none)
qed

lemma page_of_Some:
  assumes "page_of r = Some (works, nxt)"
  shows "200 \<le> status_code r \<and> status_code r < 400
    \<and> (\<exists>data illusts. response_json r = Inr data \<and> subscript data ''illusts'' = Inr illusts
          \<and> iterate illusts = Inr works \<and> subscript data ''next_url'' = Inr nxt)
    \<and> (truthy nxt \<longrightarrow> (\<exists>s. nxt = JStr s))"
  using assms
  by (auto simp: page_of_def response_json_def split: if_splits option.splits sum.splits
      elim: str_of.elims)

lemma call_page:
  assumes "fst (login a) = Inr ()" and "page_of (get_responses a (gets a)) = Some (works, nxt)"
  shows "\<exists>data illusts a2. call endpoint params a = (Inr data, a2)
    \<and> subscript data ''illusts'' = Inr illusts \<and> iterate illusts = Inr works
    \<and> subscript data ''next_url'' = Inr nxt
    \<and> gets a2 = Suc (gets a) \<and> get_responses a2 = get_responses a
    \<and> fst (login a2) = Inr ()
    \<and> requests (log a2) = requests (log a) @ [(''https://app-api.pixiv.net/'' @ endpoint, params)]"
proof -
  obtain x a1 where xa: "login a = (x, a1)" by (cases "login a")
  with assms(1) have l: "login a = (Inr (), a1)" by simp
  let ?r = "get_responses a (gets a)"
  let ?a2 = "emit (Get (''https://app-api.pixiv.net/'' @ endpoint) params) (a1\<lparr>gets := Suc (gets a1)\<rparr>)"
  from login_frame[of a] l have f: "gets a1 = gets a" "get_responses a1 = get_responses a"
    by simp_all
  from page_of_Some[OF assms(2)] obtain data illusts where
    st: "200 \<le> status_code ?r \<and> status_code ?r < 400" and
    d: "response_json ?r = Inr data" "subscript data ''illusts'' = Inr illusts"
       "iterate illusts = Inr works" "subscript data ''next_url'' = Inr nxt"
    by blast
  have c: "call endpoint params a = (Inr data, ?a2)"
    using st d(1) f by (simp add: call_def l session_get_def Let_def)
  have g: "gets ?a2 = Suc (gets a)" "get_responses ?a2 = get_responses a"
    using f by (simp_all add: emit_def)
  from login_cache[OF assms(1)] l have "cache ?a2 \<noteq> None" by (simp add: emit_def)
  then have lo: "fst (login ?a2) = Inr ()" by (rule login_cached)
  from requests_login[of a] l have "requests (log a1) = requests (log a)" by simp
  then have rq: "requests (log ?a2) =
      requests (log a) @ [(''https://app-api.pixiv.net/'' @ endpoint, params)]"
    by (simp add: emit_def requests_append)
  from c d(2,3,4) g lo rq show ?thesis by blast
qed

lemma pagination_loop_last:
  assumes "fst (login a) = Inr ()" and "page_of (get_responses a (gets a)) = Some (works, nxt)"
    and "\<not> truthy nxt"
  shows "\<exists>a2. pagination_loop endpoint params acc a = Some ((acc @ works, None), a2)
    \<and> requests (log a2) = requests (log a) @ [(''https://app-api.pixiv.net/'' @ endpoint, params)]"
proof -
  from call_page[OF assms(1,2), of endpoint params] obtain data illusts a2 where
    c: "call endpoint params a = (Inr data, a2)"
       "subscript data ''illusts'' = Inr illusts" "iterate illusts = Inr works"
       "subscript data ''next_url'' = Inr nxt" and
    rq: "requests (log a2) = requests (log a) @ [(''https://app-api.pixiv.net/'' @ endpoint, params)]"
    by blast
  have "pagination_loop endpoint params acc a = Some ((acc @ works, None), a2)"
    by (subst pagination_loop.simps) (simp add: c assms(3))
  with rq show ?thesis by blast
qed

lemma pagination_loop_next:
  assumes "fst (login a) = Inr ()" and "page_of (get_responses a (gets a)) = Some (works, JStr s)"
    and "truthy (JStr s)"
  shows "\<exists>a2. pagination_loop endpoint params acc a =
        pagination_loop endpoint (dict_set params ''offset'' (JStr (rpartition2 s CHR ''='')))
          (acc @ works) a2
    \<and> gets a2 = Suc (gets a) \<and> get_responses a2 = get_responses a
    \<and> fst (login a2) = Inr ()
    \<and> requests (log a2) = requests (log a) @ [(''https://app-api.pixiv.net/'' @ endpoint, params)]"
proof -
  from call_page[OF assms(1,2), of endpoint params] obtain data illusts a2 where
    c: "call endpoint params a = (Inr data, a2)"
       "subscript data ''illusts'' = Inr illusts" "iterate illusts = Inr works"
       "subscript data ''next_url'' = Inr (JStr s)" and
    g: "gets a2 = Suc (gets a)" "get_responses a2 = get_responses a" "fst (login a2) = Inr ()"
       "requests (log a2) = requests (log a) @ [(''https://app-api.pixiv.net/'' @ endpoint, params)]"
    by blast
  have "pagination_loop endpoint params acc a =
        pagination_loop endpoint (dict_set params ''offset'' (JStr (rpartition2 s CHR ''='')))
          (acc @ works) a2"
    using assms(3) by (subst pagination_loop.simps) (simp add: c)
  with g show ?thesis by blast
qed

lemma page_params_shift:
  "page_params rs params (Suc n) =
     page_params (\<lambda>n. rs (Suc n))
       (dict_set params ''offset'' (JStr (rpartition2 (next_string (rs 0)) CHR ''=''))) n"
  by (induction n) simp_all

lemma page_fields:
  "page_of r = Some (works, nxt) \<Longrightarrow> page_works r = works \<and> page_next r = nxt"
  by (simp add: page_works_def page_next_def)

lemma pagination_loop_terminates:
  assumes "fst (login a) = Inr ()"
    and "\<And>n. get_responses a (gets a + n) = rs n"
    and "\<And>n. n \<le> N \<Longrightarrow> page_of (rs n) \<noteq> None"
    and "\<not> truthy (page_next (rs N))"
    and "\<And>n. n < N \<Longrightarrow> truthy (page_next (rs n))"
  shows "\<exists>a'. pagination_loop endpoint params acc a =
        Some ((acc @ concat (map (\<lambda>n. page_works (rs n)) [0..<Suc N]), None), a')
    \<and> requests (log a') = requests (log a) @
        map (\<lambda>n. (''https://app-api.pixiv.net/'' @ endpoint, page_params rs params n))
          [0..<Suc N]"
  using assms
proof (induction N arbitrary: a params acc rs)
  case 0
  have r0: "get_responses a (gets a) = rs 0" using "0.prems"(2)[of 0] by simp
  from "0.prems"(3)[of 0] obtain works nxt where
    p: "page_of (rs 0) = Some (works, nxt)"
    by auto
  from page_fields[OF p] "0.prems"(4) have n: "\<not> truthy nxt" by simp
  from pagination_loop_last[OF "0.prems"(1) p[folded r0] n, of endpoint params acc]
    page_fields[OF p]
  show ?case by simp
next
  case (Suc M)
  have r0: "get_responses a (gets a) = rs 0" using Suc.prems(2)[of 0] by simp
  from Suc.prems(3)[of 0] obtain works nxt where
    p: "page_of (rs 0) = Some (works, nxt)"
    by auto
  from Suc.prems(5)[of 0] have "truthy (page_next (rs 0))" by simp
  with page_fields[OF p] have t: "truthy nxt" by simp
  with page_of_Some[OF p] obtain s where s: "nxt = JStr s" by blast
  from p s have ns: "next_string (rs 0) = s"
    by (simp add: next_string_def page_next_def)
  let ?params' = "dict_set params ''offset'' (JStr (rpartition2 s CHR ''=''))"
  let ?rs' = "\<lambda>n. rs (Suc n)"
  from pagination_loop_next[OF Suc.prems(1) p[folded r0, unfolded s] t[unfolded s],
      of endpoint params acc]
  obtain a2 where
    e: "pagination_loop endpoint params acc a = pagination_loop endpoint ?params' (acc @ works) a2"
    and g: "gets a2 = Suc (gets a)" "get_responses a2 = get_responses a"
    and l: "fst (login a2) = Inr ()"
    and rq: "requests (log a2) = requests (log a) @ [(''https://app-api.pixiv.net/'' @ endpoint, params)]"
    by blast
  have h2: "get_responses a2 (gets a2 + n) = ?rs' n" for n
    using Suc.prems(2)[of "Suc n"] by (simp add: g)
  have h3: "page_of (?rs' n) \<noteq> None" if "n \<le> M" for n
    using Suc.prems(3)[of "Suc n"] that by simp
  have h4: "\<not> truthy (page_next (?rs' M))"
    using Suc.prems(4) by simp
  have h5: "truthy (page_next (?rs' n))" if "n < M" for n
    using Suc.prems(5)[of "Suc n"] that by simp
  from Suc.IH[of a2 ?rs' ?params' "acc @ works", OF l h2 h3 h4 h5] obtain a' where
    r: "pagination_loop endpoint ?params' (acc @ works) a2 =
        Some (((acc @ works) @ concat (map (\<lambda>n. page_works (?rs' n)) [0..<Suc M]), None), a')"
    and q: "requests (log a') = requests (log a2) @
        map (\<lambda>n. (''https://app-api.pixiv.net/'' @ endpoint, page_params ?rs' ?params' n))
          [0..<Suc M]"
    by blast
  have w: "(acc @ works) @ concat (map (\<lambda>n. page_works (?rs' n)) [0..<Suc M])
      = acc @ concat (map (\<lambda>n. page_works (rs n)) [0..<Suc (Suc M)])"
    using page_fields[OF p]
    by (subst (2) map_upt_Suc) simp
  have pp: "page_params ?rs' ?params' n = page_params rs params (Suc n)" for n
    using page_params_shift[of rs params n] by (simp add: ns)
  have rr: "requests (log a2) @
        map (\<lambda>n. (''https://app-api.pixiv.net/'' @ endpoint, page_params ?rs' ?params' n))
          [0..<Suc M]
      = requests (log a) @
        map (\<lambda>n. (''https://app-api.pixiv.net/'' @ endpoint, page_params rs params n))
          [0..<Suc (Suc M)]"
    by (subst (2) map_upt_Suc) (simp add: rq pp)
  from e r w q rr show ?case by simp
qed

lemma pagination_loop_returns:
  assumes "pagination_loop endpoint params acc a = Some y"
  shows "fst (login a) = Inr () \<longrightarrow> (\<forall>n. page_of (get_responses a (gets a + n)) \<noteq> None)
    \<longrightarrow> (\<exists>n. \<not> truthy (page_next (get_responses a (gets a + n))))"
  using assms
proof (induct endpoint params acc a y rule: pagination_loop.raw_induct[rotated 1, consumes 1])
  case (1 f endpoint params acc a y)
  show ?case
  proof (intro impI)
    assume lo: "fst (login a) = Inr ()"
      and pg: "\<forall>n. page_of (get_responses a (gets a + n)) \<noteq> None"
    show "\<exists>n. \<not> truthy (page_next (get_responses a (gets a + n)))"
    proof (cases "truthy (page_next (get_responses a (gets a)))")
      case False
      then have "\<not> truthy (page_next (get_responses a (gets a + 0)))" by simp
      then show ?thesis by blast
    next
      case True
      from pg[rule_format, of 0] obtain works nxt where
        p: "page_of (get_responses a (gets a)) = Some (works, nxt)"
        by auto
      from page_fields[OF p] True have t: "truthy nxt" by simp
      with page_of_Some[OF p] obtain s where s: "nxt = JStr s" by blast
      from call_page[OF lo p, of endpoint params] obtain data illusts a2 where
        c: "call endpoint params a = (Inr data, a2)"
           "subscript data ''illusts'' = Inr illusts" "iterate illusts = Inr works"
           "subscript data ''next_url'' = Inr nxt" and
        g: "gets a2 = Suc (gets a)" "get_responses a2 = get_responses a"
           "fst (login a2) = Inr ()"
        by blast
      from 1(2) c t s
      have fy: "f endpoint (dict_set params ''offset'' (JStr (rpartition2 s CHR ''='')))
              (acc @ works) a2 = Some y"
        by simp
      have ih: "fst (login a2) = Inr () \<longrightarrow>
          (\<forall>n. page_of (get_responses a2 (gets a2 + n)) \<noteq> None)
        \<longrightarrow> (\<exists>n. \<not> truthy (page_next (get_responses a2 (gets a2 + n))))"
        by (rule 1(1)[OF fy])
      from ih g(3)
      have "(\<forall>n. page_of (get_responses a2 (gets a2 + n)) \<noteq> None)
        \<longrightarrow> (\<exists>n. \<not> truthy (page_next (get_responses a2 (gets a2 + n))))"
        by (rule mp)
      moreover have "\<forall>n. page_of (get_responses a2 (gets a2 + n)) \<noteq> None"
      proof
        fix n
        from pg[rule_format, of "Suc n"] show "page_of (get_responses a2 (gets a2 + n)) \<noteq> None"
          by (simp add: g)
      qed
      ultimately obtain n where "\<not> truthy (page_next (get_responses a2 (gets a2 + n)))"
        by blast
      then have "\<not> truthy (page_next (get_responses a (gets a + Suc n)))"
        by (simp add: g)
      then show ?thesis by blast
    qed
  qed
qed

text \<open>
  C6. Take an API object whose login succeeds and whose transport answers every request
  from now on with a page: a response with a status from 200 to 399 and a JSON body that
  holds an iterable under \<^verbatim>\<open>illusts\<close> and, under \<^verbatim>\<open>next_url\<close>, a false value (\<^verbatim>\<open>null\<close>,
  empty) or a string. Then \<^verbatim>\<open>_pagination\<close>, drained, comes to an end if and only if some
  page has a false next-page field. If page \<open>N\<close> is the first such page, the generator
  returns after it, without an exception; it has yielded the items of the pages 0 to \<open>N\<close>,
  page after page and each page in its order; and it has sent \<open>N + 1\<close> requests to the
  endpoint, one for each page: the first with the parameters given, each later one with
  the parameters of the request before it and, under \<^verbatim>\<open>offset\<close>, what stands behind the
  last \<^verbatim>\<open>=\<close> of the next-page field of the page before.
\<close>

theorem pagination_pages:
  assumes "fst (login a) = Inr ()"
    and "\<forall>n. page_of (get_responses a (gets a + n)) \<noteq> None"
  shows "((\<exists>r. pagination endpoint params a = Some r)
            = (\<exists>n. \<not> truthy (page_next (get_responses a (gets a + n)))))
    \<and> (\<forall>N. \<not> truthy (page_next (get_responses a (gets a + N)))
           \<and> (\<forall>n<N. truthy (page_next (get_responses a (gets a + n)))) \<longrightarrow>
         (\<exists>a'. pagination endpoint params a =
                 Some ((concat (map (\<lambda>n. page_works (get_responses a (gets a + n)))
                          [0..<Suc N]), None), a')
             \<and> requests (log a') = requests (log a) @
                 map (\<lambda>n. (''https://app-api.pixiv.net/'' @ endpoint,
                            page_params (\<lambda>n. get_responses a (gets a + n)) params n))
                   [0..<Suc N]))"
proof -
  let ?rs = "\<lambda>n. get_responses a (gets a + n)"
  have fwd: "\<exists>a'. pagination endpoint params a =
                 Some ((concat (map (\<lambda>n. page_works (?rs n)) [0..<Suc N]), None), a')
             \<and> requests (log a') = requests (log a) @
                 map (\<lambda>n. (''https://app-api.pixiv.net/'' @ endpoint,
                            page_params ?rs params n)) [0..<Suc N]"
    if f: "\<not> truthy (page_next (?rs N))" and t: "\<forall>n<N. truthy (page_next (?rs n))" for N
  proof -
    have 2: "get_responses a (gets a + n) = ?rs n" for n by simp
    have 3: "page_of (?rs n) \<noteq> None" if "n \<le> N" for n using assms(2) by blast
    have 5: "truthy (page_next (?rs n))" if "n < N" for n using t that by blast
    from pagination_loop_terminates[of a ?rs N endpoint params "[]", OF assms(1) 2 3 f 5]
    show ?thesis by (simp add: pagination_def)
  qed
  have "(\<exists>r. pagination endpoint params a = Some r) = (\<exists>n. \<not> truthy (page_next (?rs n)))"
  proof
    assume "\<exists>r. pagination endpoint params a = Some r"
    then obtain r where "pagination_loop endpoint params [] a = Some r"
      by (auto simp: pagination_def)
    from pagination_loop_returns[OF this] assms
    show "\<exists>n. \<not> truthy (page_next (?rs n))" by blast
  next
    assume "\<exists>n. \<not> truthy (page_next (?rs n))"
    then obtain N where "\<not> truthy (page_next (?rs N))"
      and "\<forall>n<N. truthy (page_next (?rs n))"
      using exists_least_iff[of "\<lambda>n. \<not> truthy (page_next (?rs n))"] by auto
    from fwd[OF this] show "\<exists>r. pagination endpoint params a = Some r" by blast
  qed
  with fwd show ?thesis by blast
qed

lemma sample_paged_api_script:
  "gets sample_paged_api = 0"
  "get_responses sample_paged_api n = (if n = 0 then sample_page_first else sample_page_last)"
  "log sample_paged_api = []"
  by (simp_all add: sample_paged_api_def api_init_def)

lemma sample_page_of:
  "page_of sample_page_first =
     Some ([JObj [(''id'', JInt 1)], JObj [(''id'', JInt 2)]],
           JStr ''https://app-api.pixiv.net/v1/illust/ranking?mode=day&offset=30'')"
  "page_of sample_page_last = Some ([JObj [(''id'', JInt 3)]], JNull)"
  by (simp_all add: page_of_def sample_page_first_def sample_page_last_def json_response_def
      dict_get_def)

lemma sample_offset:
  "rpartition2 ''https://app-api.pixiv.net/v1/illust/ranking?mode=day&offset=30'' CHR ''='' = ''30''"
  by (simp add: rpartition2_def)

text \<open>
  Two pages: the first holds two works and a next-page field that ends in \<^verbatim>\<open>offset=30\<close>,
  the second holds one work and \<^verbatim>\<open>null\<close>. The generator ends after the second page
  with the three works in order, and has asked twice, the second time with the offset 30.
\<close>

theorem pagination_pages_witness:
  "fst (login sample_paged_api) = Inr ()
   \<and> (\<forall>n. page_of (get_responses sample_paged_api (gets sample_paged_api + n)) \<noteq> None)
   \<and> truthy (page_next (get_responses sample_paged_api (gets sample_paged_api + 0)))
   \<and> \<not> truthy (page_next (get_responses sample_paged_api (gets sample_paged_api + Suc 0)))
   \<and> (\<exists>a'. pagination ''v1/illust/ranking'' [(''mode'', JStr ''day'')] sample_paged_api =
              Some (([JObj [(''id'', JInt 1)], JObj [(''id'', JInt 2)], JObj [(''id'', JInt 3)]],
                     None), a')
          \<and> requests (log a') =
              [(''https://app-api.pixiv.net/v1/illust/ranking'', [(''mode'', JStr ''day'')]),
               (''https://app-api.pixiv.net/v1/illust/ranking'',
                [(''mode'', JStr ''day''), (''offset'', JStr ''30'')])])"
proof -
  let ?a = sample_paged_api
  let ?rs = "\<lambda>n. get_responses ?a (gets ?a + n)"
  have lo: "fst (login ?a) = Inr ()"
    by (simp add: sample_paged_api_def login_sample)
  have pg: "\<forall>n. page_of (?rs n) \<noteq> None"
    by (simp add: sample_paged_api_script sample_page_of)
  have t0: "truthy (page_next (?rs 0))"
    by (simp add: sample_paged_api_script sample_page_of page_next_def)
  have f1: "\<not> truthy (page_next (?rs (Suc 0)))"
    by (simp add: sample_paged_api_script sample_page_of page_next_def)
  have lt: "\<forall>n<Suc 0. truthy (page_next (?rs n))"
    using t0 by simp
  from pagination_pages[OF lo pg, of "''v1/illust/ranking''" "[(''mode'', JStr ''day'')]"]
  have "\<forall>N. \<not> truthy (page_next (?rs N)) \<and> (\<forall>n<N. truthy (page_next (?rs n))) \<longrightarrow>
         (\<exists>a'. pagination ''v1/illust/ranking'' [(''mode'', JStr ''day'')] ?a =
                 Some ((concat (map (\<lambda>n. page_works (?rs n)) [0..<Suc N]), None), a')
             \<and> requests (log a') = requests (log ?a) @
                 map (\<lambda>n. (''https://app-api.pixiv.net/'' @ ''v1/illust/ranking'',
                            page_params ?rs [(''mode'', JStr ''day'')] n)) [0..<Suc N])"
    by (rule conjunct2)
  from this[rule_format, of "Suc 0"] f1 lt
  obtain a' where
    r: "pagination ''v1/illust/ranking'' [(''mode'', JStr ''day'')] ?a =
          Some ((concat (map (\<lambda>n. page_works (?rs n)) [0..<Suc (Suc 0)]), None), a')" and
    q: "requests (log a') = requests (log ?a) @
          map (\<lambda>n. (''https://app-api.pixiv.net/'' @ ''v1/illust/ranking'',
                     page_params ?rs [(''mode'', JStr ''day'')] n)) [0..<Suc (Suc 0)]"
    by blast
  have w: "concat (map (\<lambda>n. page_works (?rs n)) [0..<Suc (Suc 0)])
      = [JObj [(''id'', JInt 1)], JObj [(''id'', JInt 2)], JObj [(''id'', JInt 3)]]"
    by (simp add: sample_paged_api_script sample_page_of page_works_def)
  have p: "requests (log ?a) @
          map (\<lambda>n. (''https://app-api.pixiv.net/'' @ ''v1/illust/ranking'',
                     page_params ?rs [(''mode'', JStr ''day'')] n)) [0..<Suc (Suc 0)]
      = [(''https://app-api.pixiv.net/v1/illust/ranking'', [(''mode'', JStr ''day'')]),
         (''https://app-api.pixiv.net/v1/illust/ranking'',
          [(''mode'', JStr ''day''), (''offset'', JStr ''30'')])]"
    by (simp add: sample_paged_api_script sample_page_of next_string_def page_next_def
        sample_offset dict_set_def)
  from r q have "\<exists>a'. pagination ''v1/illust/ranking'' [(''mode'', JStr ''day'')] ?a =
              Some (([JObj [(''id'', JInt 1)], JObj [(''id'', JInt 2)], JObj [(''id'', JInt 3)]],
                     None), a')
          \<and> requests (log a') =
              [(''https://app-api.pixiv.net/v1/illust/ranking'', [(''mode'', JStr ''day'')]),
               (''https://app-api.pixiv.net/v1/illust/ranking'',
                [(''mode'', JStr ''day''), (''offset'', JStr ''30'')])]"
    unfolding w p by (intro exI conjI)
  with lo pg t0 f1 show ?thesis by (intro conjI)
qed

end
